theory Spec2Isabelle
  imports Complex_Main "HOL-Library.Word" "HOL-Library.Log_Nat" "HOL-Library.Sublist"
begin

section \<open>The downloader module of the chat bot (src/modules/downloader.js)\<close>

text \<open>
  The module is JavaScript running on Node. Its handlers read loosely typed JSON, build
  captions with template literals, and talk to the network and to the host bot. The
  embedding therefore has three layers:
  \<^item> the JavaScript values the code touches (strings as UTF-16 code units, numbers as
    IEEE binary64 values, JSON arrays and objects) with the coercions the code relies on
    (\<open>Number(x)\<close>, \<open>`${x}`\<close>, \<open>!x\<close>, property reads, \<open>toFixed\<close>);
  \<^item> effects as explicit state passing over a trace of events, with the network and the
    host bot given as an environment, and thrown errors as the left summand of a result;
  \<^item> the methods of \<open>DownloaderModule\<close>, one definition each, in source order.
\<close>

subsection \<open>Strings\<close>

text \<open>A JavaScript string is a sequence of UTF-16 code units.\<close>

type_synonym jsstring = "16 word list"

text \<open>An ASCII literal of the source, as code units.\<close>

definition str :: "string \<Rightarrow> jsstring" where
  "str s = map (\<lambda>c. of_nat (of_char c)) s"

definition digit :: "nat \<Rightarrow> 16 word" where
  "digit d = of_nat (48 + d)"

text \<open>The decimal digits of a natural number, most significant first.\<close>

fun dec :: "nat \<Rightarrow> jsstring" where
  "dec n = (if n < 10 then [digit n] else dec (n div 10) @ [digit (n mod 10)])"

declare dec.simps [simp del]

text \<open>\<open>s.split(sep)[0]\<close> for a non-empty separator: the part of \<open>s\<close> before the first
  occurrence of \<open>sep\<close>, all of \<open>s\<close> when there is none.\<close>

fun split_head :: "jsstring \<Rightarrow> jsstring \<Rightarrow> jsstring" where
  "split_head sep [] = []"
| "split_head sep (c # cs) = (if prefix sep (c # cs) then [] else c # split_head sep cs)"

subsection \<open>Numbers\<close>

text \<open>
  A JavaScript number is an IEEE 754 binary64 value. A finite one is carried as the
  rational it denotes; the two zeros are one value here, since nothing in the module
  tells them apart (\<open>-0 < 1000\<close>, \<open>String(-0)\<close> is \<open>"0"\<close>).
\<close>

datatype jsnum = NaN | PInf | NInf | Fin rat

text \<open>\<open>ilog b q\<close> is \<open>\<lfloor>log\<^sub>b q\<rfloor>\<close> for a positive rational \<open>q\<close>.\<close>

definition ilog :: "nat \<Rightarrow> rat \<Rightarrow> int" where
  "ilog b q =
     (let (n, d) = quotient_of q;
          k = int (floorlog b (nat n)) - int (floorlog b (nat d))
      in if of_nat b powi k \<le> q then k else k - 1)"

text \<open>Rounding to the nearest integer, ties to even.\<close>

definition rne :: "rat \<Rightarrow> int" where
  "rne r =
     (let f = \<lfloor>r\<rfloor>; d = r - of_int f
      in if d < 1 / 2 then f else if 1 / 2 < d then f + 1
         else if even f then f else f + 1)"

text \<open>
  Rounding a real result to binary64, round-to-nearest-even: 53 significant bits, the
  least exponent of a unit in the last place \<open>-1074\<close> (subnormals), overflow to infinity
  from \<open>2\<^sup>1\<^sup>0\<^sup>2\<^sup>4\<close> (\<open>overflow_bound\<close>).
\<close>

definition overflow_bound :: rat where
  "overflow_bound = 2 ^ 1024"

definition fl :: "rat \<Rightarrow> jsnum" where
  "fl q =
     (if q = 0 then Fin 0
      else
        let a = \<bar>q\<bar>;
            e = max (ilog 2 a - 52) (- 1074);
            v = of_int (rne (a / 2 powi e)) * 2 powi e
        in if overflow_bound \<le> v then (if q < 0 then NInf else PInf)
           else Fin (if q < 0 then - v else v))"

definition isNaN :: "jsnum \<Rightarrow> bool" where
  "isNaN x \<longleftrightarrow> x = NaN"

text \<open>\<open>x < y\<close> on numbers: false as soon as one side is \<open>NaN\<close>.\<close>

fun num_less :: "jsnum \<Rightarrow> jsnum \<Rightarrow> bool" where
  "num_less NaN _ = False"
| "num_less _ NaN = False"
| "num_less (Fin a) (Fin b) = (a < b)"
| "num_less NInf NInf = False"
| "num_less NInf _ = True"
| "num_less _ NInf = False"
| "num_less PInf _ = False"
| "num_less _ PInf = True"

text \<open>\<open>x / d\<close> and \<open>x - d\<close> for a finite \<open>d\<close>, positive in the division: the two
  arithmetic operations of the module (\<open>number / 1000\<close>, \<open>number / 1000000\<close>,
  \<open>length - 1\<close>).\<close>

fun num_div :: "jsnum \<Rightarrow> rat \<Rightarrow> jsnum" where
  "num_div (Fin a) d = fl (a / d)"
| "num_div x d = x"

fun num_minus :: "jsnum \<Rightarrow> rat \<Rightarrow> jsnum" where
  "num_minus (Fin a) d = fl (a - d)"
| "num_minus x d = x"

subsubsection \<open>Number to string\<close>

text \<open>
  \<open>Number::toString\<close> in radix 10 (ECMA-262): for a positive finite \<open>x\<close>, integers
  \<open>n\<close>, \<open>k\<close>, \<open>s\<close> with \<open>10\<^sup>k\<^sup>-\<^sup>1 \<le> s < 10\<^sup>k\<close>, \<open>s \<times> 10\<^sup>n\<^sup>-\<^sup>k\<close> rounding to \<open>x\<close>
  and \<open>k\<close> as small as possible; of several \<open>s\<close>, the one closest to \<open>x\<close>.
  With \<open>p = \<lfloor>log\<^sub>1\<^sub>0 x\<rfloor>\<close>, the candidates with \<open>k\<close> digits are the two neighbours of \<open>x\<close>
  on the grid of step \<open>10\<^sup>p\<^sup>+\<^sup>1\<^sup>-\<^sup>k\<close>.
\<close>

definition digits_at :: "rat \<Rightarrow> int \<Rightarrow> nat \<Rightarrow> (int \<times> nat) option" where
  "digits_at x p k =
     (let scale = 10 powi (p + 1 - int k);
          lo = \<lfloor>x / scale\<rfloor>;
          lo_ok = (fl (of_int lo * scale) = Fin x);
          hi_ok = (fl (of_int (lo + 1) * scale) = Fin x);
          dl = x - of_int lo * scale;
          dh = of_int (lo + 1) * scale - x;
          s = (if lo_ok \<and> hi_ok
               then (if dl < dh \<or> (dl = dh \<and> even lo) then lo else lo + 1)
               else if lo_ok then lo else lo + 1)
      in if lo_ok \<or> hi_ok
         then (if s = 10 ^ k then Some (p + 2, 10 ^ (k - 1)) else Some (p + 1, nat s))
         else None)"

fun shortest_from :: "rat \<Rightarrow> int \<Rightarrow> nat \<Rightarrow> nat \<Rightarrow> int \<times> nat \<times> nat" where
  "shortest_from x p k 0 = (p + 1, k, nat \<lfloor>x / 10 powi (p + 1 - int k)\<rfloor>)"
| "shortest_from x p k (Suc fuel) =
     (case digits_at x p k of
        Some (n, s) \<Rightarrow> (n, k, s)
      | None \<Rightarrow> shortest_from x p (Suc k) fuel)"

text \<open>Seventeen significant digits always identify a binary64 value, so the search
  from \<open>k = 1\<close> ends within them.\<close>

definition shortest_digits :: "rat \<Rightarrow> int \<times> nat \<times> nat" where
  "shortest_digits x = shortest_from x (ilog 10 x) 1 17"

definition format_digits :: "int \<times> nat \<times> nat \<Rightarrow> jsstring" where
  "format_digits nks =
     (let (n, k, s) = nks; ds = dec s in
      if int k \<le> n \<and> n \<le> 21 then ds @ replicate (nat n - k) (digit 0)
      else if 0 < n \<and> n \<le> 21 then take (nat n) ds @ str ''.'' @ drop (nat n) ds
      else if - 6 < n \<and> n \<le> 0 then str ''0.'' @ replicate (nat (- n)) (digit 0) @ ds
      else
        let e = n - 1;
            ex = str (if e < 0 then ''-'' else ''+'') @ dec (nat \<bar>e\<bar>)
        in if k = 1 then ds @ str ''e'' @ ex
           else take 1 ds @ str ''.'' @ drop 1 ds @ str ''e'' @ ex)"

text \<open>
  An integer below \<open>2\<^sup>5\<^sup>3\<close> is a binary64 value, and the digits that identify it are
  its own without the trailing zeros, which the format puts back: it prints as its
  decimal numeral. The definition says so directly; every other value goes through the
  search.
\<close>

definition pos_toString :: "rat \<Rightarrow> jsstring" where
  "pos_toString x =
     (if of_int \<lfloor>x\<rfloor> = x \<and> x < 9007199254740992 then dec (nat \<lfloor>x\<rfloor>)
      else format_digits (shortest_digits x))"

fun num_toString :: "jsnum \<Rightarrow> jsstring" where
  "num_toString NaN = str ''NaN''"
| "num_toString PInf = str ''Infinity''"
| "num_toString NInf = str ''-Infinity''"
| "num_toString (Fin q) =
     (if q = 0 then str ''0''
      else if q < 0 then str ''-'' @ pos_toString (- q)
      else pos_toString q)"

text \<open>
  \<open>Number.prototype.toFixed(f)\<close> for \<open>0 \<le> f \<le> 100\<close> (the module calls it with \<open>f = 1\<close>):
  a non-finite number prints as \<open>toString\<close> does, and so does a magnitude from \<open>10\<^sup>2\<^sup>1\<close>;
  below, the integer \<open>n\<close> with \<open>n / 10\<^sup>f\<close> nearest to the magnitude, the larger one of two,
  printed with \<open>f\<close> digits after the point.
\<close>

definition toFixed :: "jsnum \<Rightarrow> nat \<Rightarrow> jsstring" where
  "toFixed x f =
     (case x of
        Fin q \<Rightarrow>
          (let sgn = (if q < 0 then str ''-'' else []); a = \<bar>q\<bar> in
           if 10 ^ 21 \<le> a then sgn @ pos_toString a
           else
             let n = nat \<lfloor>a * 10 ^ f + 1 / 2\<rfloor>;
                 m = dec n;
                 m = (if f \<noteq> 0 \<and> length m \<le> f
                      then replicate (f + 1 - length m) (digit 0) @ m else m)
             in if f \<noteq> 0
                then sgn @ take (length m - f) m @ str ''.'' @ drop (length m - f) m
                else sgn @ m)
      | _ \<Rightarrow> num_toString x)"

subsubsection \<open>String to number\<close>

text \<open>\<open>StringToNumber\<close> (ECMA-262): white space is trimmed, the empty string is \<open>0\<close>,
  then a binary, octal or hexadecimal integer literal, or an optionally signed decimal
  literal or \<open>Infinity\<close>; anything else is \<open>NaN\<close>.\<close>

definition is_ws :: "16 word \<Rightarrow> bool" where
  "is_ws c \<longleftrightarrow>
     c \<in> set [0x9, 0xA, 0xB, 0xC, 0xD, 0x20, 0xA0, 0x1680, 0x2028, 0x2029, 0x202F,
              0x205F, 0x3000, 0xFEFF] \<or> (0x2000 \<le> c \<and> c \<le> 0x200A)"

definition trim_ws :: "jsstring \<Rightarrow> jsstring" where
  "trim_ws s = rev (dropWhile is_ws (rev (dropWhile is_ws s)))"

definition digit_val :: "16 word \<Rightarrow> nat option" where
  "digit_val c =
     (if 0x30 \<le> c \<and> c \<le> 0x39 then Some (unat c - 48)
      else if 0x61 \<le> c \<and> c \<le> 0x66 then Some (unat c - 87)
      else if 0x41 \<le> c \<and> c \<le> 0x46 then Some (unat c - 55)
      else None)"

definition is_digit_in :: "nat \<Rightarrow> 16 word \<Rightarrow> bool" where
  "is_digit_in r c = (case digit_val c of Some d \<Rightarrow> d < r | None \<Rightarrow> False)"

definition digits_value :: "nat \<Rightarrow> jsstring \<Rightarrow> nat" where
  "digits_value r s =
     foldl (\<lambda>acc c. acc * r + (case digit_val c of Some d \<Rightarrow> d | None \<Rightarrow> 0)) 0 s"

definition all_digits :: "nat \<Rightarrow> jsstring \<Rightarrow> bool" where
  "all_digits r s \<longleftrightarrow> s \<noteq> [] \<and> list_all (is_digit_in r) s"

text \<open>The exponent part that may follow a decimal mantissa.\<close>

definition parse_exponent :: "jsstring \<Rightarrow> int option" where
  "parse_exponent s =
     (case s of
        [] \<Rightarrow> Some 0
      | c # t \<Rightarrow>
          if c = 0x65 \<or> c = 0x45 then
            (case t of
               [] \<Rightarrow> None
             | d # u \<Rightarrow>
                 if d = 0x2D then
                   (if all_digits 10 u then Some (- int (digits_value 10 u)) else None)
                 else if d = 0x2B then
                   (if all_digits 10 u then Some (int (digits_value 10 u)) else None)
                 else if all_digits 10 t then Some (int (digits_value 10 t)) else None)
          else None)"

definition parse_decimal :: "jsstring \<Rightarrow> rat option" where
  "parse_decimal s =
     (let ip = takeWhile (is_digit_in 10) s;
          r1 = dropWhile (is_digit_in 10) s;
          (fp, r2) =
            (case r1 of
               [] \<Rightarrow> ([], [])
             | c # t \<Rightarrow>
                 if c = 0x2E
                 then (takeWhile (is_digit_in 10) t, dropWhile (is_digit_in 10) t)
                 else ([], r1))
      in if ip = [] \<and> fp = [] then None
         else case parse_exponent r2 of
                None \<Rightarrow> None
              | Some e \<Rightarrow>
                  Some (of_nat (digits_value 10 (ip @ fp)) * 10 powi (e - int (length fp))))"

definition radix_prefix :: "jsstring \<Rightarrow> (nat \<times> jsstring) option" where
  "radix_prefix t =
     (case t of
        c0 # c1 # ds \<Rightarrow>
          if c0 \<noteq> 0x30 then None
          else if c1 = 0x78 \<or> c1 = 0x58 then Some (16, ds)
          else if c1 = 0x6F \<or> c1 = 0x4F then Some (8, ds)
          else if c1 = 0x62 \<or> c1 = 0x42 then Some (2, ds)
          else None
      | _ \<Rightarrow> None)"

definition stringToNumber :: "jsstring \<Rightarrow> jsnum" where
  "stringToNumber s =
     (let t = trim_ws s in
      if t = [] then Fin 0
      else
        case radix_prefix t of
          Some (r, ds) \<Rightarrow> if all_digits r ds then fl (of_nat (digits_value r ds)) else NaN
        | None \<Rightarrow>
            let neg = (take 1 t = str ''-'');
                u = (if take 1 t = str ''-'' \<or> take 1 t = str ''+'' then drop 1 t else t)
            in if u = str ''Infinity'' then (if neg then NInf else PInf)
               else case parse_decimal u of
                      None \<Rightarrow> NaN
                    | Some q \<Rightarrow> fl (if neg then - q else q))"

subsection \<open>Values\<close>

text \<open>
  The values the module handles: what \<open>response.json()\<close> yields (\<open>null\<close>, booleans,
  numbers, strings, arrays, objects with their own properties in order, each key once)
  and \<open>undefined\<close>, the value of a missing property.
\<close>

datatype jsval =
    JUndefined
  | JNull
  | JBool bool
  | JNum jsnum
  | JStr jsstring
  | JArr "jsval list"
  | JObj "(jsstring \<times> jsval) list"

text \<open>What the module can throw or catch: an error object with its \<open>message\<close>.\<close>

datatype error = Error jsstring | TypeError jsstring | URIError jsstring

fun message :: "error \<Rightarrow> jsstring" where
  "message (Error m) = m"
| "message (TypeError m) = m"
| "message (URIError m) = m"

text \<open>Sequencing of steps that may throw.\<close>

definition bindE :: "error + 'a \<Rightarrow> ('a \<Rightarrow> error + 'b) \<Rightarrow> error + 'b" where
  "bindE r f = (case r of Inl e \<Rightarrow> Inl e | Inr x \<Rightarrow> f x)"

text \<open>
  \<open>String(v)\<close>, the conversion a template literal applies. An array joins its
  elements with commas, \<open>undefined\<close> and \<open>null\<close> elements as the empty string. An
  object is converted by its \<open>toString\<close> method, which for a parsed JSON object is
  \<open>Object.prototype.toString\<close> unless the object has a \<open>toString\<close> key of its own: that
  value is no function, \<open>valueOf\<close> yields no primitive either, and the conversion throws.
\<close>

definition not_primitive :: error where
  "not_primitive = TypeError (str ''Cannot convert object to primitive value'')"

fun toString :: "jsval \<Rightarrow> error + jsstring"
  and join_elems :: "jsval list \<Rightarrow> error + jsstring" where
  "toString JUndefined = Inr (str ''undefined'')"
| "toString JNull = Inr (str ''null'')"
| "toString (JBool b) = Inr (str (if b then ''true'' else ''false''))"
| "toString (JNum x) = Inr (num_toString x)"
| "toString (JStr s) = Inr s"
| "toString (JArr xs) = join_elems xs"
| "toString (JObj kvs) =
     (if map_of kvs (str ''toString'') = None then Inr (str ''[object Object]'')
      else Inl not_primitive)"
| "join_elems [] = Inr []"
| "join_elems (v # vs) =
     (case (if v = JUndefined \<or> v = JNull then Inr [] else toString v) of
        Inl e \<Rightarrow> Inl e
      | Inr s \<Rightarrow>
          if vs = [] then Inr s
          else (case join_elems vs of Inl e \<Rightarrow> Inl e | Inr r \<Rightarrow> Inr (s @ str '','' @ r)))"

text \<open>\<open>Number(v)\<close>: arrays and objects go through their string form, and throw when
  that does.\<close>

fun toNumber :: "jsval \<Rightarrow> error + jsnum" where
  "toNumber JUndefined = Inr NaN"
| "toNumber JNull = Inr (Fin 0)"
| "toNumber (JBool b) = Inr (Fin (if b then 1 else 0))"
| "toNumber (JNum x) = Inr x"
| "toNumber (JStr s) = Inr (stringToNumber s)"
| "toNumber (JArr xs) = bindE (toString (JArr xs)) (\<lambda>s. Inr (stringToNumber s))"
| "toNumber (JObj kvs) = bindE (toString (JObj kvs)) (\<lambda>s. Inr (stringToNumber s))"

text \<open>\<open>!!v\<close>.\<close>

fun truthy :: "jsval \<Rightarrow> bool" where
  "truthy JUndefined = False"
| "truthy JNull = False"
| "truthy (JBool b) = b"
| "truthy (JNum x) = (x \<noteq> NaN \<and> x \<noteq> Fin 0)"
| "truthy (JStr s) = (s \<noteq> [])"
| "truthy (JArr xs) = True"
| "truthy (JObj kvs) = True"

definition cannot_read :: "string \<Rightarrow> jsstring \<Rightarrow> error" where
  "cannot_read base p =
     TypeError (str ''Cannot read properties of '' @ str base @ str '' (reading '' @
                [0x27] @ p @ [0x27] @ str '')'')"

text \<open>
  A property read \<open>v.p\<close> or \<open>v[p]\<close>, the key as a string. Reading from \<open>undefined\<close> or
  \<open>null\<close> throws. An array or a string has \<open>length\<close> and its index keys. The other
  names the module reads (\<open>data\<close>, \<open>hd\<close>, \<open>url\<close>, ...) are no built-in property of any
  prototype, so they are \<open>undefined\<close> unless an object has them as its own.
\<close>

fun get_prop :: "jsval \<Rightarrow> jsstring \<Rightarrow> error + jsval" where
  "get_prop JUndefined p = Inl (cannot_read ''undefined'' p)"
| "get_prop JNull p = Inl (cannot_read ''null'' p)"
| "get_prop (JObj kvs) p = Inr (case map_of kvs p of Some v \<Rightarrow> v | None \<Rightarrow> JUndefined)"
| "get_prop (JArr xs) p =
     Inr (if p = str ''length'' then JNum (Fin (of_nat (length xs)))
          else case find (\<lambda>i. dec i = p) [0..<length xs] of
                 Some i \<Rightarrow> xs ! i
               | None \<Rightarrow> JUndefined)"
| "get_prop (JStr s) p =
     Inr (if p = str ''length'' then JNum (Fin (of_nat (length s)))
          else case find (\<lambda>i. dec i = p) [0..<length s] of
                 Some i \<Rightarrow> JStr [s ! i]
               | None \<Rightarrow> JUndefined)"
| "get_prop (JBool b) p = Inr JUndefined"
| "get_prop (JNum x) p = Inr JUndefined"

text \<open>\<open>v[i]\<close> with a number as the key.\<close>

definition get_index :: "jsval \<Rightarrow> jsnum \<Rightarrow> error + jsval" where
  "get_index v i = get_prop v (num_toString i)"

text \<open>\<open>Array.isArray(v)\<close>.\<close>

fun isArray :: "jsval \<Rightarrow> bool" where
  "isArray (JArr xs) = True"
| "isArray _ = False"

subsection \<open>\<open>encodeURIComponent\<close>\<close>

text \<open>Every code point outside the unreserved set is replaced by the percent-escaped
  bytes of its UTF-8 encoding; a surrogate without its partner throws \<open>URIError\<close>.\<close>

definition unreserved :: "16 word \<Rightarrow> bool" where
  "unreserved c \<longleftrightarrow>
     (0x41 \<le> c \<and> c \<le> 0x5A) \<or> (0x61 \<le> c \<and> c \<le> 0x7A) \<or> (0x30 \<le> c \<and> c \<le> 0x39) \<or>
     c \<in> set (str ''-_.!~*'()'')"

definition hexdigit :: "nat \<Rightarrow> 16 word" where
  "hexdigit n = of_nat (if n < 10 then 48 + n else 55 + n)"

definition percent :: "nat \<Rightarrow> jsstring" where
  "percent b = [0x25, hexdigit (b div 16), hexdigit (b mod 16)]"

definition utf8 :: "nat \<Rightarrow> nat list" where
  "utf8 cp =
     (if cp < 0x80 then [cp]
      else if cp < 0x800 then [0xC0 + cp div 64, 0x80 + cp mod 64]
      else if cp < 0x10000
        then [0xE0 + cp div 4096, 0x80 + cp div 64 mod 64, 0x80 + cp mod 64]
      else [0xF0 + cp div 262144, 0x80 + cp div 4096 mod 64, 0x80 + cp div 64 mod 64,
            0x80 + cp mod 64])"

definition escape :: "nat \<Rightarrow> jsstring" where
  "escape cp = concat (map percent (utf8 cp))"

definition malformed :: error where
  "malformed = URIError (str ''URI malformed'')"

fun encodeURIComponent :: "jsstring \<Rightarrow> error + jsstring" where
  "encodeURIComponent [] = Inr []"
| "encodeURIComponent (c # cs) =
     (if unreserved c then bindE (encodeURIComponent cs) (\<lambda>r. Inr (c # r))
      else if c < 0xD800 \<or> 0xDFFF < c
        then bindE (encodeURIComponent cs) (\<lambda>r. Inr (escape (unat c) @ r))
      else if 0xDC00 \<le> c then Inl malformed
      else
        case cs of
          [] \<Rightarrow> Inl malformed
        | d # ds \<Rightarrow>
            if d < 0xDC00 \<or> 0xDFFF < d then Inl malformed
            else bindE (encodeURIComponent ds)
                   (\<lambda>r. Inr (escape ((unat c - 0xD800) * 0x400 + (unat d - 0xDC00) + 0x10000)
                              @ r)))"

subsection \<open>The shared number formatter\<close>

text \<open>
  \<^verbatim>\<open>
  _convertMiles(num) {
      const number = Number(num);
      if (isNaN(number)) return num; // Return original if not a number
      if (number < 1000) return number.toString();
      if (number < 1000000) return (number / 1000).toFixed(1) + 'k';
      return (number / 1000000).toFixed(1) + 'M';
  }
  \<close>
  An identifier cannot start with an underscore here, so the private methods lose theirs.
\<close>

definition convertMiles :: "jsval \<Rightarrow> error + jsval" where
  "convertMiles num =
     bindE (toNumber num) (\<lambda>number.
     Inr (if isNaN number then num
          else if num_less number (Fin 1000) then JStr (num_toString number)
          else if num_less number (Fin 1000000)
            then JStr (toFixed (num_div number 1000) 1 @ str ''k'')
          else JStr (toFixed (num_div number 1000000) 1 @ str ''M'')))"

text \<open>
  A substitution \<open>${e}\<close> of a template literal: the expression is evaluated and its
  value converted to a string, before the next substitution is looked at. \<open>subst\<close> takes
  the evaluated expression, \<open>miles\<close> puts \<open>this._convertMiles(...)\<close> around it.
\<close>

definition subst :: "error + jsval \<Rightarrow> error + jsstring" where
  "subst r = bindE r toString"

definition miles :: "error + jsval \<Rightarrow> error + jsval" where
  "miles r = bindE r convertMiles"

subsection \<open>Effects: the network, the host bot, the console\<close>

text \<open>
  What leaves the module is recorded in a trace, oldest event first. Two kinds of event
  are bookkeeping of the model: the entry into \<open>_fetchDownload\<close> (the fetch client) and
  into \<open>_downloadAndSendMedia\<close> (the media relay), with the arguments, so that calls can
  be counted. The others are the calls to the outside: the global \<open>fetch\<close>,
  \<open>this.bot.sendMessage\<close>, \<open>this.bot.sock.sendMessage\<close> and \<open>console.error\<close>.
\<close>

record response =
  resp_status :: nat
  resp_json :: "error + jsval"
  resp_arrayBuffer :: "error + 8 word list"

text \<open>\<open>response.ok\<close>: the status is in the range 200 to 299.\<close>

definition ok :: "response \<Rightarrow> bool" where
  "ok r \<longleftrightarrow> 200 \<le> resp_status r \<and> resp_status r \<le> 299"

datatype media_kind = Video | Audio | Image

record media_message =
  mm_kind :: media_kind
  mm_data :: "8 word list"
  mm_caption :: jsval
  mm_mimetype :: jsstring

datatype event =
    CallFetchDownload jsstring jsstring
  | CallDownloadAndSendMedia jsval jsval jsval jsval
  | Fetch jsval
  | BotSendMessage jsval media_message
  | SockSendMessage jsval jsstring jsval
  | ConsoleError jsstring error

text \<open>The outside world answers each call from the history so far: a fetch resolves
  to a response or rejects, a send resolves or rejects.\<close>

record env =
  env_fetch :: "event list \<Rightarrow> jsval \<Rightarrow> error + response"
  env_bot_sendMessage :: "event list \<Rightarrow> jsval \<Rightarrow> media_message \<Rightarrow> error option"
  env_sock_sendMessage :: "event list \<Rightarrow> jsval \<Rightarrow> jsstring \<Rightarrow> jsval \<Rightarrow> error option"

text \<open>An asynchronous method: from the trace so far to a thrown error or a value,
  and the trace extended.\<close>

type_synonym 'a io = "event list \<Rightarrow> (error + 'a) \<times> event list"

definition returnIO :: "'a \<Rightarrow> 'a io" where
  "returnIO x = (\<lambda>tr. (Inr x, tr))"

definition throwIO :: "error \<Rightarrow> 'a io" where
  "throwIO e = (\<lambda>tr. (Inl e, tr))"

definition liftE :: "error + 'a \<Rightarrow> 'a io" where
  "liftE r = (\<lambda>tr. (r, tr))"

definition bindIO :: "'a io \<Rightarrow> ('a \<Rightarrow> 'b io) \<Rightarrow> 'b io" where
  "bindIO m f = (\<lambda>tr. case m tr of (Inl e, tr') \<Rightarrow> (Inl e, tr') | (Inr x, tr') \<Rightarrow> f x tr')"

text \<open>\<open>try { m } catch (error) { h error }\<close>.\<close>

definition catchIO :: "'a io \<Rightarrow> (error \<Rightarrow> 'a io) \<Rightarrow> 'a io" where
  "catchIO m h = (\<lambda>tr. case m tr of (Inl e, tr') \<Rightarrow> h e tr' | (Inr x, tr') \<Rightarrow> (Inr x, tr'))"

definition emit :: "event \<Rightarrow> unit io" where
  "emit ev = (\<lambda>tr. (Inr (), tr @ [ev]))"

definition js_fetch :: "env \<Rightarrow> jsval \<Rightarrow> response io" where
  "js_fetch env resource = (\<lambda>tr. (env_fetch env tr resource, tr @ [Fetch resource]))"

definition bot_sendMessage :: "env \<Rightarrow> jsval \<Rightarrow> media_message \<Rightarrow> unit io" where
  "bot_sendMessage env jid m =
     (\<lambda>tr. (case env_bot_sendMessage env tr jid m of None \<Rightarrow> Inr () | Some e \<Rightarrow> Inl e,
           tr @ [BotSendMessage jid m]))"

definition sock_sendMessage :: "env \<Rightarrow> jsval \<Rightarrow> jsstring \<Rightarrow> jsval \<Rightarrow> unit io" where
  "sock_sendMessage env jid text edit =
     (\<lambda>tr. (case env_sock_sendMessage env tr jid text edit of None \<Rightarrow> Inr () | Some e \<Rightarrow> Inl e,
           tr @ [SockSendMessage jid text edit]))"

text \<open>A chain of property reads \<open>v.a.b.c\<close>, left to right.\<close>

fun get_path :: "jsval \<Rightarrow> string list \<Rightarrow> error + jsval" where
  "get_path v [] = Inr v"
| "get_path v (p # ps) = bindE (get_prop v (str p)) (\<lambda>w. get_path w ps)"

subsection \<open>The fetch client\<close>

text \<open>
  \<^verbatim>\<open>
  async _fetchDownload(endpoint, url) {
      const apiUrl = `${this.apiBaseUrl}/${endpoint}?url=${encodeURIComponent(url)}`;
      const response = await fetch(apiUrl);
      if (!response.ok) {
          throw new Error(`API request failed with status ${response.status}`);
      }
      return response.json();
  }
  \<close>
\<close>

definition apiBaseUrl :: jsstring where
  "apiBaseUrl = str ''https://delirius-apiofc.vercel.app/download''"

definition fetchDownload :: "env \<Rightarrow> jsstring \<Rightarrow> jsstring \<Rightarrow> jsval io" where
  "fetchDownload env endpoint url =
     bindIO (emit (CallFetchDownload endpoint url)) (\<lambda>_.
     bindIO (liftE (encodeURIComponent url)) (\<lambda>encoded.
     bindIO (js_fetch env (JStr (apiBaseUrl @ str ''/'' @ endpoint @ str ''?url='' @ encoded)))
       (\<lambda>response.
     if \<not> ok response
     then throwIO (Error (str ''API request failed with status '' @
                          num_toString (Fin (of_nat (resp_status response)))))
     else liftE (resp_json response))))"

subsection \<open>The media relay\<close>

text \<open>
  \<^verbatim>\<open>
  async _downloadAndSendMedia(msg, mediaUrl, caption, type) {
      try {
          const response = await fetch(mediaUrl);
          if (!response.ok) throw new Error(`Failed to fetch media: ${response.status}`);
          const buffer = await response.arrayBuffer();
          const bufferData = Buffer.from(buffer);
          let message;
          if (type === 'video') {
              message = { video: bufferData, caption: caption, mimetype: 'video/mp4' };
          } else if (type === 'audio') {
              message = { audio: bufferData, caption: caption, mimetype: 'audio/mpeg' };
          } else if (type === 'image') {
              message = { image: bufferData, caption: caption, mimetype: 'image/jpeg' };
          } else {
              throw new Error('Unsupported media type');
          }
          await this.bot.sendMessage(msg.key.remoteJid, message);
          return ''; // No text response needed since media is sent
      } catch (error) {
          console.error(`Error sending ${type}:`, error);
          return `${caption}\n\n*Failed to send media, here's the URL instead:* ${mediaUrl}`;
      }
  }
  \<close>
\<close>

definition build_message :: "jsval \<Rightarrow> 8 word list \<Rightarrow> jsval \<Rightarrow> error + media_message" where
  "build_message type bufferData caption =
     (if type = JStr (str ''video'') then
        Inr \<lparr>mm_kind = Video, mm_data = bufferData, mm_caption = caption,
             mm_mimetype = str ''video/mp4''\<rparr>
      else if type = JStr (str ''audio'') then
        Inr \<lparr>mm_kind = Audio, mm_data = bufferData, mm_caption = caption,
             mm_mimetype = str ''audio/mpeg''\<rparr>
      else if type = JStr (str ''image'') then
        Inr \<lparr>mm_kind = Image, mm_data = bufferData, mm_caption = caption,
             mm_mimetype = str ''image/jpeg''\<rparr>
      else Inl (Error (str ''Unsupported media type'')))"

text \<open>The two template literals of the \<open>catch\<close> block. They convert \<open>type\<close>,
  \<open>caption\<close> and \<open>mediaUrl\<close> to strings, in this order; a conversion that throws
  there throws out of the relay. The relay is its \<open>try\<close> block with the \<open>catch\<close>
  block as the handler.\<close>

definition error_sending :: "jsval \<Rightarrow> error + jsstring" where
  "error_sending type =
     bindE (subst (Inr type)) (\<lambda>t. Inr (str ''Error sending '' @ t @ str '':''))"

definition fallback_text :: "jsstring \<Rightarrow> jsstring \<Rightarrow> jsstring" where
  "fallback_text c u =
     c @ [0xA, 0xA] @ str ''*Failed to send media, here's the URL instead:* '' @ u"

definition fallback :: "jsval \<Rightarrow> jsval \<Rightarrow> error + jsstring" where
  "fallback caption mediaUrl =
     bindE (subst (Inr caption)) (\<lambda>c.
     bindE (subst (Inr mediaUrl)) (\<lambda>u.
     Inr (fallback_text c u)))"

definition relay_try :: "env \<Rightarrow> jsval \<Rightarrow> jsval \<Rightarrow> jsval \<Rightarrow> jsval \<Rightarrow> jsstring io" where
  "relay_try env msg mediaUrl caption type =
     bindIO (js_fetch env mediaUrl) (\<lambda>response.
     if \<not> ok response
     then throwIO (Error (str ''Failed to fetch media: '' @
                          num_toString (Fin (of_nat (resp_status response)))))
     else
       bindIO (liftE (resp_arrayBuffer response)) (\<lambda>bufferData.
       bindIO (liftE (build_message type bufferData caption)) (\<lambda>message.
       bindIO (liftE (get_path msg [''key'', ''remoteJid''])) (\<lambda>jid.
       bindIO (bot_sendMessage env jid message) (\<lambda>_.
       returnIO [])))))"

definition relay_catch :: "jsval \<Rightarrow> jsval \<Rightarrow> jsval \<Rightarrow> error \<Rightarrow> jsstring io" where
  "relay_catch mediaUrl caption type error =
     bindIO (liftE (error_sending type)) (\<lambda>text.
     bindIO (emit (ConsoleError text error)) (\<lambda>_.
     liftE (fallback caption mediaUrl)))"

definition downloadAndSendMedia :: "env \<Rightarrow> jsval \<Rightarrow> jsval \<Rightarrow> jsval \<Rightarrow> jsval \<Rightarrow> jsstring io" where
  "downloadAndSendMedia env msg mediaUrl caption type =
     bindIO (emit (CallDownloadAndSendMedia msg mediaUrl caption type)) (\<lambda>_.
     catchIO (relay_try env msg mediaUrl caption type) (relay_catch mediaUrl caption type))"

subsection \<open>The platform handlers\<close>

text \<open>
  Every handler starts the same way:
  \<^verbatim>\<open>
  const url = params[0];
  if (!url) return 'Please provide a TikTok URL.';
  // Show processing message for owner
  if (msg.key.fromMe) {
      await this.bot.sock.sendMessage(msg.key.remoteJid, {
          text: '<hourglass> *Processing TikTok Download...*\n\n<arrows> Working on your request...',
          edit: msg.key
      });
  }
  \<close>
  \<open>params\<close> is a \<open>string[]\<close>; \<open>!url\<close> holds when there is no first parameter and when
  it is the empty string. The notice differs between handlers in the platform name only.
\<close>

definition absent :: "jsstring list \<Rightarrow> bool" where
  "absent params \<longleftrightarrow> (case params of [] \<Rightarrow> True | url # _ \<Rightarrow> url = [])"

definition processing_text :: "string \<Rightarrow> jsstring" where
  "processing_text platform =
     [0x23F3] @ str '' *Processing '' @ str platform @ str '' Download...*'' @
     [0xA, 0xA, 0xD83D, 0xDD04] @ str '' Working on your request...''"

definition processing :: "env \<Rightarrow> jsval \<Rightarrow> string \<Rightarrow> unit io" where
  "processing env msg platform =
     bindIO (liftE (get_path msg [''key'', ''fromMe''])) (\<lambda>fromMe.
     if truthy fromMe then
       bindIO (liftE (get_path msg [''key'', ''remoteJid''])) (\<lambda>jid.
       bindIO (liftE (get_path msg [''key''])) (\<lambda>key.
       sock_sendMessage env jid (processing_text platform) key))
     else returnIO ())"

text \<open>The decorations of the captions: the title frame, a bulleted label, a line end.\<close>

definition frame :: "string \<Rightarrow> jsstring" where
  "frame title =
     [0x256D] @ str ''  '' @ [0x2726] @ str '' '' @ str title @ str '' '' @ [0x2726] @
     str ''  '' @ [0x256E] @ [0xA, 0xA]"

definition bullet :: "string \<Rightarrow> jsstring" where
  "bullet label = str ''*'' @ [0x25E6] @ str '' '' @ str label @ str '':* ''"

definition nl :: jsstring where
  "nl = [0xA]"

subsubsection \<open>TikTok\<close>

text \<open>
  \<^verbatim>\<open>
  const result = await this._fetchDownload('tiktok', url);
  const data = result.data;
  const caption = `<frame TikTok Download>\n\n` +
                 `*o Name:* ${data.author.nickname}\n` +
                 `*o Username:* ${data.author.username}\n` +
                 `*o Duration:* ${data.duration}s\n` +
                 `*o Plays:* ${this._convertMiles(data.repro)}\n` +
                 `*o Likes:* ${this._convertMiles(data.like)}\n` +
                 `*o Shares:* ${this._convertMiles(data.share)}\n` +
                 `*o Comments:* ${this._convertMiles(data.comment)}\n` +
                 `*o Downloads:* ${this._convertMiles(data.download)}\n\n` +
                 `<frame Music Info>\n\n` +
                 `*o Music:* ${data.music.title}\n` +
                 `*o Author:* ${data.music.author}\n` +
                 `*o Duration:* ${data.music.duration}s`;
  const mediaUrl = data.meta.media[0].hd || data.meta.media[0].org;
  await this._downloadAndSendMedia(msg, mediaUrl, caption, 'video');
  return ''; // Don't return text since media was sent
  \<close>
\<close>

definition tiktok_caption :: "jsval \<Rightarrow> error + jsstring" where
  "tiktok_caption data =
     bindE (subst (get_path data [''author'', ''nickname''])) (\<lambda>nickname.
     bindE (subst (get_path data [''author'', ''username''])) (\<lambda>username.
     bindE (subst (get_path data [''duration''])) (\<lambda>duration.
     bindE (subst (miles (get_path data [''repro'']))) (\<lambda>plays.
     bindE (subst (miles (get_path data [''like'']))) (\<lambda>likes.
     bindE (subst (miles (get_path data [''share'']))) (\<lambda>shares.
     bindE (subst (miles (get_path data [''comment'']))) (\<lambda>comments.
     bindE (subst (miles (get_path data [''download'']))) (\<lambda>downloads.
     bindE (subst (get_path data [''music'', ''title''])) (\<lambda>title.
     bindE (subst (get_path data [''music'', ''author''])) (\<lambda>author.
     bindE (subst (get_path data [''music'', ''duration''])) (\<lambda>mduration.
     Inr (frame ''TikTok Download'' @
          bullet ''Name'' @ nickname @ nl @
          bullet ''Username'' @ username @ nl @
          bullet ''Duration'' @ duration @ str ''s'' @ nl @
          bullet ''Plays'' @ plays @ nl @
          bullet ''Likes'' @ likes @ nl @
          bullet ''Shares'' @ shares @ nl @
          bullet ''Comments'' @ comments @ nl @
          bullet ''Downloads'' @ downloads @ nl @ nl @
          frame ''Music Info'' @
          bullet ''Music'' @ title @ nl @
          bullet ''Author'' @ author @ nl @
          bullet ''Duration'' @ mduration @ str ''s''))))))))))))"

definition tiktok_mediaUrl :: "jsval \<Rightarrow> error + jsval" where
  "tiktok_mediaUrl data =
     bindE (get_path data [''meta'', ''media'', ''0'', ''hd'']) (\<lambda>hd.
     if truthy hd then Inr hd else get_path data [''meta'', ''media'', ''0'', ''org''])"

definition downloadTikTok :: "env \<Rightarrow> jsval \<Rightarrow> jsstring list \<Rightarrow> jsstring io" where
  "downloadTikTok env msg params =
     (if absent params then returnIO (str ''Please provide a TikTok URL.'')
      else
        bindIO (processing env msg ''TikTok'') (\<lambda>_.
        bindIO (fetchDownload env (str ''tiktok'') (hd params)) (\<lambda>result.
        bindIO (liftE (get_path result [''data''])) (\<lambda>data.
        bindIO (liftE (tiktok_caption data)) (\<lambda>caption.
        bindIO (liftE (tiktok_mediaUrl data)) (\<lambda>mediaUrl.
        bindIO (downloadAndSendMedia env msg mediaUrl (JStr caption) (JStr (str ''video'')))
          (\<lambda>_.
        returnIO [])))))))"

subsubsection \<open>Instagram\<close>

text \<open>
  \<^verbatim>\<open>
  const endpoint = url.includes('/stories/') ? 'igstories' : 'instagram';
  const result = await this._fetchDownload(endpoint, url);
  const media = result.data;
  let responseText = `*<sign> I N S T A G R A M*\n\n`;
  media.forEach((item, index) => {
      responseText += `*> Media ${index + 1} [${item.type}]:* ${item.url}\n`;
  });
  return responseText;
  \<close>
\<close>

fun instagram_items :: "jsval list \<Rightarrow> nat \<Rightarrow> jsstring \<Rightarrow> error + jsstring" where
  "instagram_items [] index responseText = Inr responseText"
| "instagram_items (item # items) index responseText =
     bindE (subst (get_path item [''type''])) (\<lambda>ty.
     bindE (subst (get_path item [''url''])) (\<lambda>u.
     instagram_items items (index + 1)
       (responseText @ str ''*'' @ [0x203A] @ str '' Media '' @
        num_toString (Fin (of_nat (index + 1))) @ str '' ['' @ ty @ str '']:* '' @
        u @ nl)))"

definition forEach_media :: "jsval \<Rightarrow> jsstring \<Rightarrow> error + jsstring" where
  "forEach_media media responseText =
     (case media of
        JArr items \<Rightarrow> instagram_items items 0 responseText
      | JUndefined \<Rightarrow> Inl (cannot_read ''undefined'' (str ''forEach''))
      | JNull \<Rightarrow> Inl (cannot_read ''null'' (str ''forEach''))
      | _ \<Rightarrow> Inl (TypeError (str ''media.forEach is not a function'')))"

definition instagram_endpoint :: "jsstring \<Rightarrow> jsstring" where
  "instagram_endpoint url =
     (if sublist (str ''/stories/'') url then str ''igstories'' else str ''instagram'')"

definition downloadInstagram :: "env \<Rightarrow> jsval \<Rightarrow> jsstring list \<Rightarrow> jsstring io" where
  "downloadInstagram env msg params =
     (if absent params then returnIO (str ''Please provide an Instagram URL.'')
      else
        bindIO (processing env msg ''Instagram'') (\<lambda>_.
        bindIO (fetchDownload env (instagram_endpoint (hd params)) (hd params)) (\<lambda>result.
        bindIO (liftE (get_path result [''data''])) (\<lambda>media.
        liftE (forEach_media media
                 (str ''*'' @ [0x4E97] @ str '' I N S T A G R A M*'' @ nl @ nl))))))"

subsubsection \<open>SoundCloud\<close>

text \<open>
  \<^verbatim>\<open>
  const result = await this._fetchDownload('soundcloud', url);
  const res = result.data;
  const caption = `<frame Soundcloud Download>\n\n` +
                 `*o Title:* ${res.title}\n` +
                 `*o Artist:* ${res.author}\n` +
                 `*o Plays:* ${this._convertMiles(res.playbacks)}\n` +
                 `*o Likes:* ${this._convertMiles(res.likes)}\n` +
                 `*o Comments:* ${this._convertMiles(res.comments)}`;
  await this._downloadAndSendMedia(msg, res.download, caption, 'audio');
  return ''; // Don't return text since media was sent
  \<close>
\<close>

definition soundcloud_caption :: "jsval \<Rightarrow> error + jsstring" where
  "soundcloud_caption res =
     bindE (subst (get_path res [''title''])) (\<lambda>title.
     bindE (subst (get_path res [''author''])) (\<lambda>author.
     bindE (subst (miles (get_path res [''playbacks'']))) (\<lambda>plays.
     bindE (subst (miles (get_path res [''likes'']))) (\<lambda>likes.
     bindE (subst (miles (get_path res [''comments'']))) (\<lambda>comments.
     Inr (frame ''Soundcloud Download'' @
          bullet ''Title'' @ title @ nl @
          bullet ''Artist'' @ author @ nl @
          bullet ''Plays'' @ plays @ nl @
          bullet ''Likes'' @ likes @ nl @
          bullet ''Comments'' @ comments))))))"

definition downloadSoundCloud :: "env \<Rightarrow> jsval \<Rightarrow> jsstring list \<Rightarrow> jsstring io" where
  "downloadSoundCloud env msg params =
     (if absent params then returnIO (str ''Please provide a SoundCloud URL.'')
      else
        bindIO (processing env msg ''SoundCloud'') (\<lambda>_.
        bindIO (fetchDownload env (str ''soundcloud'') (hd params)) (\<lambda>result.
        bindIO (liftE (get_path result [''data''])) (\<lambda>res.
        bindIO (liftE (soundcloud_caption res)) (\<lambda>caption.
        bindIO (liftE (get_path res [''download''])) (\<lambda>download.
        bindIO (downloadAndSendMedia env msg download (JStr caption) (JStr (str ''audio'')))
          (\<lambda>_.
        returnIO [])))))))"

subsubsection \<open>Facebook\<close>

text \<open>
  \<^verbatim>\<open>
  try {
      const result = await this._fetchDownload('facebook', url);
      if (!result.urls || !Array.isArray(result.urls) || result.urls.length === 0) {
          throw new Error('Invalid API response: No media URLs found');
      }
      const caption = `<frame Facebook video Download>\n\n` +
                     `*o Title:* ${result.title || 'No title available'}`;
      // Prefer HD video if available
      const mediaUrl = result.urls[0].hd || result.urls[1]?.sd;
      if (!mediaUrl) {
          throw new Error('No valid media URL found in API response');
      }
      await this._downloadAndSendMedia(msg, mediaUrl, caption, 'video');
      return ''; // Don't return text since media was sent
  } catch (error) {
      return `<cross> Failed to download Facebook video: ${error.message}`;
  }
  \<close>
\<close>

definition no_urls :: "jsval \<Rightarrow> bool" where
  "no_urls urls \<longleftrightarrow>
     \<not> truthy urls \<or> \<not> isArray urls \<or> get_prop urls (str ''length'') = Inr (JNum (Fin 0))"

definition facebook_caption :: "jsval \<Rightarrow> error + jsstring" where
  "facebook_caption result =
     bindE (subst (bindE (get_path result [''title'']) (\<lambda>title.
              Inr (if truthy title then title else JStr (str ''No title available'')))))
       (\<lambda>shown.
     Inr (frame ''Facebook video Download'' @ bullet ''Title'' @ shown))"

definition facebook_mediaUrl :: "jsval \<Rightarrow> error + jsval" where
  "facebook_mediaUrl result =
     bindE (get_path result [''urls'', ''0'', ''hd'']) (\<lambda>hd.
     if truthy hd then Inr hd
     else
       bindE (get_path result [''urls'', ''1'']) (\<lambda>second.
       if second = JUndefined \<or> second = JNull then Inr JUndefined
       else get_path second [''sd'']))"

definition facebook_failed :: "error \<Rightarrow> jsstring" where
  "facebook_failed error =
     [0x274C] @ str '' Failed to download Facebook video: '' @ message error"

definition downloadFacebook :: "env \<Rightarrow> jsval \<Rightarrow> jsstring list \<Rightarrow> jsstring io" where
  "downloadFacebook env msg params =
     (if absent params then returnIO (str ''Please provide a Facebook URL.'')
      else
        bindIO (processing env msg ''Facebook'') (\<lambda>_.
        catchIO
          (bindIO (fetchDownload env (str ''facebook'') (hd params)) (\<lambda>result.
           bindIO (liftE (get_path result [''urls''])) (\<lambda>urls.
           if no_urls urls
           then throwIO (Error (str ''Invalid API response: No media URLs found''))
           else
             bindIO (liftE (facebook_caption result)) (\<lambda>caption.
             bindIO (liftE (facebook_mediaUrl result)) (\<lambda>mediaUrl.
             if \<not> truthy mediaUrl
             then throwIO (Error (str ''No valid media URL found in API response''))
             else
               bindIO (downloadAndSendMedia env msg mediaUrl (JStr caption)
                         (JStr (str ''video'')))
                 (\<lambda>_.
               returnIO []))))))
          (\<lambda>error. returnIO (facebook_failed error))))"

subsubsection \<open>Twitter\<close>

text \<open>
  \<^verbatim>\<open>
  try {
      const result = await this._fetchDownload('twitterv2', url);
      const data = result.data;
      if (!data.media || !data.media[0]) {
          return 'This tweet does not contain any media.';
      }
      const media = data.media[0];
      const caption = `<frame Twitter Download>\n\n` +
                     `*o Author:* @${data.author.username}\n` +
                     `*o Description:* ${data.description.split('https://')[0]}\n` +
                     `*o Views:* ${this._convertMiles(data.view)}\n` +
                     `*o Likes:* ${this._convertMiles(data.favorite)}\n` +
                     `*o Retweets:* ${this._convertMiles(data.retweet)}`;
      // Handle different media types
      if (media.type === 'video' && media.videos && media.videos.length > 0) {
          const bestVideo = media.videos[media.videos.length - 1]; // Get the last (highest quality) video
          await this._downloadAndSendMedia(msg, bestVideo.url, caption, 'video');
          return ''; // Don't return text since media was sent
      }
      else if (media.type === 'photo' && media.image) {
          await this._downloadAndSendMedia(msg, media.image, caption, 'image');
          return ''; // Don't return text since media was sent
      }
      else if (media.type === 'gif' && media.videos && media.videos.length > 0) {
          const gifVideo = media.videos[0];
          await this._downloadAndSendMedia(msg, gifVideo.url, caption, 'video');
          return ''; // Don't return text since media was sent
      }
      else {
          return 'Unsupported media type or media not available.';
      }
  } catch (error) {
      return `<cross> Failed to download Twitter media: ${error.message}`;
  }
  \<close>
\<close>

text \<open>\<open>data.description.split('https://')[0]\<close>: only a string has \<open>split\<close>.\<close>

definition split_description :: "jsval \<Rightarrow> error + jsstring" where
  "split_description description =
     (case description of
        JStr s \<Rightarrow> Inr (split_head (str ''https://'') s)
      | JUndefined \<Rightarrow> Inl (cannot_read ''undefined'' (str ''split''))
      | JNull \<Rightarrow> Inl (cannot_read ''null'' (str ''split''))
      | _ \<Rightarrow> Inl (TypeError (str ''data.description.split is not a function'')))"

definition twitter_caption :: "jsval \<Rightarrow> error + jsstring" where
  "twitter_caption data =
     bindE (subst (get_path data [''author'', ''username''])) (\<lambda>username.
     bindE (bindE (get_path data [''description'']) split_description) (\<lambda>shown.
     bindE (subst (miles (get_path data [''view'']))) (\<lambda>views.
     bindE (subst (miles (get_path data [''favorite'']))) (\<lambda>likes.
     bindE (subst (miles (get_path data [''retweet'']))) (\<lambda>retweets.
     Inr (frame ''Twitter Download'' @
          bullet ''Author'' @ str ''@'' @ username @ nl @
          bullet ''Description'' @ shown @ nl @
          bullet ''Views'' @ views @ nl @
          bullet ''Likes'' @ likes @ nl @
          bullet ''Retweets'' @ retweets))))))"

text \<open>\<open>media.type === t && media.videos && media.videos.length > 0\<close>: the comparison
  converts the length to a number.\<close>

definition has_videos :: "jsval \<Rightarrow> string \<Rightarrow> error + bool" where
  "has_videos media t =
     bindE (get_path media [''type'']) (\<lambda>ty.
     if ty \<noteq> JStr (str t) then Inr False
     else
       bindE (get_path media [''videos'']) (\<lambda>videos.
       if \<not> truthy videos then Inr False
       else
         bindE (get_path media [''videos'', ''length'']) (\<lambda>len.
         bindE (toNumber len) (\<lambda>n.
         Inr (num_less (Fin 0) n)))))"

text \<open>\<open>media.type === 'photo' && media.image\<close>.\<close>

definition has_image :: "jsval \<Rightarrow> error + bool" where
  "has_image media =
     bindE (get_path media [''type'']) (\<lambda>ty.
     if ty \<noteq> JStr (str ''photo'') then Inr False
     else bindE (get_path media [''image'']) (\<lambda>image. Inr (truthy image)))"

text \<open>\<open>media.videos[media.videos.length - 1].url\<close> and \<open>media.videos[0].url\<close>.\<close>

definition last_video_url :: "jsval \<Rightarrow> error + jsval" where
  "last_video_url media =
     bindE (get_path media [''videos'']) (\<lambda>videos.
     bindE (get_path media [''videos'', ''length'']) (\<lambda>len.
     bindE (toNumber len) (\<lambda>n.
     bindE (get_index videos (num_minus n 1)) (\<lambda>bestVideo.
     get_path bestVideo [''url'']))))"

definition first_video_url :: "jsval \<Rightarrow> error + jsval" where
  "first_video_url media = get_path media [''videos'', ''0'', ''url'']"

definition twitter_failed :: "error \<Rightarrow> jsstring" where
  "twitter_failed error =
     [0x274C] @ str '' Failed to download Twitter media: '' @ message error"

definition twitter_media :: "env \<Rightarrow> jsval \<Rightarrow> jsval \<Rightarrow> jsstring \<Rightarrow> jsstring io" where
  "twitter_media env msg media caption =
     bindIO (liftE (has_videos media ''video'')) (\<lambda>video.
     if video then
       bindIO (liftE (last_video_url media)) (\<lambda>url.
       bindIO (downloadAndSendMedia env msg url (JStr caption) (JStr (str ''video''))) (\<lambda>_.
       returnIO []))
     else
       bindIO (liftE (has_image media)) (\<lambda>photo.
       if photo then
         bindIO (liftE (get_path media [''image''])) (\<lambda>image.
         bindIO (downloadAndSendMedia env msg image (JStr caption) (JStr (str ''image'')))
           (\<lambda>_.
         returnIO []))
       else
         bindIO (liftE (has_videos media ''gif'')) (\<lambda>gif.
         if gif then
           bindIO (liftE (first_video_url media)) (\<lambda>url.
           bindIO (downloadAndSendMedia env msg url (JStr caption) (JStr (str ''video'')))
             (\<lambda>_.
           returnIO []))
         else returnIO (str ''Unsupported media type or media not available.''))))"

definition downloadTwitter :: "env \<Rightarrow> jsval \<Rightarrow> jsstring list \<Rightarrow> jsstring io" where
  "downloadTwitter env msg params =
     (if absent params then returnIO (str ''Please provide a Twitter/X URL.'')
      else
        bindIO (processing env msg ''Twitter'') (\<lambda>_.
        catchIO
          (bindIO (fetchDownload env (str ''twitterv2'') (hd params)) (\<lambda>result.
           bindIO (liftE (get_path result [''data''])) (\<lambda>data.
           bindIO (liftE (get_path data [''media''])) (\<lambda>all_media.
           if \<not> truthy all_media
           then returnIO (str ''This tweet does not contain any media.'')
           else
             bindIO (liftE (get_path data [''media'', ''0''])) (\<lambda>media.
             if \<not> truthy media
             then returnIO (str ''This tweet does not contain any media.'')
             else
               bindIO (liftE (twitter_caption data)) (\<lambda>caption.
               twitter_media env msg media caption))))))
          (\<lambda>error. returnIO (twitter_failed error))))"

subsection \<open>Observing a run\<close>

text \<open>The calls to the media relay and to the fetch client that a trace records.\<close>

fun is_relay_call :: "event \<Rightarrow> bool" where
  "is_relay_call (CallDownloadAndSendMedia msg mediaUrl caption type) = True"
| "is_relay_call _ = False"

fun is_client_call :: "event \<Rightarrow> bool" where
  "is_client_call (CallFetchDownload endpoint url) = True"
| "is_client_call _ = False"

definition relay_calls :: "event list \<Rightarrow> event list" where
  "relay_calls tr = filter is_relay_call tr"

definition client_calls :: "event list \<Rightarrow> event list" where
  "client_calls tr = filter is_client_call tr"

text \<open>A fetch fails when it rejects (a network error) or resolves to a response whose
  status is not in the 2xx range.\<close>

definition fetch_fails :: "env \<Rightarrow> event list \<Rightarrow> jsval \<Rightarrow> bool" where
  "fetch_fails env tr url = (case env_fetch env tr url of Inl e \<Rightarrow> True | Inr r \<Rightarrow> \<not> ok r)"

text \<open>Two environments to run the module in: one without network, and one where every
  fetch answers 200 with a given JSON body and no bytes. Both accept every message.\<close>

definition offline :: env where
  "offline =
     \<lparr>env_fetch = (\<lambda>tr resource. Inl (TypeError (str ''fetch failed''))),
      env_bot_sendMessage = (\<lambda>tr jid m. None),
      env_sock_sendMessage = (\<lambda>tr jid text edit. None)\<rparr>"

definition serving :: "jsval \<Rightarrow> env" where
  "serving body =
     \<lparr>env_fetch = (\<lambda>tr resource.
        Inr \<lparr>resp_status = 200, resp_json = Inr body, resp_arrayBuffer = Inr []\<rparr>),
      env_bot_sendMessage = (\<lambda>tr jid m. None),
      env_sock_sendMessage = (\<lambda>tr jid text edit. None)\<rparr>"

text \<open>The alternate quality of a Facebook response: the \<open>sd\<close> field of the second
  entry of \<open>urls\<close>, \<open>undefined\<close> when there is no such entry or field.\<close>

definition alternate :: "jsval list \<Rightarrow> jsval" where
  "alternate others =
     (case others of
        [] \<Rightarrow> JUndefined
      | second # _ \<Rightarrow> (case get_path second [''sd''] of Inr sd \<Rightarrow> sd | Inl e \<Rightarrow> JUndefined))"

definition preferred :: "jsval \<Rightarrow> jsval list \<Rightarrow> jsval" where
  "preferred high others = (if truthy high then high else alternate others)"

text \<open>A third environment: the API answers, every other fetch is rejected, so that
  the metadata arrives and the media bytes do not.\<close>

definition api_only :: "jsval \<Rightarrow> env" where
  "api_only body =
     \<lparr>env_fetch = (\<lambda>tr resource.
        case resource of
          JStr u \<Rightarrow>
            if prefix apiBaseUrl u
            then Inr \<lparr>resp_status = 200, resp_json = Inr body, resp_arrayBuffer = Inr []\<rparr>
            else Inl (TypeError (str ''fetch failed''))
        | _ \<Rightarrow> Inl (TypeError (str ''fetch failed''))),
      env_bot_sendMessage = (\<lambda>tr jid m. None),
      env_sock_sendMessage = (\<lambda>tr jid text edit. None)\<rparr>"

text \<open>
  Two responses for runs in which the relay is reached, with the media reference left
  open: a SoundCloud track \<open>{data: {title: "T", author: "A", download: d}}\<close> and a
  Facebook video \<open>{urls: [{hd: h}]}\<close>, and the captions the handlers build from them.
\<close>

definition soundcloud_track :: "jsval \<Rightarrow> jsval" where
  "soundcloud_track d =
     JObj [(str ''data'', JObj [(str ''title'', JStr (str ''T'')),
                                (str ''author'', JStr (str ''A'')),
                                (str ''download'', d)])]"

definition track_caption :: jsstring where
  "track_caption =
     frame ''Soundcloud Download'' @
     bullet ''Title'' @ str ''T'' @ nl @
     bullet ''Artist'' @ str ''A'' @ nl @
     bullet ''Plays'' @ str ''undefined'' @ nl @
     bullet ''Likes'' @ str ''undefined'' @ nl @
     bullet ''Comments'' @ str ''undefined''"

definition facebook_video :: "jsval \<Rightarrow> jsval" where
  "facebook_video h = JObj [(str ''urls'', JArr [JObj [(str ''hd'', h)]])]"

definition video_caption :: jsstring where
  "video_caption =
     frame ''Facebook video Download'' @ bullet ''Title'' @ str ''No title available''"

text \<open>The message of the scenarios: \<open>{key: {fromMe: false}}\<close>, a message that is not
  the owner's.\<close>

definition visitor_msg :: jsval where
  "visitor_msg = JObj [(str ''key'', JObj [(str ''fromMe'', JBool False)])]"

text \<open>
  The TikTok scenario of the specification: the URL, the JSON the API returns,
  \<^verbatim>\<open>
  {data: {author: {nickname: "A", username: "a"}, duration: 10, repro: 1500, like: 200,
          share: 5, comment: 3, download: 10,
          music: {title: "T", author: "M", duration: 5},
          meta: {media: [{hd: "http://m/hd.mp4"}]}}}
  \<close>
  and the caption that the handler builds from it.
\<close>

definition scenario_url :: jsstring where
  "scenario_url = str ''https://tiktok.com/x''"

definition scenario_data :: jsval where
  "scenario_data =
     JObj [(str ''author'', JObj [(str ''nickname'', JStr (str ''A'')),
                                  (str ''username'', JStr (str ''a''))]),
           (str ''duration'', JNum (Fin 10)),
           (str ''repro'', JNum (Fin 1500)),
           (str ''like'', JNum (Fin 200)),
           (str ''share'', JNum (Fin 5)),
           (str ''comment'', JNum (Fin 3)),
           (str ''download'', JNum (Fin 10)),
           (str ''music'', JObj [(str ''title'', JStr (str ''T'')),
                                 (str ''author'', JStr (str ''M'')),
                                 (str ''duration'', JNum (Fin 5))]),
           (str ''meta'', JObj [(str ''media'',
                                 JArr [JObj [(str ''hd'', JStr (str ''http://m/hd.mp4''))]])])]"

definition scenario_result :: jsval where
  "scenario_result = JObj [(str ''data'', scenario_data)]"

definition scenario_caption :: jsstring where
  "scenario_caption =
     frame ''TikTok Download'' @
     bullet ''Name'' @ str ''A'' @ nl @
     bullet ''Username'' @ str ''a'' @ nl @
     bullet ''Duration'' @ str ''10s'' @ nl @
     bullet ''Plays'' @ str ''1.5k'' @ nl @
     bullet ''Likes'' @ str ''200'' @ nl @
     bullet ''Shares'' @ str ''5'' @ nl @
     bullet ''Comments'' @ str ''3'' @ nl @
     bullet ''Downloads'' @ str ''10'' @ nl @ nl @
     frame ''Music Info'' @
     bullet ''Music'' @ str ''T'' @ nl @
     bullet ''Author'' @ str ''M'' @ nl @
     bullet ''Duration'' @ str ''5s''"

text \<open>The media URLs the relay was called with, in order.\<close>

fun relayed_url :: "event \<Rightarrow> jsval" where
  "relayed_url (CallDownloadAndSendMedia msg mediaUrl caption type) = mediaUrl"
| "relayed_url _ = JUndefined"

definition relayed_urls :: "event list \<Rightarrow> jsval list" where
  "relayed_urls tr = map relayed_url (relay_calls tr)"

text \<open>A tweet whose first media element has two video variants, its type left open:
  \<^verbatim>\<open>
  {data: {author: {username: "u"}, description: "d",
          media: [{type: kind, videos: [{url: "a"}, {url: "b"}]}]}}
  \<close>
  and the caption the handler builds from it (the counters are missing, so they read
  \<open>undefined\<close>).\<close>

definition tweet_media :: "string \<Rightarrow> jsval" where
  "tweet_media kind =
     JObj [(str ''type'', JStr (str kind)),
           (str ''videos'', JArr [JObj [(str ''url'', JStr (str ''a''))],
                                  JObj [(str ''url'', JStr (str ''b''))]])]"

definition tweet_data :: "string \<Rightarrow> jsval" where
  "tweet_data kind =
     JObj [(str ''author'', JObj [(str ''username'', JStr (str ''u''))]),
           (str ''description'', JStr (str ''d'')),
           (str ''media'', JArr [tweet_media kind])]"

definition tweet :: "string \<Rightarrow> jsval" where
  "tweet kind = JObj [(str ''data'', tweet_data kind)]"

definition tweet_caption :: jsstring where
  "tweet_caption =
     frame ''Twitter Download'' @
     bullet ''Author'' @ str ''@'' @ str ''u'' @ nl @
     bullet ''Description'' @ str ''d'' @ nl @
     bullet ''Views'' @ str ''undefined'' @ nl @
     bullet ''Likes'' @ str ''undefined'' @ nl @
     bullet ''Retweets'' @ str ''undefined''"

text \<open>
  A quantity that is not negative, with one decimal place: its tenths rounded to the
  nearest integer, a half upwards as \<open>toFixed\<close> does, printed as the integer part, a
  point and one digit.
\<close>

definition one_decimal :: "rat \<Rightarrow> jsstring" where
  "one_decimal x =
     (let tenths = nat \<lfloor>x * 10 + 1 / 2\<rfloor>
      in dec (tenths div 10) @ str ''.'' @ dec (tenths mod 10))"

section \<open>Properties\<close>

text \<open>The overflow bound as a numeral, for evaluation.\<close>

lemma overflow_bound_numeral [code]:
  "overflow_bound = 179769313486231590772930519078902473361797697894230657273430081157732675805500963132708477322407536021120113879871393357658789768814416622492847430639474124377767893424865485276302219601246094119453082952085005768838150682342462881473913110540827237163350510684586298239947245938479716304835356329624224137216"
  by (simp add: overflow_bound_def)

lemmas io_defs = returnIO_def throwIO_def liftE_def bindIO_def catchIO_def emit_def
  js_fetch_def bot_sendMessage_def sock_sendMessage_def

subsection \<open>Decimal numerals and array indices\<close>

lemma unat_digit: "d < 10 \<Longrightarrow> unat (digit d) = 48 + d"
  unfolding digit_def by (subst unat_of_nat) simp

lemma digit_val_digit: "d < 10 \<Longrightarrow> digit_val (digit d) = Some d"
  by (simp add: digit_val_def word_le_nat_alt unat_digit)

lemma digits_value_snoc:
  "digits_value r (xs @ [c]) =
     digits_value r xs * r + (case digit_val c of Some d \<Rightarrow> d | None \<Rightarrow> 0)"
  by (simp add: digits_value_def)

lemma digits_value_dec: "digits_value 10 (dec n) = n"
proof (induction n rule: dec.induct)
  case (1 n)
  show ?case
  proof (cases "n < 10")
    case True
    then show ?thesis
      by (simp add: dec.simps [of n] digits_value_def digit_val_digit)
  next
    case False
    with 1 have "digits_value 10 (dec (n div 10)) = n div 10" by simp
    with False show ?thesis
      by (simp add: dec.simps [of n] digits_value_snoc digit_val_digit)
  qed
qed

lemma dec_inj: "dec m = dec n \<Longrightarrow> m = n"
  by (metis digits_value_dec)

lemma dec_digits_all: "\<forall>c \<in> set (dec n). \<exists>d<10. c = digit d"
proof (induction n rule: dec.induct)
  case (1 n)
  show ?case
  proof (cases "n < 10")
    case True
    then show ?thesis by (auto simp add: dec.simps [of n])
  next
    case False
    then have "\<exists>d<10. digit (n mod 10) = digit d"
      by (intro exI [of _ "n mod 10"]) simp
    with False 1 show ?thesis
      by (auto simp add: dec.simps [of n])
  qed
qed

lemma dec_digits: "c \<in> set (dec n) \<Longrightarrow> \<exists>d<10. c = digit d"
  using dec_digits_all by blast

lemma dec_not_length: "dec n \<noteq> str ''length''"
proof
  assume "dec n = str ''length''"
  then have "0x6C \<in> set (dec n)" by (simp add: str_def)
  then obtain d where d: "d < 10" and "(0x6C :: 16 word) = digit d"
    using dec_digits by blast
  then have "unat (0x6C :: 16 word) = unat (digit d)" by simp
  also have "\<dots> = 48 + d" using d by (rule unat_digit)
  finally show False using d by simp
qed

lemma find_append_None: "find P xs = None \<Longrightarrow> find P (xs @ ys) = find P ys"
  by (induction xs) (auto split: if_splits)

lemma find_dec: "j < n \<Longrightarrow> find (\<lambda>i. dec i = dec j) [0..<n] = Some j"
proof -
  assume "j < n"
  then have "[0..<n] = [0..<j] @ j # [Suc j..<n]"
    by (metis le_add1 le_add_same_cancel1 less_imp_add_positive upt_add_eq_append upt_conv_Cons)
  moreover have "find (\<lambda>i. dec i = dec j) [0..<j] = None"
    by (auto simp add: find_None_iff dest: dec_inj)
  ultimately show ?thesis by (simp add: find_append_None)
qed

lemma find_dec_none: "n \<le> j \<Longrightarrow> find (\<lambda>i. dec i = dec j) [0..<n] = None"
  by (auto simp add: find_None_iff dest: dec_inj)

lemma get_prop_array_index:
  "get_prop (JArr xs) (dec i) = Inr (if i < length xs then xs ! i else JUndefined)"
  by (simp add: dec_not_length find_dec find_dec_none)

lemma dec_0: "dec 0 = str ''0''" and dec_1: "dec 1 = str ''1''"
  by (simp_all add: dec.simps digit_def str_def)

lemma get_prop_array_0:
  "get_prop (JArr xs) (str ''0'') = Inr (case xs of [] \<Rightarrow> JUndefined | x # _ \<Rightarrow> x)"
  unfolding dec_0 [symmetric] get_prop_array_index by (simp split: list.splits)

lemma get_prop_array_1:
  "get_prop (JArr (x # xs)) (str ''1'') = Inr (case xs of [] \<Rightarrow> JUndefined | y # _ \<Rightarrow> y)"
  unfolding dec_1 [symmetric] get_prop_array_index by (simp split: list.splits)

subsection \<open>Property reads and sequencing\<close>

declare get_prop.simps(4) [simp del]

lemma processing_quiet:
  assumes "processing env msg platform tr = (r, tr')"
  shows "relay_calls tr' = relay_calls tr \<and> client_calls tr' = client_calls tr"
  using assms
  by (auto simp add: processing_def io_defs relay_calls_def client_calls_def
      split: sum.splits if_splits option.splits)

lemma fetchDownload_calls:
  assumes "fetchDownload env endpoint url tr = (r, tr')"
  shows "relay_calls tr' = relay_calls tr \<and>
         client_calls tr' = client_calls tr @ [CallFetchDownload endpoint url]"
  using assms
  by (auto simp add: fetchDownload_def io_defs relay_calls_def client_calls_def
      split: sum.splits if_splits)

lemma relay_calls_relay:
  assumes "downloadAndSendMedia env msg mediaUrl caption type tr = (r, tr')"
  shows "relay_calls tr' = relay_calls tr @ [CallDownloadAndSendMedia msg mediaUrl caption type] \<and>
         client_calls tr' = client_calls tr"
  using assms
  by (auto simp add: downloadAndSendMedia_def relay_try_def relay_catch_def io_defs
      relay_calls_def client_calls_def split: sum.splits if_splits option.splits)

lemma absent_Cons: "absent (url # rest) \<longleftrightarrow> url = []"
  by (simp add: absent_def)

lemma bindE_Inr [simp]: "bindE r Inr = r"
  by (cases r) (simp_all add: bindE_def)

lemma bindE_Inr_left [simp]: "bindE (Inr x) f = f x"
  by (simp add: bindE_def)

lemma bindE_Inl_left [simp]: "bindE (Inl e) f = Inl e"
  by (simp add: bindE_def)

lemma get_prop_Inl:
  "get_prop v p = Inl e \<Longrightarrow> v = JUndefined \<or> v = JNull"
  by (cases v) (auto simp add: get_prop.simps(4))

lemma get_prop_length:
  "get_prop (JArr xs) (str ''length'') = Inr (JNum (Fin (of_nat (length xs))))"
  by (simp add: get_prop.simps(4))

lemma facebook_mediaUrl_preferred:
  assumes "get_path result [''urls''] = Inr (JArr (first # others))"
    and "get_path first [''hd''] = Inr high"
  shows "facebook_mediaUrl result = Inr (preferred high others)"
proof -
  have u: "get_prop result (str ''urls'') = Inr (JArr (first # others))"
    using assms(1) by simp
  have h: "get_path result [''urls'', ''0'', ''hd''] = Inr high"
    using assms(2) by (simp add: u get_prop_array_0)
  have s: "get_path result [''urls'', ''1''] =
             Inr (case others of [] \<Rightarrow> JUndefined | y # _ \<Rightarrow> y)"
    by (simp add: u get_prop_array_1)
  show ?thesis
    unfolding facebook_mediaUrl_def h s
    by (auto simp add: preferred_def alternate_def cannot_read_def
        split: list.splits sum.splits dest: get_prop_Inl)
qed

subsection \<open>Conversions to strings\<close>

text \<open>The only error of a conversion to a string is the one of an object without a
  primitive value.\<close>

lemma toString_error: "toString v = Inl e \<Longrightarrow> e = not_primitive"
  and join_elems_error: "join_elems vs = Inl e \<Longrightarrow> e = not_primitive"
  by (induction v and vs rule: toString_join_elems.induct)
     (auto split: if_splits sum.splits)

lemma toString_cases: "(\<exists>s. toString v = Inr s) \<or> toString v = Inl not_primitive"
  using toString_error [of v] by (cases "toString v") auto

lemma subst_Inr: "subst (Inr v) = toString v"
  by (simp add: subst_def)

lemma sublist_first: "sublist xs (xs @ ss)"
  using sublist_appendI [of xs "[]" ss] by simp

lemma sublist_last: "sublist xs (ps @ xs)"
  using sublist_appendI [of xs ps "[]"] by simp

subsection \<open>The media relay\<close>

text \<open>The relay runs its \<open>try\<close> block after the bookkeeping event, and the \<open>catch\<close>
  block on what the \<open>try\<close> block throws.\<close>

lemma relay_run:
  "downloadAndSendMedia env msg mediaUrl caption type tr =
     (case relay_try env msg mediaUrl caption type
             (tr @ [CallDownloadAndSendMedia msg mediaUrl caption type]) of
        (Inl e, tr1) \<Rightarrow> relay_catch mediaUrl caption type e tr1
      | (Inr s, tr1) \<Rightarrow> (Inr s, tr1))"
  by (simp add: downloadAndSendMedia_def bindIO_def emit_def catchIO_def
      split: prod.splits sum.splits)

lemma relay_catch_run:
  "relay_catch mediaUrl caption type e tr1 =
     (case toString type of
        Inl e' \<Rightarrow> (Inl not_primitive, tr1)
      | Inr t \<Rightarrow> (fallback caption mediaUrl,
                  tr1 @ [ConsoleError (str ''Error sending '' @ t @ str '':'') e]))"
  using toString_error [of type]
  by (simp add: relay_catch_def bindIO_def emit_def liftE_def error_sending_def subst_Inr
      split: sum.splits)

lemma fallback_strings:
  "toString caption = Inr c \<Longrightarrow> toString mediaUrl = Inr u \<Longrightarrow>
     fallback caption mediaUrl = Inr (fallback_text c u)"
  by (simp add: fallback_def subst_Inr)

lemma fallback_raises:
  "toString caption = Inl e \<or> toString mediaUrl = Inl e \<Longrightarrow>
     fallback caption mediaUrl = Inl not_primitive"
  using toString_error [of caption] toString_error [of mediaUrl]
  by (cases "toString caption") (auto simp add: fallback_def subst_Inr)

text \<open>The \<open>try\<close> block stops at the fetch when that fails, and at the choice of the
  message shape when the content kind is not one of the three. When it completes, its
  value is the empty string.\<close>

lemma relay_try_fetch_fails:
  assumes "fetch_fails env tr0 mediaUrl"
  shows "\<exists>e. relay_try env msg mediaUrl caption type tr0 = (Inl e, tr0 @ [Fetch mediaUrl])"
  using assms
  by (auto simp add: relay_try_def io_defs fetch_fails_def split: sum.splits)

lemma relay_try_unsupported:
  assumes "type \<noteq> JStr (str ''video'')" and "type \<noteq> JStr (str ''audio'')"
    and "type \<noteq> JStr (str ''image'')"
  shows "\<exists>e. relay_try env msg mediaUrl caption type tr0 = (Inl e, tr0 @ [Fetch mediaUrl]) \<and>
             (\<forall>response bytes.
                env_fetch env tr0 mediaUrl = Inr response \<and> ok response \<and>
                resp_arrayBuffer response = Inr bytes \<longrightarrow>
                e = Error (str ''Unsupported media type''))"
  using assms
  by (auto simp add: relay_try_def io_defs build_message_def split: sum.splits)

lemma relay_try_value:
  assumes "relay_try env msg mediaUrl caption type tr0 = (Inr s, tr1)"
  shows "s = []"
  using assms
  by (auto simp add: relay_try_def io_defs split: sum.splits if_splits option.splits)

text \<open>What the relay can end with: the empty string, the fallback, or the TypeError of
  a conversion in the \<open>catch\<close> block.\<close>

lemma relay_result:
  assumes "downloadAndSendMedia env msg mediaUrl caption type tr = (r, tr')"
  shows "r = Inr [] \<or> r = fallback caption mediaUrl \<or> r = Inl not_primitive"
proof (cases "relay_try env msg mediaUrl caption type
                (tr @ [CallDownloadAndSendMedia msg mediaUrl caption type])")
  case (Pair r0 tr1)
  show ?thesis
  proof (cases r0)
    case (Inl e)
    with Pair assms show ?thesis
      by (auto simp add: relay_run relay_catch_run split: sum.splits)
  next
    case (Inr s)
    with Pair have "s = []" by (simp add: relay_try_value)
    with Pair Inr assms show ?thesis by (simp add: relay_run)
  qed
qed

text \<open>With strings for the media URL, the caption and the content kind, as the
  documentation of the relay has them, the relay returns.\<close>

lemma relay_returns:
  assumes "toString type = Inr t" and "toString caption = Inr c"
    and "toString mediaUrl = Inr u"
  shows "\<exists>s tr'. downloadAndSendMedia env msg mediaUrl caption type tr = (Inr s, tr')"
  using assms
  by (simp add: relay_run relay_catch_run fallback_strings split: prod.splits sum.splits)

lemma relay_returns_strings:
  "\<exists>s tr'. downloadAndSendMedia env msg (JStr u) (JStr c) (JStr t) tr = (Inr s, tr')"
  by (rule relay_returns) simp_all

lemma fallback_text_contains:
  "sublist c (fallback_text c u) \<and> sublist u (fallback_text c u)"
proof
  show "sublist c (fallback_text c u)"
    unfolding fallback_text_def by (rule sublist_first)
  have "fallback_text c u =
          (c @ [0xA, 0xA] @ str ''*Failed to send media, here's the URL instead:* '') @ u"
    by (simp add: fallback_text_def)
  then show "sublist u (fallback_text c u)"
    by (simp only: sublist_last)
qed

text \<open>
  C2, as the code has it. When the fetch of the media bytes fails, by a network error or
  by a status outside the 2xx range, the \<open>catch\<close> block of the relay builds its two
  texts from the string forms of the content kind, the caption and the media URL. Where
  all three have a string form, as every string has, the relay does not throw: it returns
  the fallback string, which contains the caption and the media URL. Where one of them has
  none, the relay throws the TypeError of the conversion to its caller.
\<close>

theorem relay_fetch_failure:
  assumes "fetch_fails env (tr @ [CallDownloadAndSendMedia msg mediaUrl caption type]) mediaUrl"
  shows "(\<forall>t c u. toString type = Inr t \<and> toString caption = Inr c \<and>
                   toString mediaUrl = Inr u \<longrightarrow>
            (\<exists>tr'. downloadAndSendMedia env msg mediaUrl caption type tr =
                     (Inr (fallback_text c u), tr')) \<and>
            sublist c (fallback_text c u) \<and> sublist u (fallback_text c u)) \<and>
         (toString type = Inl not_primitive \<or> toString caption = Inl not_primitive \<or>
          toString mediaUrl = Inl not_primitive \<longrightarrow>
            (\<exists>tr'. downloadAndSendMedia env msg mediaUrl caption type tr =
                     (Inl not_primitive, tr')))"
proof -
  obtain e where t: "relay_try env msg mediaUrl caption type
      (tr @ [CallDownloadAndSendMedia msg mediaUrl caption type]) =
      (Inl e, (tr @ [CallDownloadAndSendMedia msg mediaUrl caption type]) @ [Fetch mediaUrl])"
    using relay_try_fetch_fails [OF assms] by blast
  have a: "\<exists>tr'. downloadAndSendMedia env msg mediaUrl caption type tr =
                   (Inr (fallback_text c u), tr')"
    if "toString type = Inr t" and "toString caption = Inr c" and "toString mediaUrl = Inr u"
    for t c u
    using that by (simp add: relay_run t relay_catch_run fallback_strings)
  have b: "\<exists>tr'. downloadAndSendMedia env msg mediaUrl caption type tr =
                   (Inl not_primitive, tr')"
    if "toString type = Inl not_primitive \<or> toString caption = Inl not_primitive \<or>
        toString mediaUrl = Inl not_primitive"
  proof (cases "toString type")
    case (Inl e')
    then show ?thesis by (simp add: relay_run t relay_catch_run)
  next
    case (Inr s)
    with that have "fallback caption mediaUrl = Inl not_primitive"
      by (auto intro: fallback_raises)
    with Inr show ?thesis by (simp add: relay_run t relay_catch_run)
  qed
  from a b fallback_text_contains show ?thesis by blast
qed

theorem relay_fetch_failure_witness:
  "fetch_fails offline
     ([] @ [CallDownloadAndSendMedia visitor_msg (JStr (str ''http://m/x.mp4''))
              (JStr (str ''Clip'')) (JStr (str ''video''))])
     (JStr (str ''http://m/x.mp4'')) \<and>
   (\<exists>tr'. downloadAndSendMedia offline visitor_msg (JStr (str ''http://m/x.mp4''))
            (JStr (str ''Clip'')) (JStr (str ''video'')) [] =
            (Inr (fallback_text (str ''Clip'') (str ''http://m/x.mp4'')), tr')) \<and>
   sublist (str ''Clip'') (fallback_text (str ''Clip'') (str ''http://m/x.mp4'')) \<and>
   sublist (str ''http://m/x.mp4'') (fallback_text (str ''Clip'') (str ''http://m/x.mp4'')) \<and>
   fetch_fails offline
     ([] @ [CallDownloadAndSendMedia visitor_msg (JStr (str ''http://m/x.mp4''))
              (JObj [(str ''toString'', JNum (Fin 1))]) (JStr (str ''video''))])
     (JStr (str ''http://m/x.mp4'')) \<and>
   (\<exists>tr'. downloadAndSendMedia offline visitor_msg (JStr (str ''http://m/x.mp4''))
            (JObj [(str ''toString'', JNum (Fin 1))]) (JStr (str ''video'')) [] =
            (Inl not_primitive, tr'))"
proof -
  have f: "fetch_fails offline
     ([] @ [CallDownloadAndSendMedia visitor_msg (JStr (str ''http://m/x.mp4''))
              (JStr (str ''Clip'')) (JStr (str ''video''))])
     (JStr (str ''http://m/x.mp4''))"
    by (simp add: fetch_fails_def offline_def)
  have g: "fetch_fails offline
     ([] @ [CallDownloadAndSendMedia visitor_msg (JStr (str ''http://m/x.mp4''))
              (JObj [(str ''toString'', JNum (Fin 1))]) (JStr (str ''video''))])
     (JStr (str ''http://m/x.mp4''))"
    by (simp add: fetch_fails_def offline_def)
  show ?thesis
    using f g relay_fetch_failure [OF f] relay_fetch_failure [OF g] by simp
qed

text \<open>The claim as the specification has it, for every media URL, fails: SoundCloud
  hands the \<open>download\<close> field of the API response to the relay as it comes, and with
  the JSON object \<open>{"toString": 1}\<close> there and no network the relay throws.\<close>

theorem relay_fetch_failure_counterexample:
  "fetch_fails offline
     ([] @ [CallDownloadAndSendMedia visitor_msg (JObj [(str ''toString'', JNum (Fin 1))])
              (JStr (str ''Clip'')) (JStr (str ''audio''))])
     (JObj [(str ''toString'', JNum (Fin 1))]) \<and>
   fst (downloadAndSendMedia offline visitor_msg (JObj [(str ''toString'', JNum (Fin 1))])
          (JStr (str ''Clip'')) (JStr (str ''audio'')) []) =
   Inl (TypeError (str ''Cannot convert object to primitive value''))"
  by (simp add: downloadAndSendMedia_def relay_try_def relay_catch_def io_defs fetch_fails_def
      offline_def error_sending_def fallback_def subst_Inr not_primitive_def)

text \<open>
  C3, as the code has it. A content kind other than \<open>video\<close>, \<open>audio\<close> and \<open>image\<close> is
  no error of its own for the caller. The media is fetched first; then
  \<open>Unsupported media type\<close> is thrown inside the relay's own \<open>try\<close> block, and the
  \<open>catch\<close> block treats it like any other failure: it logs the error, nothing is sent
  to the chat, and the relay ends with the fallback: the fallback string where the
  caption and the media URL have string forms, the TypeError of the conversion where one
  of them has none. A content kind that has no string form itself cannot be logged: the
  relay throws that TypeError at once. In no case does \<open>Unsupported media type\<close> reach
  the caller.
\<close>

theorem relay_unsupported_kind:
  assumes "type \<noteq> JStr (str ''video'')" and "type \<noteq> JStr (str ''audio'')"
    and "type \<noteq> JStr (str ''image'')"
  shows "(\<forall>t. toString type = Inr t \<longrightarrow>
            (\<exists>e. downloadAndSendMedia env msg mediaUrl caption type tr =
                   (fallback caption mediaUrl,
                    tr @ [CallDownloadAndSendMedia msg mediaUrl caption type, Fetch mediaUrl,
                          ConsoleError (str ''Error sending '' @ t @ str '':'') e]) \<and>
                 (\<forall>response bytes.
                    env_fetch env (tr @ [CallDownloadAndSendMedia msg mediaUrl caption type])
                      mediaUrl = Inr response \<and>
                    ok response \<and> resp_arrayBuffer response = Inr bytes \<longrightarrow>
                    e = Error (str ''Unsupported media type'')))) \<and>
         (toString type = Inl not_primitive \<longrightarrow>
            downloadAndSendMedia env msg mediaUrl caption type tr =
              (Inl not_primitive,
               tr @ [CallDownloadAndSendMedia msg mediaUrl caption type, Fetch mediaUrl])) \<and>
         (\<forall>c u. toString caption = Inr c \<and> toString mediaUrl = Inr u \<longrightarrow>
            fallback caption mediaUrl = Inr (fallback_text c u)) \<and>
         (toString caption = Inl not_primitive \<or> toString mediaUrl = Inl not_primitive \<longrightarrow>
            fallback caption mediaUrl = Inl not_primitive)"
proof -
  let ?tr0 = "tr @ [CallDownloadAndSendMedia msg mediaUrl caption type]"
  obtain e where t: "relay_try env msg mediaUrl caption type ?tr0 =
      (Inl e, ?tr0 @ [Fetch mediaUrl])"
    and u: "\<forall>response bytes.
              env_fetch env ?tr0 mediaUrl = Inr response \<and> ok response \<and>
              resp_arrayBuffer response = Inr bytes \<longrightarrow>
              e = Error (str ''Unsupported media type'')"
    using relay_try_unsupported [OF assms] by blast
  have a: "\<exists>e. downloadAndSendMedia env msg mediaUrl caption type tr =
                 (fallback caption mediaUrl,
                  tr @ [CallDownloadAndSendMedia msg mediaUrl caption type, Fetch mediaUrl,
                        ConsoleError (str ''Error sending '' @ t @ str '':'') e]) \<and>
               (\<forall>response bytes.
                  env_fetch env (tr @ [CallDownloadAndSendMedia msg mediaUrl caption type])
                    mediaUrl = Inr response \<and>
                  ok response \<and> resp_arrayBuffer response = Inr bytes \<longrightarrow>
                  e = Error (str ''Unsupported media type''))"
    if "toString type = Inr t" for t
    using that u by (intro exI [of _ e]) (simp add: relay_run t relay_catch_run)
  have b: "downloadAndSendMedia env msg mediaUrl caption type tr =
             (Inl not_primitive,
              tr @ [CallDownloadAndSendMedia msg mediaUrl caption type, Fetch mediaUrl])"
    if "toString type = Inl not_primitive"
    using that by (simp add: relay_run t relay_catch_run)
  from a b fallback_strings [of caption _ mediaUrl]
    fallback_raises [of caption not_primitive mediaUrl]
  show ?thesis by blast
qed

theorem relay_unsupported_kind_witness:
  "JStr (str ''document'') \<noteq> JStr (str ''video'') \<and>
   JStr (str ''document'') \<noteq> JStr (str ''audio'') \<and>
   JStr (str ''document'') \<noteq> JStr (str ''image'') \<and>
   downloadAndSendMedia (serving JNull) visitor_msg (JStr (str ''http://m/x.pdf''))
     (JStr (str ''Clip'')) (JStr (str ''document'')) [] =
     (Inr (fallback_text (str ''Clip'') (str ''http://m/x.pdf'')),
      [CallDownloadAndSendMedia visitor_msg (JStr (str ''http://m/x.pdf''))
         (JStr (str ''Clip'')) (JStr (str ''document'')),
       Fetch (JStr (str ''http://m/x.pdf'')),
       ConsoleError (str ''Error sending '' @ str ''document'' @ str '':'')
         (Error (str ''Unsupported media type''))]) \<and>
   JObj [(str ''toString'', JStr (str ''video''))] \<noteq> JStr (str ''video'') \<and>
   JObj [(str ''toString'', JStr (str ''video''))] \<noteq> JStr (str ''audio'') \<and>
   JObj [(str ''toString'', JStr (str ''video''))] \<noteq> JStr (str ''image'') \<and>
   downloadAndSendMedia (serving JNull) visitor_msg (JStr (str ''http://m/x.pdf''))
     (JStr (str ''Clip'')) (JObj [(str ''toString'', JStr (str ''video''))]) [] =
     (Inl not_primitive,
      [CallDownloadAndSendMedia visitor_msg (JStr (str ''http://m/x.pdf''))
         (JStr (str ''Clip'')) (JObj [(str ''toString'', JStr (str ''video''))]),
       Fetch (JStr (str ''http://m/x.pdf''))]) \<and>
   fallback (JStr (str ''Clip'')) (JObj [(str ''toString'', JNum (Fin 1))]) =
     Inl not_primitive"
proof -
  have a: "JStr (str ''document'') \<noteq> JStr (str ''video'')"
    and b: "JStr (str ''document'') \<noteq> JStr (str ''audio'')"
    and c: "JStr (str ''document'') \<noteq> JStr (str ''image'')"
    by (simp_all add: str_def)
  have d: "JObj [(str ''toString'', JStr (str ''video''))] \<noteq> JStr (str ''video'')"
    and e: "JObj [(str ''toString'', JStr (str ''video''))] \<noteq> JStr (str ''audio'')"
    and f: "JObj [(str ''toString'', JStr (str ''video''))] \<noteq> JStr (str ''image'')"
    by simp_all
  have s: "env_fetch (serving JNull)
             ([] @ [CallDownloadAndSendMedia visitor_msg (JStr (str ''http://m/x.pdf''))
                      (JStr (str ''Clip'')) (JStr (str ''document''))])
             (JStr (str ''http://m/x.pdf'')) =
           Inr \<lparr>resp_status = 200, resp_json = Inr JNull, resp_arrayBuffer = Inr []\<rparr> \<and>
           ok \<lparr>resp_status = 200, resp_json = Inr JNull, resp_arrayBuffer = Inr []\<rparr> \<and>
           resp_arrayBuffer \<lparr>resp_status = 200, resp_json = Inr JNull,
                            resp_arrayBuffer = Inr []\<rparr> = Inr []"
    by (simp add: serving_def ok_def)
  have n: "toString (JObj [(str ''toString'', JStr (str ''video''))]) = Inl not_primitive"
    and m: "toString (JObj [(str ''toString'', JNum (Fin 1))]) = Inl not_primitive"
    by simp_all
  show ?thesis
    using a b c d e f s n m
      relay_unsupported_kind [OF a b c, where env = "serving JNull" and msg = visitor_msg
        and mediaUrl = "JStr (str ''http://m/x.pdf'')" and caption = "JStr (str ''Clip'')"
        and tr = "[]"]
      relay_unsupported_kind [OF d e f, where env = "serving JNull" and msg = visitor_msg
        and mediaUrl = "JStr (str ''http://m/x.pdf'')" and caption = "JStr (str ''Clip'')"
        and tr = "[]"]
      relay_unsupported_kind [OF a b c, where env = "serving JNull" and msg = visitor_msg
        and mediaUrl = "JObj [(str ''toString'', JNum (Fin 1))]"
        and caption = "JStr (str ''Clip'')" and tr = "[]"]
    by auto
qed

text \<open>The claim as the specification has it, a hard error for the caller, fails: with
  the kind \<open>document\<close> the relay returns a value, the fallback string.\<close>

theorem relay_unsupported_kind_counterexample:
  "fst (downloadAndSendMedia (serving JNull) visitor_msg (JStr (str ''http://m/x.pdf''))
          (JStr (str ''Clip'')) (JStr (str ''document'')) []) =
   Inr (fallback_text (str ''Clip'') (str ''http://m/x.pdf''))"
  by (simp add: downloadAndSendMedia_def relay_try_def relay_catch_def io_defs
      build_message_def serving_def ok_def error_sending_def fallback_def subst_Inr str_def)

subsection \<open>The handlers without a URL\<close>

text \<open>
  C4. Called with an empty parameter list, each of the five handlers returns its own
  non-empty guidance string and leaves the trace as it was: no call of the fetch client,
  no network call, nothing sent.
\<close>

theorem no_url_guidance:
  "downloadTikTok env msg [] tr = (Inr (str ''Please provide a TikTok URL.''), tr) \<and>
   downloadInstagram env msg [] tr = (Inr (str ''Please provide an Instagram URL.''), tr) \<and>
   downloadSoundCloud env msg [] tr = (Inr (str ''Please provide a SoundCloud URL.''), tr) \<and>
   downloadFacebook env msg [] tr = (Inr (str ''Please provide a Facebook URL.''), tr) \<and>
   downloadTwitter env msg [] tr = (Inr (str ''Please provide a Twitter/X URL.''), tr) \<and>
   str ''Please provide a TikTok URL.'' \<noteq> [] \<and>
   str ''Please provide an Instagram URL.'' \<noteq> [] \<and>
   str ''Please provide a SoundCloud URL.'' \<noteq> [] \<and>
   str ''Please provide a Facebook URL.'' \<noteq> [] \<and>
   str ''Please provide a Twitter/X URL.'' \<noteq> []"
  by (simp add: downloadTikTok_def downloadInstagram_def downloadSoundCloud_def
      downloadFacebook_def downloadTwitter_def absent_def returnIO_def str_def)

theorem no_url_guidance_witness:
  "downloadTikTok offline JNull [] [] = (Inr (str ''Please provide a TikTok URL.''), []) \<and>
   downloadInstagram offline JNull [] [] =
     (Inr (str ''Please provide an Instagram URL.''), []) \<and>
   downloadSoundCloud offline JNull [] [] =
     (Inr (str ''Please provide a SoundCloud URL.''), []) \<and>
   downloadFacebook offline JNull [] [] = (Inr (str ''Please provide a Facebook URL.''), []) \<and>
   downloadTwitter offline JNull [] [] = (Inr (str ''Please provide a Twitter/X URL.''), []) \<and>
   client_calls [] = []"
  using no_url_guidance [of offline JNull "[]"] by (simp add: client_calls_def)

subsection \<open>Runs in the two environments\<close>

lemma visitor_processing:
  "processing env visitor_msg platform tr = (Inr (), tr)"
  by (simp add: processing_def visitor_msg_def io_defs)

lemma serving_fetchDownload:
  assumes "encodeURIComponent url = Inr encoded"
  shows "fetchDownload (serving body) endpoint url tr =
           (Inr body,
            tr @ [CallFetchDownload endpoint url,
                  Fetch (JStr (apiBaseUrl @ str ''/'' @ endpoint @ str ''?url='' @ encoded))])"
  using assms by (simp add: fetchDownload_def io_defs serving_def ok_def)

lemma encode_x: "encodeURIComponent (str ''x'') = Inr (str ''x'')"
  by (simp add: str_def unreserved_def)

subsection \<open>Facebook\<close>

text \<open>
  C8. When the API response has the empty list as \<open>urls\<close>, \<open>downloadFacebook\<close> returns
  the failure text: it begins with the cross mark (U+274C) and contains
  \<open>No media URLs found\<close>. The media relay is not called. The theorem is about a run
  that got as far as the response: with a URL, the owner notice passed, and the fetch
  client returning \<open>result\<close>.
\<close>

theorem facebook_empty_urls:
  assumes "url \<noteq> []"
    and "processing env msg ''Facebook'' tr = (Inr (), tr1)"
    and "fetchDownload env (str ''facebook'') url tr1 = (Inr result, tr2)"
    and "get_path result [''urls''] = Inr (JArr [])"
  shows "\<exists>text. downloadFacebook env msg (url # rest) tr = (Inr text, tr2) \<and>
           text = [0x274C] @ str '' Failed to download Facebook video: Invalid API response: '' @
                  str ''No media URLs found'' \<and>
           prefix [0x274C] text \<and> sublist (str ''No media URLs found'') text \<and>
           relay_calls tr2 = relay_calls tr"
proof -
  have "no_urls (JArr [])" by (simp add: no_urls_def get_prop_length)
  with assms have "downloadFacebook env msg (url # rest) tr =
      (Inr (facebook_failed (Error (str ''Invalid API response: No media URLs found''))), tr2)"
    by (simp add: downloadFacebook_def absent_Cons io_defs)
  moreover have "relay_calls tr2 = relay_calls tr"
    using processing_quiet [OF assms(2)] fetchDownload_calls [OF assms(3)] by simp
  moreover have "sublist (str ''No media URLs found'')
      (([0x274C] @ str '' Failed to download Facebook video: Invalid API response: '') @
       str ''No media URLs found'')"
    by (rule sublist_last)
  ultimately show ?thesis
    by (simp add: facebook_failed_def str_def)
qed

theorem facebook_empty_urls_witness:
  "\<exists>text. downloadFacebook (serving (JObj [(str ''urls'', JArr [])])) visitor_msg [str ''x''] [] =
            (Inr text,
             [] @ [CallFetchDownload (str ''facebook'') (str ''x''),
                   Fetch (JStr (apiBaseUrl @ str ''/'' @ str ''facebook'' @ str ''?url='' @
                                str ''x''))]) \<and>
          prefix [0x274C] text \<and> sublist (str ''No media URLs found'') text"
proof -
  have a: "str ''x'' \<noteq> []" by (simp add: str_def)
  have b: "processing (serving (JObj [(str ''urls'', JArr [])])) visitor_msg ''Facebook'' [] =
           (Inr (), [])"
    by (rule visitor_processing)
  have c: "fetchDownload (serving (JObj [(str ''urls'', JArr [])])) (str ''facebook'') (str ''x'') [] =
           (Inr (JObj [(str ''urls'', JArr [])]),
            [] @ [CallFetchDownload (str ''facebook'') (str ''x''),
                  Fetch (JStr (apiBaseUrl @ str ''/'' @ str ''facebook'' @ str ''?url='' @
                               str ''x''))])"
    by (rule serving_fetchDownload [OF encode_x])
  have d: "get_path (JObj [(str ''urls'', JArr [])]) [''urls''] = Inr (JArr [])"
    by simp
  show ?thesis
    using facebook_empty_urls [OF a b c d, of "[]"] by blast
qed

subsection \<open>Strings of the model\<close>

lemma str_inj [simp]: "str a = str b \<longleftrightarrow> a = b"
proof -
  have "inj (\<lambda>c :: char. (of_nat (of_char c) :: 16 word))"
  proof (rule injI)
    fix x y :: char
    assume "(of_nat (of_char x) :: 16 word) = of_nat (of_char y)"
    then have "unat (of_nat (of_char x) :: 16 word) = unat (of_nat (of_char y) :: 16 word)"
      by simp
    moreover have "of_char x < (256 :: nat)" "of_char y < (256 :: nat)"
      by (simp_all add: of_char_def)
    ultimately have "(of_char x :: nat) = of_char y"
      by (simp add: unat_of_nat)
    then show "x = y" by simp
  qed
  then show ?thesis
    by (simp add: str_def inj_map_eq_map)
qed

lemma str_Nil [simp]: "str [] = []"
  by (simp add: str_def)

lemma str_eq_Nil [simp]: "str a = [] \<longleftrightarrow> a = []"
  by (simp add: str_def)

lemma facebook_mediaUrl_unreadable:
  assumes "get_path result [''urls''] = Inr (JArr (first # others))"
    and "get_path first [''hd''] = Inl e"
  shows "facebook_mediaUrl result = Inl e"
proof -
  have u: "get_prop result (str ''urls'') = Inr (JArr (first # others))"
    using assms(1) by simp
  have "get_path result [''urls'', ''0'', ''hd''] = Inl e"
    using assms(2) by (simp add: u get_prop_array_0)
  then show ?thesis by (simp add: facebook_mediaUrl_def)
qed

text \<open>What a handler that catches makes of the relay: the empty string when the relay
  returns, the failure text when the relay throws, which it does only for a media URL
  without a string form.\<close>

lemma relay_then_empty:
  assumes "downloadAndSendMedia env msg mediaUrl (JStr caption) (JStr kind) tr = (r, tr')"
  shows "(\<exists>s. r = Inr s) \<or> (r = Inl not_primitive \<and> toString mediaUrl = Inl not_primitive)"
proof (cases "toString mediaUrl")
  case (Inl e)
  then have "toString mediaUrl = Inl not_primitive"
    using toString_error by blast
  with relay_result [OF assms] show ?thesis
    by (cases r) (auto simp add: fallback_def subst_Inr)
next
  case (Inr u)
  then show ?thesis
    using assms relay_returns [of "JStr kind" kind "JStr caption" caption mediaUrl u env msg tr]
    by auto
qed

text \<open>
  C7, as the code has it. For a response with a non-empty \<open>urls\<close> list the handler
  builds the caption first and chooses the media URL after it: the \<open>hd\<close> field of the
  first entry when that is present (truthy), and otherwise the alternate quality, the
  \<open>sd\<close> field of the second entry. With a URL chosen, the relay is called once with it,
  and the handler returns the empty string, or the failure text when the relay throws,
  which takes a URL without a string form. When neither field yields a URL, the handler
  returns the failure text \<open>No valid media URL found in API response\<close> and the relay
  is not called. There is no choice, and no relay call, when the caption cannot be built
  (a title without a string form) or when the \<open>hd\<close> field cannot be read (the first
  entry is \<open>null\<close>): the handler returns the failure text of that TypeError, also when
  the second entry has an \<open>sd\<close> field. The theorem is about a run that got as far as
  the response.
\<close>

theorem facebook_preference:
  assumes "url \<noteq> []"
    and "processing env msg ''Facebook'' tr = (Inr (), tr1)"
    and "fetchDownload env (str ''facebook'') url tr1 = (Inr result, tr2)"
    and "get_path result [''urls''] = Inr (JArr (first # others))"
  shows "relay_calls tr2 = relay_calls tr \<and>
         (\<forall>e. facebook_caption result = Inl e \<longrightarrow>
            downloadFacebook env msg (url # rest) tr = (Inr (facebook_failed e), tr2)) \<and>
         (\<forall>caption e. facebook_caption result = Inr caption \<and>
                       get_path first [''hd''] = Inl e \<longrightarrow>
            downloadFacebook env msg (url # rest) tr = (Inr (facebook_failed e), tr2)) \<and>
         (\<forall>caption high. facebook_caption result = Inr caption \<and>
                          get_path first [''hd''] = Inr high \<and>
                          \<not> truthy (preferred high others) \<longrightarrow>
            downloadFacebook env msg (url # rest) tr =
              (Inr ([0x274C] @ str '' Failed to download Facebook video: '' @
                    str ''No valid media URL found in API response''), tr2)) \<and>
         (\<forall>caption high. facebook_caption result = Inr caption \<and>
                          get_path first [''hd''] = Inr high \<and>
                          truthy (preferred high others) \<longrightarrow>
            (\<exists>text tr'.
               downloadFacebook env msg (url # rest) tr = (Inr text, tr') \<and>
               relay_calls tr' = relay_calls tr @
                 [CallDownloadAndSendMedia msg (preferred high others) (JStr caption)
                    (JStr (str ''video''))] \<and>
               (text = [] \<or>
                text = facebook_failed not_primitive \<and>
                toString (preferred high others) = Inl not_primitive)))"
proof -
  have n: "\<not> no_urls (JArr (first # others))"
    by (simp add: no_urls_def get_prop_length)
  have q: "relay_calls tr2 = relay_calls tr"
    using processing_quiet [OF assms(2)] fetchDownload_calls [OF assms(3)] by simp
  have a: "downloadFacebook env msg (url # rest) tr = (Inr (facebook_failed e), tr2)"
    if "facebook_caption result = Inl e" for e
    using assms n that by (simp add: downloadFacebook_def absent_Cons io_defs)
  have b: "downloadFacebook env msg (url # rest) tr = (Inr (facebook_failed e), tr2)"
    if "facebook_caption result = Inr caption" and "get_path first [''hd''] = Inl e"
    for caption e
    using assms(1-4) n that(1) facebook_mediaUrl_unreadable [OF assms(4) that(2)]
    by (simp add: downloadFacebook_def absent_Cons io_defs)
  have c: "downloadFacebook env msg (url # rest) tr =
             (Inr ([0x274C] @ str '' Failed to download Facebook video: '' @
                   str ''No valid media URL found in API response''), tr2)"
    if "facebook_caption result = Inr caption" and "get_path first [''hd''] = Inr high"
      and "\<not> truthy (preferred high others)"
    for caption high
    using assms(1-4) n that(1,3) facebook_mediaUrl_preferred [OF assms(4) that(2)]
    by (simp add: downloadFacebook_def absent_Cons io_defs facebook_failed_def)
  have d: "\<exists>text tr'.
             downloadFacebook env msg (url # rest) tr = (Inr text, tr') \<and>
             relay_calls tr' = relay_calls tr @
               [CallDownloadAndSendMedia msg (preferred high others) (JStr caption)
                  (JStr (str ''video''))] \<and>
             (text = [] \<or>
              text = facebook_failed not_primitive \<and>
              toString (preferred high others) = Inl not_primitive)"
    if "facebook_caption result = Inr caption" and "get_path first [''hd''] = Inr high"
      and "truthy (preferred high others)"
    for caption high
  proof -
    obtain r tr' where r: "downloadAndSendMedia env msg (preferred high others) (JStr caption)
        (JStr (str ''video'')) tr2 = (r, tr')"
      by (cases "downloadAndSendMedia env msg (preferred high others) (JStr caption)
                   (JStr (str ''video'')) tr2")
    have m: "facebook_mediaUrl result = Inr (preferred high others)"
      using assms(4) that(2) by (rule facebook_mediaUrl_preferred)
    have k: "relay_calls tr' = relay_calls tr @
               [CallDownloadAndSendMedia msg (preferred high others) (JStr caption)
                  (JStr (str ''video''))]"
      using relay_calls_relay [OF r] q by simp
    from relay_then_empty [OF r] show ?thesis
    proof
      assume "\<exists>s. r = Inr s"
      then have "downloadFacebook env msg (url # rest) tr = (Inr [], tr')"
        using assms(1-4) n m that(1,3) r
        by (auto simp add: downloadFacebook_def absent_Cons io_defs)
      with k show ?thesis by simp
    next
      assume f: "r = Inl not_primitive \<and> toString (preferred high others) = Inl not_primitive"
      then have "downloadFacebook env msg (url # rest) tr =
                   (Inr (facebook_failed not_primitive), tr')"
        using assms(1-4) n m that(1,3) r
        by (simp add: downloadFacebook_def absent_Cons io_defs)
      with k f show ?thesis by simp
    qed
  qed
  from q a b c d show ?thesis by blast
qed

text \<open>Five responses: \<open>{urls: [{hd: "h"}]}\<close>, where \<open>h\<close> is relayed;
  \<open>{urls: [{}, {sd: "s"}]}\<close>, where \<open>s\<close> is; \<open>{urls: [{}]}\<close>, where neither
  field yields a URL; \<open>{urls: [null, {sd: "s"}]}\<close>, where \<open>hd\<close> cannot be read; and
  \<open>{title: {"toString": 1}, urls: [{hd: "h"}]}\<close>, where the caption cannot be built.\<close>

theorem facebook_preference_witness:
  "(\<exists>tr'. downloadFacebook
            (serving (JObj [(str ''urls'', JArr [JObj [(str ''hd'', JStr (str ''h''))]])]))
            visitor_msg [str ''x''] [] = (Inr [], tr') \<and>
          relay_calls tr' = relay_calls [] @
            [CallDownloadAndSendMedia visitor_msg (JStr (str ''h'')) (JStr video_caption)
               (JStr (str ''video''))]) \<and>
   (\<exists>tr'. downloadFacebook
            (serving (JObj [(str ''urls'', JArr [JObj [], JObj [(str ''sd'', JStr (str ''s''))]])]))
            visitor_msg [str ''x''] [] = (Inr [], tr') \<and>
          relay_calls tr' = relay_calls [] @
            [CallDownloadAndSendMedia visitor_msg (JStr (str ''s'')) (JStr video_caption)
               (JStr (str ''video''))]) \<and>
   downloadFacebook
     (serving (JObj [(str ''urls'', JArr [JObj []])]))
     visitor_msg [str ''x''] [] =
     (Inr ([0x274C] @ str '' Failed to download Facebook video: '' @
           str ''No valid media URL found in API response''),
      [] @ [CallFetchDownload (str ''facebook'') (str ''x''),
            Fetch (JStr (apiBaseUrl @ str ''/'' @ str ''facebook'' @ str ''?url='' @
                         str ''x''))]) \<and>
   downloadFacebook
     (serving (JObj [(str ''urls'', JArr [JNull, JObj [(str ''sd'', JStr (str ''s''))]])]))
     visitor_msg [str ''x''] [] =
     (Inr ([0x274C] @ str '' Failed to download Facebook video: '' @
           str ''Cannot read properties of null (reading 'hd')''),
      [] @ [CallFetchDownload (str ''facebook'') (str ''x''),
            Fetch (JStr (apiBaseUrl @ str ''/'' @ str ''facebook'' @ str ''?url='' @
                         str ''x''))]) \<and>
   downloadFacebook
     (serving (JObj [(str ''title'', JObj [(str ''toString'', JNum (Fin 1))]),
                  (str ''urls'', JArr [JObj [(str ''hd'', JStr (str ''h''))]])]))
     visitor_msg [str ''x''] [] =
     (Inr ([0x274C] @ str '' Failed to download Facebook video: '' @
           str ''Cannot convert object to primitive value''),
      [] @ [CallFetchDownload (str ''facebook'') (str ''x''),
            Fetch (JStr (apiBaseUrl @ str ''/'' @ str ''facebook'' @ str ''?url='' @
                         str ''x''))])"
proof -
  have a: "str ''x'' \<noteq> []" by simp
  have b: "processing (serving body) visitor_msg ''Facebook'' [] = (Inr (), [])" for body
    by (rule visitor_processing)
  have c: "fetchDownload (serving body) (str ''facebook'') (str ''x'') [] =
           (Inr body,
            [] @ [CallFetchDownload (str ''facebook'') (str ''x''),
             Fetch (JStr (apiBaseUrl @ str ''/'' @ str ''facebook'' @ str ''?url='' @
                          str ''x''))])"
    for body
    by (rule serving_fetchDownload [OF encode_x])
  let ?B1 = "JObj [(str ''urls'', JArr [JObj [(str ''hd'', JStr (str ''h''))]])]"
  have d1: "get_path ?B1 [''urls''] = Inr (JArr (JObj [(str ''hd'', JStr (str ''h''))] # []))"
    by simp
  let ?B2 = "JObj [(str ''urls'', JArr [JObj [], JObj [(str ''sd'', JStr (str ''s''))]])]"
  have d2: "get_path ?B2 [''urls''] = Inr (JArr (JObj [] # [JObj [(str ''sd'', JStr (str ''s''))]]))"
    by simp
  let ?B3 = "JObj [(str ''urls'', JArr [JObj []])]"
  have d3: "get_path ?B3 [''urls''] = Inr (JArr (JObj [] # []))"
    by simp
  let ?B4 = "JObj [(str ''urls'', JArr [JNull, JObj [(str ''sd'', JStr (str ''s''))]])]"
  have d4: "get_path ?B4 [''urls''] = Inr (JArr (JNull # [JObj [(str ''sd'', JStr (str ''s''))]]))"
    by simp
  let ?B5 = "JObj [(str ''title'', JObj [(str ''toString'', JNum (Fin 1))]),
                   (str ''urls'', JArr [JObj [(str ''hd'', JStr (str ''h''))]])]"
  have d5: "get_path ?B5 [''urls''] = Inr (JArr (JObj [(str ''hd'', JStr (str ''h''))] # []))"
    by simp
  have k: "facebook_caption ?B1 = Inr video_caption"
    "facebook_caption ?B2 = Inr video_caption"
    "facebook_caption ?B3 = Inr video_caption"
    "facebook_caption ?B4 = Inr video_caption"
    "facebook_caption ?B5 = Inl not_primitive"
    by (simp_all add: facebook_caption_def subst_def video_caption_def)
  have h: "get_path (JObj [(str ''hd'', JStr (str ''h''))]) [''hd''] = Inr (JStr (str ''h''))"
    "get_path (JObj []) [''hd''] = Inr JUndefined"
    "get_path JNull [''hd''] = Inl (cannot_read ''null'' (str ''hd''))"
    by simp_all
  have p: "preferred (JStr (str ''h'')) [] = JStr (str ''h'')"
    "preferred JUndefined [JObj [(str ''sd'', JStr (str ''s''))]] = JStr (str ''s'')"
    "preferred JUndefined [] = JUndefined"
    by (simp_all add: preferred_def alternate_def)
  have m: "facebook_failed (cannot_read ''null'' (str ''hd'')) =
             [0x274C] @ str '' Failed to download Facebook video: '' @
             str ''Cannot read properties of null (reading 'hd')''"
    "facebook_failed not_primitive =
       [0x274C] @ str '' Failed to download Facebook video: '' @
       str ''Cannot convert object to primitive value''"
    by (simp_all add: facebook_failed_def cannot_read_def not_primitive_def str_def)
  show ?thesis
    using k h p m
      facebook_preference [OF a b c d1, of "[]"]
      facebook_preference [OF a b c d2, of "[]"]
      facebook_preference [OF a b c d3, of "[]"]
      facebook_preference [OF a b c d4, of "[]"]
      facebook_preference [OF a b c d5, of "[]"]
    by (auto simp add: not_primitive_def)
qed

text \<open>The claim as the specification has it fails where the first entry of \<open>urls\<close>
  is \<open>null\<close>: the response \<open>{urls: [null, {sd: "s"}]}\<close> has no high-definition
  variant and has the alternate one, and the handler does not fall back to it. Reading
  \<open>hd\<close> throws, the handler returns the failure text, and the relay is not called.\<close>

theorem facebook_preference_counterexample:
  "alternate [JObj [(str ''sd'', JStr (str ''s''))]] = JStr (str ''s'') \<and>
   fst (downloadFacebook
          (serving (JObj [(str ''urls'', JArr [JNull, JObj [(str ''sd'', JStr (str ''s''))]])]))
          visitor_msg [str ''x''] []) =
     Inr ([0x274C] @ str '' Failed to download Facebook video: '' @
          str ''Cannot read properties of null (reading 'hd')'') \<and>
   relay_calls
     (snd (downloadFacebook
             (serving (JObj [(str ''urls'', JArr [JNull, JObj [(str ''sd'', JStr (str ''s''))]])]))
             visitor_msg [str ''x''] [])) = []"
proof -
  let ?B = "JObj [(str ''urls'', JArr [JNull, JObj [(str ''sd'', JStr (str ''s''))]])]"
  have "downloadFacebook (serving ?B) visitor_msg [str ''x''] [] =
          (Inr (facebook_failed (cannot_read ''null'' (str ''hd''))),
           [CallFetchDownload (str ''facebook'') (str ''x''),
            Fetch (JStr (apiBaseUrl @ str ''/'' @ str ''facebook'' @ str ''?url='' @
                         str ''x''))])"
    by (simp add: downloadFacebook_def absent_def visitor_processing
        serving_fetchDownload [OF encode_x] io_defs no_urls_def get_prop_length
        facebook_caption_def subst_def facebook_mediaUrl_def get_prop_array_0)
  moreover have "facebook_failed (cannot_read ''null'' (str ''hd'')) =
      [0x274C] @ str '' Failed to download Facebook video: '' @
      str ''Cannot read properties of null (reading 'hd')''"
    by (simp add: facebook_failed_def cannot_read_def str_def)
  ultimately show ?thesis
    by (simp add: alternate_def relay_calls_def)
qed

subsection \<open>Instagram\<close>

text \<open>
  C9. Called with a URL, the Instagram handler calls the fetch client once, with that
  URL and with the endpoint \<open>igstories\<close> exactly when the URL contains \<open>/stories/\<close>,
  with \<open>instagram\<close> otherwise. The call is made when the owner notice has passed;
  when the notice throws there is no call.
\<close>

theorem instagram_endpoint_choice:
  assumes "url \<noteq> []"
    and "downloadInstagram env msg (url # rest) tr = (r, tr')"
  shows "client_calls tr' = client_calls tr @
           (if \<exists>tr1. processing env msg ''Instagram'' tr = (Inr (), tr1)
            then [CallFetchDownload
                    (if sublist (str ''/stories/'') url then str ''igstories''
                     else str ''instagram'') url]
            else []) \<and>
         str ''igstories'' \<noteq> str ''instagram''"
proof -
  obtain r1 tr1 where p: "processing env msg ''Instagram'' tr = (r1, tr1)"
    by (cases "processing env msg ''Instagram'' tr")
  have e: "str ''igstories'' \<noteq> str ''instagram''" by (simp add: str_def)
  show ?thesis
  proof (cases r1)
    case (Inl err)
    with p assms have "tr' = tr1"
      by (simp add: downloadInstagram_def absent_Cons io_defs)
    with processing_quiet [OF p] p Inl e show ?thesis by simp
  next
    case (Inr u)
    obtain r2 tr2 where f: "fetchDownload env (instagram_endpoint url) url tr1 = (r2, tr2)"
      by (cases "fetchDownload env (instagram_endpoint url) url tr1")
    have "tr' = tr2"
      using assms p Inr f
      by (auto simp add: downloadInstagram_def absent_Cons io_defs split: sum.splits)
    then have "client_calls tr' =
        client_calls tr @ [CallFetchDownload (instagram_endpoint url) url]"
      using processing_quiet [OF p] fetchDownload_calls [OF f] by simp
    with p Inr e show ?thesis by (simp add: instagram_endpoint_def)
  qed
qed

theorem instagram_endpoint_choice_witness:
  "client_calls (snd (downloadInstagram offline visitor_msg [str ''/stories/''] [])) =
     client_calls [] @ [CallFetchDownload (str ''igstories'') (str ''/stories/'')] \<and>
   client_calls (snd (downloadInstagram offline visitor_msg [str ''x''] [])) =
     client_calls [] @ [CallFetchDownload (str ''instagram'') (str ''x'')]"
proof -
  have a: "str ''/stories/'' \<noteq> []" and b: "str ''x'' \<noteq> []"
    by (simp_all add: str_def)
  have s: "sublist (str ''/stories/'') (str ''/stories/'')" by simp
  have n: "\<not> sublist (str ''/stories/'') (str ''x'')"
    by (simp add: str_def sublist_code)
  have p: "\<exists>tr1. processing offline visitor_msg ''Instagram'' [] = (Inr (), tr1)"
    by (simp add: visitor_processing)
  show ?thesis
    using instagram_endpoint_choice [OF a, of offline visitor_msg "[]" "[]"
        "fst (downloadInstagram offline visitor_msg [str ''/stories/''] [])"
        "snd (downloadInstagram offline visitor_msg [str ''/stories/''] [])"]
      instagram_endpoint_choice [OF b, of offline visitor_msg "[]" "[]"
        "fst (downloadInstagram offline visitor_msg [str ''x''] [])"
        "snd (downloadInstagram offline visitor_msg [str ''x''] [])"]
      s n p
    by simp
qed

subsection \<open>The TikTok scenario\<close>

lemma scenario_numbers:
  "convertMiles (JNum (Fin 1500)) = Inr (JStr (str ''1.5k''))"
  "convertMiles (JNum (Fin 200)) = Inr (JStr (str ''200''))"
  "convertMiles (JNum (Fin 5)) = Inr (JStr (str ''5''))"
  "convertMiles (JNum (Fin 3)) = Inr (JStr (str ''3''))"
  "convertMiles (JNum (Fin 10)) = Inr (JStr (str ''10''))"
  "pos_toString 10 @ str ''s'' = str ''10s''"
  "pos_toString 5 @ str ''s'' = str ''5s''"
  by code_simp+

lemma scenario_caption_built: "tiktok_caption scenario_data = Inr scenario_caption"
  by (simp add: tiktok_caption_def subst_def miles_def scenario_data_def scenario_caption_def
      scenario_numbers)

lemma scenario_mediaUrl: "tiktok_mediaUrl scenario_data = Inr (JStr (str ''http://m/hd.mp4''))"
  by (simp add: tiktok_mediaUrl_def scenario_data_def get_prop_array_0)

lemma scenario_url_encoded:
  "encodeURIComponent scenario_url = Inr (str ''https%3A%2F%2Ftiktok.com%2Fx'')"
  unfolding scenario_url_def by code_simp

text \<open>
  C5. In the scenario (a message that is not the owner's, the URL
  \<open>https://tiktok.com/x\<close>, the fetch client returning the JSON above), \<open>downloadTikTok\<close>
  calls the media relay exactly once, with the content kind \<open>video\<close>, the media URL
  \<open>http://m/hd.mp4\<close> and the caption built from the response, and returns the empty
  string, whatever the relay's own fetch and send do.
\<close>

theorem tiktok_scenario:
  assumes "fetchDownload env (str ''tiktok'') scenario_url tr = (Inr scenario_result, tr1)"
  shows "\<exists>tr'. downloadTikTok env visitor_msg [scenario_url] tr = (Inr [], tr') \<and>
           relay_calls tr' = relay_calls tr @
             [CallDownloadAndSendMedia visitor_msg (JStr (str ''http://m/hd.mp4''))
                (JStr scenario_caption) (JStr (str ''video''))]"
proof -
  obtain s tr' where r: "downloadAndSendMedia env visitor_msg (JStr (str ''http://m/hd.mp4''))
      (JStr scenario_caption) (JStr (str ''video'')) tr1 = (Inr s, tr')"
    using relay_returns_strings by blast
  have a: "\<not> absent [scenario_url]"
    by (simp add: absent_def scenario_url_def)
  have "downloadTikTok env visitor_msg [scenario_url] tr = (Inr [], tr')"
    using assms r a
    by (simp add: downloadTikTok_def visitor_processing scenario_result_def
        scenario_caption_built scenario_mediaUrl io_defs)
  moreover have "relay_calls tr1 = relay_calls tr"
    using fetchDownload_calls [OF assms] by simp
  ultimately show ?thesis
    using relay_calls_relay [OF r] by simp
qed

theorem tiktok_scenario_witness:
  "\<exists>tr'. downloadTikTok (serving scenario_result) visitor_msg [scenario_url] [] = (Inr [], tr') \<and>
         relay_calls tr' = relay_calls [] @
           [CallDownloadAndSendMedia visitor_msg (JStr (str ''http://m/hd.mp4''))
              (JStr scenario_caption) (JStr (str ''video''))]"
  using tiktok_scenario [OF serving_fetchDownload [OF scenario_url_encoded]] by blast

subsection \<open>Integers as binary64 values\<close>

lemma quotient_of_nat: "quotient_of (of_nat n) = (int n, 1)"
proof -
  have "(of_nat n :: rat) = Rat.of_int (int n)"
    by (simp add: Rat.of_int_def)
  then show ?thesis by (simp only: quotient_of_int)
qed

lemma floorlog_1: "floorlog 2 (Suc 0) = 1"
  by (simp add: compute_floorlog)

lemma ilog_of_nat_le:
  assumes "n < 2 ^ 53"
  shows "ilog 2 (of_nat n) \<le> 52"
proof -
  have "floorlog 2 n \<le> 53"
    using assms by (intro floorlog_leI) simp_all
  then show ?thesis
    by (simp add: ilog_def quotient_of_nat floorlog_1 Let_def)
qed

lemma rne_of_int [simp]: "rne (of_int j) = j"
  by (simp add: rne_def)

lemma fl_of_nat:
  assumes "n < 2 ^ 53"
  shows "fl (of_nat n) = Fin (of_nat n)"
proof (cases "n = 0")
  case True
  then show ?thesis by (simp add: fl_def)
next
  case False
  define e where "e = max (ilog 2 (of_nat n) - 52) (- 1074)"
  define m where "m = nat (- e)"
  have e: "e = - int m"
    using ilog_of_nat_le [OF assms] by (simp add: e_def m_def)
  have p: "(2 :: rat) powi e = 1 / 2 ^ m"
    by (simp add: e power_int_minus_divide)
  have q: "(of_nat n :: rat) / 2 powi e = of_int (int n * 2 ^ m)"
    by (simp add: p)
  have v: "of_int (rne (of_nat n / 2 powi e)) * 2 powi e = (of_nat n :: rat)"
    unfolding q rne_of_int by (simp add: p)
  have "(of_nat n :: rat) < of_nat (2 ^ 53)"
    using assms by (simp only: of_nat_less_iff)
  also have "\<dots> \<le> 2 ^ 1024" by simp
  finally have o: "\<not> overflow_bound \<le> (of_nat n :: rat)"
    by (simp add: overflow_bound_def)
  show ?thesis
    using False v o by (simp add: fl_def Let_def e_def [symmetric])
qed

lemma num_toString_nat:
  assumes "n < 2 ^ 53"
  shows "num_toString (Fin (of_nat n)) = dec n"
proof (cases "n = 0")
  case True
  then show ?thesis by (simp add: dec_0)
next
  case False
  have "(of_nat n :: rat) < of_nat (2 ^ 53)"
    using assms by (simp only: of_nat_less_iff)
  then have "(of_nat n :: rat) < 9007199254740992" by simp
  with False show ?thesis by (simp add: pos_toString_def)
qed

subsection \<open>Twitter\<close>

lemma get_index_nat:
  assumes "i < length xs" and "i < 2 ^ 53"
  shows "get_index (JArr xs) (Fin (of_nat i)) = Inr (xs ! i)"
  unfolding get_index_def num_toString_nat [OF assms(2)] get_prop_array_index
  using assms(1) by simp

lemma num_minus_Suc:
  assumes "i < 2 ^ 53"
  shows "num_minus (Fin (of_nat (Suc i))) 1 = Fin (of_nat i)"
proof -
  have "(of_nat (Suc i) :: rat) - 1 = of_nat i" by simp
  then have "fl (of_nat (Suc i) - 1) = Fin (of_nat i)"
    using fl_of_nat [OF assms] by (simp only:)
  then show ?thesis by (simp only: num_minus.simps)
qed

lemma last_video_url_array:
  assumes "get_path media [''videos''] = Inr (JArr videos)"
    and "videos \<noteq> []" and "length videos < 2 ^ 32"
  shows "last_video_url media = get_path (last videos) [''url'']"
proof -
  obtain i where i: "length videos = Suc i"
    using assms(2) by (cases videos) simp_all
  have v: "get_prop media (str ''videos'') = Inr (JArr videos)"
    using assms(1) by simp
  have b: "i < 2 ^ 53" and l: "i < length videos"
    using assms(3) i by simp_all
  have "last videos = videos ! i"
    using assms(2) i by (simp add: last_conv_nth)
  then have "get_index (JArr videos) (num_minus (Fin (of_nat (Suc i))) 1) = Inr (last videos)"
    by (simp only: num_minus_Suc [OF b] get_index_nat [OF l b])
  then show ?thesis
    by (simp add: last_video_url_def v get_prop_length i del: of_nat_Suc)
qed

lemma first_video_url_array:
  assumes "get_path media [''videos''] = Inr (JArr videos)" and "videos \<noteq> []"
  shows "first_video_url media = get_path (hd videos) [''url'']"
proof -
  have v: "get_prop media (str ''videos'') = Inr (JArr videos)"
    using assms(1) by simp
  from assms(2) show ?thesis
    by (cases videos) (simp_all add: first_video_url_def v get_prop_array_0)
qed

lemma has_videos_array:
  assumes "get_path media [''type''] = Inr (JStr (str kind))"
    and "get_path media [''videos''] = Inr (JArr videos)" and "videos \<noteq> []"
  shows "has_videos media t = Inr (t = kind)"
  using assms by (auto simp add: has_videos_def get_prop_length)

lemma has_type_truthy:
  assumes "get_path media [''type''] = Inr (JStr (str kind))"
  shows "truthy media"
proof -
  have "get_prop media (str ''type'') = Inr (JStr (str kind))"
    using assms by simp
  then show ?thesis
    by (cases media) (auto simp add: get_prop.simps(4) split: if_splits option.splits)
qed

lemma twitter_media_choice:
  assumes "get_path media [''type''] = Inr (JStr (str kind))"
    and "kind = ''video'' \<or> kind = ''gif''"
    and "get_path media [''videos''] = Inr (JArr videos)"
    and "videos \<noteq> []" and "length videos < 2 ^ 32"
  shows "twitter_media env msg media caption tr2 =
           (case get_path (if kind = ''video'' then last videos else hd videos) [''url''] of
              Inl e \<Rightarrow> (Inl e, tr2)
            | Inr chosen \<Rightarrow>
                (case downloadAndSendMedia env msg chosen (JStr caption) (JStr (str ''video''))
                        tr2 of
                   (Inl e, tr') \<Rightarrow> (Inl e, tr')
                 | (Inr s, tr') \<Rightarrow> (Inr [], tr')))"
proof -
  have t: "get_prop media (str ''type'') = Inr (JStr (str kind))"
    using assms(1) by simp
  have hv: "has_videos media ''video'' = Inr (kind = ''video'')"
    and hg: "has_videos media ''gif'' = Inr (kind = ''gif'')"
    using has_videos_array [OF assms(1,3,4)] by auto
  have hi: "has_image media = Inr False"
    using assms(2) t by (auto simp add: has_image_def)
  have u: "last_video_url media = get_path (last videos) [''url'']"
    by (rule last_video_url_array [OF assms(3,4,5)])
  have f: "first_video_url media = get_path (hd videos) [''url'']"
    by (rule first_video_url_array [OF assms(3,4)])
  from assms(2) show ?thesis
  proof
    assume "kind = ''video''"
    then show ?thesis
      using hv u by (simp add: twitter_media_def io_defs split: sum.splits prod.splits)
  next
    assume "kind = ''gif''"
    then show ?thesis
      using hv hg hi f by (simp add: twitter_media_def io_defs split: sum.splits prod.splits)
  qed
qed

text \<open>A run of the Twitter handler that got as far as a first media element with
  video variants.\<close>

lemma twitter_run:
  assumes "url \<noteq> []"
    and "processing env msg ''Twitter'' tr = (Inr (), tr1)"
    and "fetchDownload env (str ''twitterv2'') url tr1 = (Inr result, tr2)"
    and "get_path result [''data''] = Inr data"
    and "get_path data [''media''] = Inr (JArr (media # others))"
    and "get_path media [''type''] = Inr (JStr (str kind))"
    and "kind = ''video'' \<or> kind = ''gif''"
    and "get_path media [''videos''] = Inr (JArr videos)"
    and "videos \<noteq> []" and "length videos < 2 ^ 32"
  shows "relay_calls tr2 = relay_calls tr \<and>
         (\<forall>e. twitter_caption data = Inl e \<longrightarrow>
            downloadTwitter env msg (url # rest) tr = (Inr (twitter_failed e), tr2)) \<and>
         (\<forall>caption e. twitter_caption data = Inr caption \<and>
                       get_path (if kind = ''video'' then last videos else hd videos) [''url''] =
                         Inl e \<longrightarrow>
            downloadTwitter env msg (url # rest) tr = (Inr (twitter_failed e), tr2)) \<and>
         (\<forall>caption chosen. twitter_caption data = Inr caption \<and>
                       get_path (if kind = ''video'' then last videos else hd videos) [''url''] =
                         Inr chosen \<longrightarrow>
            (\<exists>text tr'.
               downloadTwitter env msg (url # rest) tr = (Inr text, tr') \<and>
               relay_calls tr' = relay_calls tr @
                 [CallDownloadAndSendMedia msg chosen (JStr caption) (JStr (str ''video''))] \<and>
               (text = [] \<or>
                text = twitter_failed not_primitive \<and> toString chosen = Inl not_primitive)))"
proof -
  have d: "get_prop result (str ''data'') = Inr data"
    and m: "get_prop data (str ''media'') = Inr (JArr (media # others))"
    using assms(4,5) by simp_all
  have tm: "truthy media"
    using assms(6) by (rule has_type_truthy)
  have q: "relay_calls tr2 = relay_calls tr"
    using processing_quiet [OF assms(2)] fetchDownload_calls [OF assms(3)] by simp
  note c = twitter_media_choice [OF assms(6-10)]
  have a: "downloadTwitter env msg (url # rest) tr = (Inr (twitter_failed e), tr2)"
    if "twitter_caption data = Inl e" for e
    using assms(1-3) d m tm that
    by (simp add: downloadTwitter_def absent_Cons io_defs get_prop_array_0)
  have b: "downloadTwitter env msg (url # rest) tr = (Inr (twitter_failed e), tr2)"
    if "twitter_caption data = Inr caption"
      and "get_path (if kind = ''video'' then last videos else hd videos) [''url''] = Inl e"
    for caption e
    using assms(1-3) d m tm that c [of env msg caption tr2]
    by (simp add: downloadTwitter_def absent_Cons io_defs get_prop_array_0)
  have r: "\<exists>text tr'.
             downloadTwitter env msg (url # rest) tr = (Inr text, tr') \<and>
             relay_calls tr' = relay_calls tr @
               [CallDownloadAndSendMedia msg chosen (JStr caption) (JStr (str ''video''))] \<and>
             (text = [] \<or>
              text = twitter_failed not_primitive \<and> toString chosen = Inl not_primitive)"
    if k: "twitter_caption data = Inr caption"
      and u: "get_path (if kind = ''video'' then last videos else hd videos) [''url''] =
                Inr chosen"
    for caption chosen
  proof -
    obtain r tr' where r: "downloadAndSendMedia env msg chosen (JStr caption)
        (JStr (str ''video'')) tr2 = (r, tr')"
      by (cases "downloadAndSendMedia env msg chosen (JStr caption) (JStr (str ''video'')) tr2")
    have o: "relay_calls tr' = relay_calls tr @
               [CallDownloadAndSendMedia msg chosen (JStr caption) (JStr (str ''video''))]"
      using relay_calls_relay [OF r] q by simp
    from relay_then_empty [OF r] show ?thesis
    proof
      assume "\<exists>s. r = Inr s"
      then have "downloadTwitter env msg (url # rest) tr = (Inr [], tr')"
        using assms(1-3) d m tm k u r c [of env msg caption tr2]
        by (auto simp add: downloadTwitter_def absent_Cons io_defs get_prop_array_0)
      with o show ?thesis by simp
    next
      assume f: "r = Inl not_primitive \<and> toString chosen = Inl not_primitive"
      then have "downloadTwitter env msg (url # rest) tr =
                   (Inr (twitter_failed not_primitive), tr')"
        using assms(1-3) d m tm k u r c [of env msg caption tr2]
        by (simp add: downloadTwitter_def absent_Cons io_defs get_prop_array_0)
      with o f show ?thesis by simp
    qed
  qed
  from q a b r show ?thesis by blast
qed

lemma tweet_caption_built: "twitter_caption (tweet_data kind) = Inr tweet_caption"
proof -
  have "split_head (str ''https://'') (str ''d'') = str ''d''"
    by (simp add: str_def)
  moreover have "convertMiles JUndefined = Inr JUndefined"
    by (simp add: convertMiles_def isNaN_def)
  ultimately show ?thesis
    by (simp add: twitter_caption_def subst_def miles_def tweet_data_def tweet_caption_def
        split_description_def)
qed

lemma tweet_relays:
  assumes "kind = ''video'' \<or> kind = ''gif''"
  shows "\<exists>tr'. downloadTwitter (serving (tweet kind)) visitor_msg [str ''x''] [] = (Inr [], tr') \<and>
           relay_calls tr' = relay_calls [] @
             [CallDownloadAndSendMedia visitor_msg
                (JStr (str (if kind = ''video'' then ''b'' else ''a'')))
                (JStr tweet_caption) (JStr (str ''video''))]"
proof -
  let ?vs = "[JObj [(str ''url'', JStr (str ''a''))], JObj [(str ''url'', JStr (str ''b''))]]"
  have a: "str ''x'' \<noteq> []" by simp
  have b: "processing (serving (tweet kind)) visitor_msg ''Twitter'' [] = (Inr (), [])"
    by (rule visitor_processing)
  have c: "fetchDownload (serving (tweet kind)) (str ''twitterv2'') (str ''x'') [] =
          (Inr (tweet kind),
           [] @ [CallFetchDownload (str ''twitterv2'') (str ''x''),
                 Fetch (JStr (apiBaseUrl @ str ''/'' @ str ''twitterv2'' @ str ''?url='' @
                              str ''x''))])"
    by (rule serving_fetchDownload [OF encode_x])
  have d: "get_path (tweet kind) [''data''] = Inr (tweet_data kind)"
    by (simp add: tweet_def)
  have e: "get_path (tweet_data kind) [''media''] = Inr (JArr (tweet_media kind # []))"
    by (simp add: tweet_data_def)
  have g: "get_path (tweet_media kind) [''type''] = Inr (JStr (str kind))"
    by (simp add: tweet_media_def)
  have i: "get_path (tweet_media kind) [''videos''] = Inr (JArr ?vs)"
    by (simp add: tweet_media_def)
  have j: "?vs \<noteq> []" and k: "length ?vs < 2 ^ 32" by simp_all
  have l: "get_path (if kind = ''video'' then last ?vs else hd ?vs) [''url''] =
           Inr (JStr (str (if kind = ''video'' then ''b'' else ''a'')))"
    by simp
  have s: "toString (JStr (str (if kind = ''video'' then ''b'' else ''a''))) \<noteq>
           Inl not_primitive"
    by simp
  show ?thesis
    using twitter_run [OF a b c d e g assms i j k, of "[]"] tweet_caption_built [of kind] l s
    by blast
qed

text \<open>
  C6, as the code has it. When the first media element of the response is a video with a
  non-empty list of variants, the handler chooses the last variant; when it is an animated
  image (\<open>gif\<close>), the first variant. The caption is built before that, from the author,
  the description and the counters of the response, and the relay is called, once, with
  the \<open>url\<close> of the chosen variant as a video, only when the caption was built and that
  \<open>url\<close> could be read; the handler then returns the empty string, or the failure text
  when the relay throws, which takes a URL without a string form. When the caption cannot
  be built or the chosen variant is \<open>null\<close>, the handler returns the failure text of
  that error and the relay is not called. The theorem is about a run that got as far as
  the media: with a URL, the owner notice passed, the fetch client returning \<open>result\<close>;
  the list has fewer than \<open>2\<^sup>3\<^sup>2\<close> entries, as every array has.
\<close>

theorem twitter_video_choice:
  assumes "url \<noteq> []"
    and "processing env msg ''Twitter'' tr = (Inr (), tr1)"
    and "fetchDownload env (str ''twitterv2'') url tr1 = (Inr result, tr2)"
    and "get_path result [''data''] = Inr data"
    and "get_path data [''media''] = Inr (JArr (media # others))"
    and "get_path media [''type''] = Inr (JStr (str kind))"
    and "kind = ''video'' \<or> kind = ''gif''"
    and "get_path media [''videos''] = Inr (JArr videos)"
    and "videos \<noteq> []" and "length videos < 2 ^ 32"
  shows "relay_calls tr2 = relay_calls tr \<and>
         (\<forall>e. twitter_caption data = Inl e \<longrightarrow>
            downloadTwitter env msg (url # rest) tr = (Inr (twitter_failed e), tr2)) \<and>
         (\<forall>caption e. twitter_caption data = Inr caption \<and>
                       get_path (if kind = ''video'' then last videos else hd videos) [''url''] =
                         Inl e \<longrightarrow>
            downloadTwitter env msg (url # rest) tr = (Inr (twitter_failed e), tr2)) \<and>
         (\<forall>caption chosen. twitter_caption data = Inr caption \<and>
                       get_path (if kind = ''video'' then last videos else hd videos) [''url''] =
                         Inr chosen \<longrightarrow>
            (\<exists>text tr'.
               downloadTwitter env msg (url # rest) tr = (Inr text, tr') \<and>
               relay_calls tr' = relay_calls tr @
                 [CallDownloadAndSendMedia msg chosen (JStr caption) (JStr (str ''video''))] \<and>
               (text = [] \<or>
                text = twitter_failed not_primitive \<and> toString chosen = Inl not_primitive)))"
  using assms by (rule twitter_run)

text \<open>The video of the specification, in a response that has an author and a
  description: of the variants \<open>a\<close> and \<open>b\<close>, \<open>b\<close> is relayed; of those of a \<open>gif\<close>,
  \<open>a\<close>. In a response that has the media and nothing else the caption cannot be built,
  and a last variant \<open>null\<close> cannot be read: nothing is relayed.\<close>

theorem twitter_video_choice_witness:
  "(\<exists>tr'. downloadTwitter (serving (tweet ''video'')) visitor_msg [str ''x''] [] =
            (Inr [], tr') \<and>
          relay_calls tr' = relay_calls [] @
            [CallDownloadAndSendMedia visitor_msg (JStr (str ''b'')) (JStr tweet_caption)
               (JStr (str ''video''))]) \<and>
   (\<exists>tr'. downloadTwitter (serving (tweet ''gif'')) visitor_msg [str ''x''] [] =
            (Inr [], tr') \<and>
          relay_calls tr' = relay_calls [] @
            [CallDownloadAndSendMedia visitor_msg (JStr (str ''a'')) (JStr tweet_caption)
               (JStr (str ''video''))]) \<and>
   downloadTwitter
     (serving (JObj [(str ''data'',
        JObj [(str ''media'', JArr [tweet_media ''video''])])]))
     visitor_msg [str ''x''] [] =
     (Inr ([0x274C] @ str '' Failed to download Twitter media: '' @
           str ''Cannot read properties of undefined (reading 'username')''),
      [] @ [CallFetchDownload (str ''twitterv2'') (str ''x''),
            Fetch (JStr (apiBaseUrl @ str ''/'' @ str ''twitterv2'' @ str ''?url='' @ str ''x''))]) \<and>
   downloadTwitter
     (serving (JObj [(str ''data'',
        JObj [(str ''author'', JObj [(str ''username'', JStr (str ''u''))]),
              (str ''description'', JStr (str ''d'')),
              (str ''media'',
               JArr [JObj [(str ''type'', JStr (str ''video'')),
                           (str ''videos'',
                            JArr [JObj [(str ''url'', JStr (str ''a''))], JNull])]])])]))
     visitor_msg [str ''x''] [] =
     (Inr ([0x274C] @ str '' Failed to download Twitter media: '' @
           str ''Cannot read properties of null (reading 'url')''),
      [] @ [CallFetchDownload (str ''twitterv2'') (str ''x''),
            Fetch (JStr (apiBaseUrl @ str ''/'' @ str ''twitterv2'' @ str ''?url='' @ str ''x''))])"
proof -
  let ?vs = "[JObj [(str ''url'', JStr (str ''a''))], JObj [(str ''url'', JStr (str ''b''))]]"
  let ?ws = "[JObj [(str ''url'', JStr (str ''a''))], JNull]"
  let ?M4 = "JObj [(str ''type'', JStr (str ''video'')), (str ''videos'', JArr ?ws)]"
  let ?D3 = "JObj [(str ''media'', JArr [tweet_media ''video''])]"
  let ?D4 = "JObj [(str ''author'', JObj [(str ''username'', JStr (str ''u''))]),
                   (str ''description'', JStr (str ''d'')), (str ''media'', JArr [?M4])]"
  let ?B3 = "JObj [(str ''data'', ?D3)]"
  let ?B4 = "JObj [(str ''data'', ?D4)]"
  have a: "str ''x'' \<noteq> []" by simp
  have b: "processing (serving body) visitor_msg ''Twitter'' [] = (Inr (), [])" for body
    by (rule visitor_processing)
  have c: "fetchDownload (serving body) (str ''twitterv2'') (str ''x'') [] =
          (Inr body,
           [] @ [CallFetchDownload (str ''twitterv2'') (str ''x''),
            Fetch (JStr (apiBaseUrl @ str ''/'' @ str ''twitterv2'' @ str ''?url='' @ str ''x''))])" for body
    by (rule serving_fetchDownload [OF encode_x])
  have d: "get_path (tweet kind) [''data''] = Inr (tweet_data kind)" for kind
    by (simp add: tweet_def)
  have d3: "get_path ?B3 [''data''] = Inr ?D3"
    and d4: "get_path ?B4 [''data''] = Inr ?D4"
    by simp_all
  have e: "get_path (tweet_data kind) [''media''] = Inr (JArr (tweet_media kind # []))" for kind
    by (simp add: tweet_data_def)
  have e3: "get_path ?D3 [''media''] = Inr (JArr (tweet_media ''video'' # []))"
    and e4: "get_path ?D4 [''media''] = Inr (JArr (?M4 # []))"
    by simp_all
  have g: "get_path (tweet_media kind) [''type''] = Inr (JStr (str kind))" for kind
    by (simp add: tweet_media_def)
  have g4: "get_path ?M4 [''type''] = Inr (JStr (str ''video''))"
    by simp
  have hv: "''video'' = ''video'' \<or> ''video'' = ''gif''"
    and hg: "''gif'' = ''video'' \<or> ''gif'' = ''gif''"
    by simp_all
  have i: "get_path (tweet_media kind) [''videos''] = Inr (JArr ?vs)" for kind
    by (simp add: tweet_media_def)
  have i4: "get_path ?M4 [''videos''] = Inr (JArr ?ws)"
    by simp
  have j: "?vs \<noteq> []" and k: "length ?vs < 2 ^ 32"
    and j4: "?ws \<noteq> []" and k4: "length ?ws < 2 ^ 32"
    by simp_all
  have l: "get_path (if ''video'' = ''video'' then last ?vs else hd ?vs) [''url''] =
           Inr (JStr (str ''b''))"
    "get_path (if ''gif'' = ''video'' then last ?vs else hd ?vs) [''url''] =
           Inr (JStr (str ''a''))"
    "get_path (if ''video'' = ''video'' then last ?ws else hd ?ws) [''url''] =
           Inl (cannot_read ''null'' (str ''url''))"
    by simp_all
  have split_head_d: "split_head (str ''https://'') (str ''d'') = str ''d''"
    by (simp add: str_def)
  have f: "twitter_caption ?D3 = Inl (cannot_read ''undefined'' (str ''username''))"
    "twitter_caption ?D4 = Inr tweet_caption"
    by (simp_all add: twitter_caption_def subst_def miles_def tweet_caption_def
        split_description_def convertMiles_def isNaN_def split_head_d)
  have m: "twitter_failed (cannot_read ''undefined'' (str ''username'')) =
             [0x274C] @ str '' Failed to download Twitter media: '' @
             str ''Cannot read properties of undefined (reading 'username')''"
    "twitter_failed (cannot_read ''null'' (str ''url'')) =
       [0x274C] @ str '' Failed to download Twitter media: '' @
       str ''Cannot read properties of null (reading 'url')''"
    by (simp_all add: twitter_failed_def cannot_read_def str_def)
  have s: "toString (JStr (str ''a'')) \<noteq> Inl not_primitive"
    "toString (JStr (str ''b'')) \<noteq> Inl not_primitive"
    by simp_all
  show ?thesis
    using l f m s tweet_caption_built
      twitter_video_choice [OF a b c d e g hv i j k, of "[]"]
      twitter_video_choice [OF a b c d e g hg i j k, of "[]"]
      twitter_video_choice [OF a b c d3 e3 g hv i j k, of "[]"]
      twitter_video_choice [OF a b c d4 e4 g4 hv i4 j4 k4, of "[]"]
    by auto
qed

text \<open>The claim as the specification has it, the last variant for an animated image
  too, fails: of the variants \<open>a\<close> and \<open>b\<close> of a \<open>gif\<close>, the first is relayed.\<close>

theorem twitter_gif_counterexample:
  "relayed_urls (snd (downloadTwitter (serving (tweet ''gif'')) visitor_msg [str ''x''] [])) =
     [JStr (str ''a'')] \<and>
   JStr (str ''a'') \<noteq> JStr (str ''b'')"
proof -
  have "relayed_urls (snd (downloadTwitter (serving (tweet ''gif'')) visitor_msg [str ''x''] [])) =
        [JStr (str ''a'')]"
    using tweet_relays [of "''gif''"] by (auto simp add: relayed_urls_def relay_calls_def)
  then show ?thesis by simp
qed

subsection \<open>What the handlers return after a relay call\<close>

lemma fallback_text_not_empty: "fallback_text c u \<noteq> []"
  by (simp add: fallback_text_def str_def)

lemma fallback_value:
  assumes "fallback caption mediaUrl = Inr s"
  shows "s \<noteq> [] \<and> (\<exists>u. toString mediaUrl = Inr u)"
proof (cases "toString caption")
  case (Inl e)
  with assms show ?thesis by (simp add: fallback_def subst_Inr)
next
  case c: (Inr c)
  show ?thesis
  proof (cases "toString mediaUrl")
    case (Inl e)
    with assms c show ?thesis by (simp add: fallback_def subst_Inr)
  next
    case (Inr u)
    with assms c fallback_text_not_empty [of c u] show ?thesis
      by (auto simp add: fallback_def subst_Inr)
  qed
qed

text \<open>The relay call is the last thing a handler does: the run ends where the relay
  ends, with a result that depends on the relay's only in that an error stays one.\<close>

lemma tiktok_after_relay:
  assumes "downloadTikTok env msg params tr = (r, tr')"
    and "relay_calls tr' \<noteq> relay_calls tr"
  obtains mediaUrl caption kind tr0 q
  where "relay_calls tr0 = relay_calls tr"
    and "downloadAndSendMedia env msg mediaUrl (JStr caption) (JStr kind) tr0 = (q, tr')"
    and "r = (case q of Inl e \<Rightarrow> Inl e | Inr s \<Rightarrow> Inr [])"
  using assms
  by (auto simp add: downloadTikTok_def io_defs split: if_splits sum.splits prod.splits
      dest!: processing_quiet fetchDownload_calls)

lemma soundcloud_after_relay:
  assumes "downloadSoundCloud env msg params tr = (r, tr')"
    and "relay_calls tr' \<noteq> relay_calls tr"
  obtains mediaUrl caption kind tr0 q
  where "relay_calls tr0 = relay_calls tr"
    and "downloadAndSendMedia env msg mediaUrl (JStr caption) (JStr kind) tr0 = (q, tr')"
    and "r = (case q of Inl e \<Rightarrow> Inl e | Inr s \<Rightarrow> Inr [])"
  using assms
  by (auto simp add: downloadSoundCloud_def io_defs split: if_splits sum.splits prod.splits
      dest!: processing_quiet fetchDownload_calls)

lemma facebook_after_relay:
  assumes "downloadFacebook env msg params tr = (r, tr')"
    and "relay_calls tr' \<noteq> relay_calls tr"
  obtains mediaUrl caption kind tr0 q
  where "relay_calls tr0 = relay_calls tr"
    and "downloadAndSendMedia env msg mediaUrl (JStr caption) (JStr kind) tr0 = (q, tr')"
    and "r = Inr (case q of Inl e \<Rightarrow> facebook_failed e | Inr s \<Rightarrow> [])"
  using assms
  by (auto simp add: downloadFacebook_def io_defs split: if_splits sum.splits prod.splits
      dest!: processing_quiet fetchDownload_calls)

lemma twitter_media_after_relay:
  assumes "twitter_media env msg media caption tr2 = (r, tr')"
    and "relay_calls tr' \<noteq> relay_calls tr2"
  obtains mediaUrl kind q
  where "downloadAndSendMedia env msg mediaUrl (JStr caption) (JStr kind) tr2 = (q, tr')"
    and "r = (case q of Inl e \<Rightarrow> Inl e | Inr s \<Rightarrow> Inr [])"
  using assms
  by (auto simp add: twitter_media_def io_defs split: if_splits sum.splits prod.splits)

lemma twitter_after_relay:
  assumes "downloadTwitter env msg params tr = (r, tr')"
    and "relay_calls tr' \<noteq> relay_calls tr"
  obtains mediaUrl caption kind tr0 q
  where "relay_calls tr0 = relay_calls tr"
    and "downloadAndSendMedia env msg mediaUrl (JStr caption) (JStr kind) tr0 = (q, tr')"
    and "r = Inr (case q of Inl e \<Rightarrow> twitter_failed e | Inr s \<Rightarrow> [])"
proof -
  obtain media caption tr2 r2
    where c: "relay_calls tr2 = relay_calls tr"
      and m: "twitter_media env msg media caption tr2 = (r2, tr')"
      and r: "r = Inr (case r2 of Inl e \<Rightarrow> twitter_failed e | Inr s \<Rightarrow> s)"
    using assms
    by (auto simp add: downloadTwitter_def io_defs split: if_splits sum.splits prod.splits
        dest!: processing_quiet fetchDownload_calls)
  have "relay_calls tr' \<noteq> relay_calls tr2"
    using assms(2) c by simp
  with m obtain mediaUrl kind q
    where d: "downloadAndSendMedia env msg mediaUrl (JStr caption) (JStr kind) tr2 = (q, tr')"
      and e: "r2 = (case q of Inl e \<Rightarrow> Inl e | Inr s \<Rightarrow> Inr [])"
    by (rule twitter_media_after_relay)
  have "r = Inr (case q of Inl e \<Rightarrow> twitter_failed e | Inr s \<Rightarrow> [])"
    using r e by (cases q) simp_all
  with c d show ?thesis by (rule that)
qed

text \<open>
  C10, as the code has it. Each of the four handlers that call the media relay calls it
  once, as its last step, and ignores the value it returns: when the relay returns, with
  the empty string or with the fallback text, the handler returns the empty string, so
  the fallback text is never the handler's result. Only an error of the relay gets
  through, the TypeError of a media URL without a string form after a failed delivery:
  TikTok and SoundCloud throw it on, Facebook and Twitter return their failure text for
  it.
\<close>

theorem relay_result_discarded:
  assumes "relay_calls tr' \<noteq> relay_calls tr"
  shows "(downloadTikTok env msg params tr = (r, tr') \<or>
          downloadSoundCloud env msg params tr = (r, tr') \<longrightarrow>
            (\<exists>mediaUrl caption kind tr0 q.
               relay_calls tr' = relay_calls tr @
                 [CallDownloadAndSendMedia msg mediaUrl (JStr caption) (JStr kind)] \<and>
               downloadAndSendMedia env msg mediaUrl (JStr caption) (JStr kind) tr0 = (q, tr') \<and>
               r = (case q of Inl e \<Rightarrow> Inl e | Inr s \<Rightarrow> Inr []) \<and>
               (q = Inr [] \<or> q = fallback (JStr caption) mediaUrl) \<and>
               (\<forall>s. fallback (JStr caption) mediaUrl = Inr s \<longrightarrow> r \<noteq> Inr s))) \<and>
         (downloadFacebook env msg params tr = (r, tr') \<longrightarrow>
            (\<exists>mediaUrl caption kind tr0 q.
               relay_calls tr' = relay_calls tr @
                 [CallDownloadAndSendMedia msg mediaUrl (JStr caption) (JStr kind)] \<and>
               downloadAndSendMedia env msg mediaUrl (JStr caption) (JStr kind) tr0 = (q, tr') \<and>
               r = Inr (case q of Inl e \<Rightarrow> facebook_failed e | Inr s \<Rightarrow> []) \<and>
               (q = Inr [] \<or> q = fallback (JStr caption) mediaUrl) \<and>
               (\<forall>s. fallback (JStr caption) mediaUrl = Inr s \<longrightarrow> r \<noteq> Inr s))) \<and>
         (downloadTwitter env msg params tr = (r, tr') \<longrightarrow>
            (\<exists>mediaUrl caption kind tr0 q.
               relay_calls tr' = relay_calls tr @
                 [CallDownloadAndSendMedia msg mediaUrl (JStr caption) (JStr kind)] \<and>
               downloadAndSendMedia env msg mediaUrl (JStr caption) (JStr kind) tr0 = (q, tr') \<and>
               r = Inr (case q of Inl e \<Rightarrow> twitter_failed e | Inr s \<Rightarrow> []) \<and>
               (q = Inr [] \<or> q = fallback (JStr caption) mediaUrl) \<and>
               (\<forall>s. fallback (JStr caption) mediaUrl = Inr s \<longrightarrow> r \<noteq> Inr s)))"
proof -
  have k: "relay_calls tr' = relay_calls tr @
             [CallDownloadAndSendMedia msg mediaUrl (JStr caption) (JStr kind)] \<and>
           (q = Inr [] \<or> q = fallback (JStr caption) mediaUrl) \<and>
           (\<forall>s. fallback (JStr caption) mediaUrl = Inr s \<longrightarrow>
                (\<exists>t. q = Inr t) \<and> s \<noteq> [])"
    if "relay_calls tr0 = relay_calls tr"
      and "downloadAndSendMedia env msg mediaUrl (JStr caption) (JStr kind) tr0 = (q, tr')"
    for mediaUrl caption kind tr0 q
  proof -
    have k1: "relay_calls tr' = relay_calls tr @
        [CallDownloadAndSendMedia msg mediaUrl (JStr caption) (JStr kind)]"
      using relay_calls_relay [OF that(2)] that(1) by simp
    have k2: "q = Inr [] \<or> q = fallback (JStr caption) mediaUrl"
      using relay_result [OF that(2)] relay_then_empty [OF that(2)]
      by (auto simp add: fallback_def subst_Inr)
    have k3: "\<forall>s. fallback (JStr caption) mediaUrl = Inr s \<longrightarrow>
                (\<exists>t. q = Inr t) \<and> s \<noteq> []"
    proof (intro allI impI)
      fix s
      assume "fallback (JStr caption) mediaUrl = Inr s"
      from fallback_value [OF this] relay_then_empty [OF that(2)]
      show "(\<exists>t. q = Inr t) \<and> s \<noteq> []" by auto
    qed
    from k1 k2 k3 show ?thesis by (intro conjI)
  qed
  have a: "\<exists>mediaUrl caption kind tr0 q.
             relay_calls tr' = relay_calls tr @
               [CallDownloadAndSendMedia msg mediaUrl (JStr caption) (JStr kind)] \<and>
             downloadAndSendMedia env msg mediaUrl (JStr caption) (JStr kind) tr0 = (q, tr') \<and>
             r = (case q of Inl e \<Rightarrow> Inl e | Inr s \<Rightarrow> Inr []) \<and>
             (q = Inr [] \<or> q = fallback (JStr caption) mediaUrl) \<and>
             (\<forall>s. fallback (JStr caption) mediaUrl = Inr s \<longrightarrow> r \<noteq> Inr s)"
    if c: "relay_calls tr0 = relay_calls tr"
      and d: "downloadAndSendMedia env msg mediaUrl (JStr caption) (JStr kind) tr0 = (q, tr')"
      and e: "r = (case q of Inl e \<Rightarrow> Inl e | Inr s \<Rightarrow> Inr [])"
    for mediaUrl caption kind tr0 q
  proof -
    note f = k [OF c d]
    have g: "\<forall>s. fallback (JStr caption) mediaUrl = Inr s \<longrightarrow> r \<noteq> Inr s"
    proof (intro allI impI)
      fix s
      assume "fallback (JStr caption) mediaUrl = Inr s"
      with f have "(\<exists>t. q = Inr t) \<and> s \<noteq> []" by simp
      with e show "r \<noteq> Inr s" by auto
    qed
    have "relay_calls tr' = relay_calls tr @
            [CallDownloadAndSendMedia msg mediaUrl (JStr caption) (JStr kind)] \<and>
          downloadAndSendMedia env msg mediaUrl (JStr caption) (JStr kind) tr0 = (q, tr') \<and>
          r = (case q of Inl e \<Rightarrow> Inl e | Inr s \<Rightarrow> Inr []) \<and>
          (q = Inr [] \<or> q = fallback (JStr caption) mediaUrl) \<and>
          (\<forall>s. fallback (JStr caption) mediaUrl = Inr s \<longrightarrow> r \<noteq> Inr s)"
      using f d e g by (intro conjI) simp_all
    then show ?thesis by (intro exI)
  qed
  have t: "\<exists>mediaUrl caption kind tr0 q.
             relay_calls tr' = relay_calls tr @
               [CallDownloadAndSendMedia msg mediaUrl (JStr caption) (JStr kind)] \<and>
             downloadAndSendMedia env msg mediaUrl (JStr caption) (JStr kind) tr0 = (q, tr') \<and>
             r = (case q of Inl e \<Rightarrow> Inl e | Inr s \<Rightarrow> Inr []) \<and>
             (q = Inr [] \<or> q = fallback (JStr caption) mediaUrl) \<and>
             (\<forall>s. fallback (JStr caption) mediaUrl = Inr s \<longrightarrow> r \<noteq> Inr s)"
    if "downloadTikTok env msg params tr = (r, tr') \<or>
        downloadSoundCloud env msg params tr = (r, tr')"
    using that
  proof
    assume "downloadTikTok env msg params tr = (r, tr')"
    from this assms obtain mediaUrl caption kind tr0 q
      where "relay_calls tr0 = relay_calls tr"
        and "downloadAndSendMedia env msg mediaUrl (JStr caption) (JStr kind) tr0 = (q, tr')"
        and "r = (case q of Inl e \<Rightarrow> Inl e | Inr s \<Rightarrow> Inr [])"
      by (rule tiktok_after_relay)
    then show ?thesis by (rule a)
  next
    assume "downloadSoundCloud env msg params tr = (r, tr')"
    from this assms obtain mediaUrl caption kind tr0 q
      where "relay_calls tr0 = relay_calls tr"
        and "downloadAndSendMedia env msg mediaUrl (JStr caption) (JStr kind) tr0 = (q, tr')"
        and "r = (case q of Inl e \<Rightarrow> Inl e | Inr s \<Rightarrow> Inr [])"
      by (rule soundcloud_after_relay)
    then show ?thesis by (rule a)
  qed
  have b: "\<exists>mediaUrl caption kind tr0 q.
             relay_calls tr' = relay_calls tr @
               [CallDownloadAndSendMedia msg mediaUrl (JStr caption) (JStr kind)] \<and>
             downloadAndSendMedia env msg mediaUrl (JStr caption) (JStr kind) tr0 = (q, tr') \<and>
             r = Inr (case q of Inl e \<Rightarrow> facebook_failed e | Inr s \<Rightarrow> []) \<and>
             (q = Inr [] \<or> q = fallback (JStr caption) mediaUrl) \<and>
             (\<forall>s. fallback (JStr caption) mediaUrl = Inr s \<longrightarrow> r \<noteq> Inr s)"
    if "downloadFacebook env msg params tr = (r, tr')"
  proof -
    from that assms obtain mediaUrl caption kind tr0 q
      where c: "relay_calls tr0 = relay_calls tr"
        and d: "downloadAndSendMedia env msg mediaUrl (JStr caption) (JStr kind) tr0 = (q, tr')"
        and e: "r = Inr (case q of Inl e \<Rightarrow> facebook_failed e | Inr s \<Rightarrow> [])"
      by (rule facebook_after_relay)
    note f = k [OF c d]
    have g: "\<forall>s. fallback (JStr caption) mediaUrl = Inr s \<longrightarrow> r \<noteq> Inr s"
    proof (intro allI impI)
      fix s
      assume "fallback (JStr caption) mediaUrl = Inr s"
      with f have "(\<exists>t. q = Inr t) \<and> s \<noteq> []" by simp
      with e show "r \<noteq> Inr s" by auto
    qed
    have "relay_calls tr' = relay_calls tr @
            [CallDownloadAndSendMedia msg mediaUrl (JStr caption) (JStr kind)] \<and>
          downloadAndSendMedia env msg mediaUrl (JStr caption) (JStr kind) tr0 = (q, tr') \<and>
          r = Inr (case q of Inl e \<Rightarrow> facebook_failed e | Inr s \<Rightarrow> []) \<and>
          (q = Inr [] \<or> q = fallback (JStr caption) mediaUrl) \<and>
          (\<forall>s. fallback (JStr caption) mediaUrl = Inr s \<longrightarrow> r \<noteq> Inr s)"
      using f d e g by (intro conjI) simp_all
    then show ?thesis by (intro exI)
  qed
  have c: "\<exists>mediaUrl caption kind tr0 q.
             relay_calls tr' = relay_calls tr @
               [CallDownloadAndSendMedia msg mediaUrl (JStr caption) (JStr kind)] \<and>
             downloadAndSendMedia env msg mediaUrl (JStr caption) (JStr kind) tr0 = (q, tr') \<and>
             r = Inr (case q of Inl e \<Rightarrow> twitter_failed e | Inr s \<Rightarrow> []) \<and>
             (q = Inr [] \<or> q = fallback (JStr caption) mediaUrl) \<and>
             (\<forall>s. fallback (JStr caption) mediaUrl = Inr s \<longrightarrow> r \<noteq> Inr s)"
    if "downloadTwitter env msg params tr = (r, tr')"
  proof -
    from that assms obtain mediaUrl caption kind tr0 q
      where c: "relay_calls tr0 = relay_calls tr"
        and d: "downloadAndSendMedia env msg mediaUrl (JStr caption) (JStr kind) tr0 = (q, tr')"
        and e: "r = Inr (case q of Inl e \<Rightarrow> twitter_failed e | Inr s \<Rightarrow> [])"
      by (rule twitter_after_relay)
    note f = k [OF c d]
    have g: "\<forall>s. fallback (JStr caption) mediaUrl = Inr s \<longrightarrow> r \<noteq> Inr s"
    proof (intro allI impI)
      fix s
      assume "fallback (JStr caption) mediaUrl = Inr s"
      with f have "(\<exists>t. q = Inr t) \<and> s \<noteq> []" by simp
      with e show "r \<noteq> Inr s" by auto
    qed
    have "relay_calls tr' = relay_calls tr @
            [CallDownloadAndSendMedia msg mediaUrl (JStr caption) (JStr kind)] \<and>
          downloadAndSendMedia env msg mediaUrl (JStr caption) (JStr kind) tr0 = (q, tr') \<and>
          r = Inr (case q of Inl e \<Rightarrow> twitter_failed e | Inr s \<Rightarrow> []) \<and>
          (q = Inr [] \<or> q = fallback (JStr caption) mediaUrl) \<and>
          (\<forall>s. fallback (JStr caption) mediaUrl = Inr s \<longrightarrow> r \<noteq> Inr s)"
      using f d e g by (intro conjI) simp_all
    then show ?thesis by (intro exI)
  qed
  from t b c show ?thesis by (intro conjI impI)
qed

text \<open>Runs in which delivery fails: the API answers, the fetch of the media is
  rejected. The relay logs that and ends with its fallback.\<close>

lemma api_only_fetchDownload:
  assumes "encodeURIComponent url = Inr encoded"
  shows "fetchDownload (api_only body) endpoint url tr =
           (Inr body,
            tr @ [CallFetchDownload endpoint url,
                  Fetch (JStr (apiBaseUrl @ str ''/'' @ endpoint @ str ''?url='' @ encoded))])"
  using assms by (simp add: fetchDownload_def io_defs api_only_def ok_def)

lemma api_only_relay:
  assumes "\<not> prefix apiBaseUrl u"
  shows "downloadAndSendMedia (api_only body) msg (JStr u) (JStr c) (JStr t) tr =
           (Inr (fallback_text c u),
            tr @ [CallDownloadAndSendMedia msg (JStr u) (JStr c) (JStr t), Fetch (JStr u),
                  ConsoleError (str ''Error sending '' @ t @ str '':'')
                    (TypeError (str ''fetch failed''))])"
  using assms
  by (simp add: relay_run relay_catch_run fallback_strings relay_try_def io_defs api_only_def)

lemma api_only_relay_object:
  "downloadAndSendMedia (api_only body) msg (JObj kvs) (JStr c) (JStr t) tr =
     (fallback (JStr c) (JObj kvs),
      tr @ [CallDownloadAndSendMedia msg (JObj kvs) (JStr c) (JStr t), Fetch (JObj kvs),
            ConsoleError (str ''Error sending '' @ t @ str '':'')
              (TypeError (str ''fetch failed''))])"
  by (simp add: relay_run relay_catch_run relay_try_def io_defs api_only_def)

lemma track_caption_built:
  "soundcloud_caption (JObj [(str ''title'', JStr (str ''T'')), (str ''author'', JStr (str ''A'')),
                             (str ''download'', d)]) = Inr track_caption"
  by (simp add: soundcloud_caption_def subst_def miles_def convertMiles_def isNaN_def
      track_caption_def)

lemma video_caption_built: "facebook_caption (facebook_video h) = Inr video_caption"
  by (simp add: facebook_caption_def subst_def facebook_video_def video_caption_def)

lemma media_not_api:
  "\<not> prefix apiBaseUrl (str ''http://m/hd.mp4'')"
  "\<not> prefix apiBaseUrl (str ''http://m/s.mp3'')"
  "\<not> prefix apiBaseUrl (str ''h'')"
  "\<not> prefix apiBaseUrl (str ''b'')"
  by (simp_all add: apiBaseUrl_def str_def)

lemma urls_given: "\<not> absent [scenario_url]" "\<not> absent [str ''x'']"
  by (simp_all add: absent_def scenario_url_def)

lemma tiktok_undelivered:
  "relay_calls (snd (downloadTikTok (api_only scenario_result) visitor_msg [scenario_url] [])) =
     [CallDownloadAndSendMedia visitor_msg (JStr (str ''http://m/hd.mp4''))
        (JStr scenario_caption) (JStr (str ''video''))]"
  by (simp add: downloadTikTok_def urls_given visitor_processing
      api_only_fetchDownload [OF scenario_url_encoded] scenario_result_def
      scenario_caption_built scenario_mediaUrl api_only_relay media_not_api
      bindIO_def liftE_def returnIO_def relay_calls_def)

lemma soundcloud_undelivered:
  "relay_calls (snd (downloadSoundCloud (api_only (soundcloud_track d)) visitor_msg
                       [str ''x''] [])) =
     [CallDownloadAndSendMedia visitor_msg d (JStr track_caption) (JStr (str ''audio''))]"
proof -
  obtain q tr' where "downloadAndSendMedia (api_only (soundcloud_track d)) visitor_msg d
      (JStr track_caption) (JStr (str ''audio''))
      ([] @ [CallFetchDownload (str ''soundcloud'') (str ''x''),
             Fetch (JStr (apiBaseUrl @ str ''/'' @ str ''soundcloud'' @ str ''?url='' @
                          str ''x''))]) = (q, tr')"
    by (cases "downloadAndSendMedia (api_only (soundcloud_track d)) visitor_msg d
      (JStr track_caption) (JStr (str ''audio''))
      ([] @ [CallFetchDownload (str ''soundcloud'') (str ''x''),
             Fetch (JStr (apiBaseUrl @ str ''/'' @ str ''soundcloud'' @ str ''?url='' @
                          str ''x''))])")
  then show ?thesis
    using relay_calls_relay [of "api_only (soundcloud_track d)" visitor_msg d
        "JStr track_caption" "JStr (str ''audio'')" _ q tr']
    by (cases q)
       (simp_all add: downloadSoundCloud_def urls_given visitor_processing
          api_only_fetchDownload [OF encode_x] soundcloud_track_def track_caption_built
          bindIO_def liftE_def returnIO_def relay_calls_def)
qed

lemma facebook_undelivered:
  assumes "truthy h"
  shows "relay_calls (snd (downloadFacebook (api_only (facebook_video h)) visitor_msg
                             [str ''x''] [])) =
           [CallDownloadAndSendMedia visitor_msg h (JStr video_caption) (JStr (str ''video''))]"
proof -
  obtain q tr' where "downloadAndSendMedia (api_only (facebook_video h)) visitor_msg h
      (JStr video_caption) (JStr (str ''video''))
      ([] @ [CallFetchDownload (str ''facebook'') (str ''x''),
             Fetch (JStr (apiBaseUrl @ str ''/'' @ str ''facebook'' @ str ''?url='' @
                          str ''x''))]) = (q, tr')"
    by (cases "downloadAndSendMedia (api_only (facebook_video h)) visitor_msg h
      (JStr video_caption) (JStr (str ''video''))
      ([] @ [CallFetchDownload (str ''facebook'') (str ''x''),
             Fetch (JStr (apiBaseUrl @ str ''/'' @ str ''facebook'' @ str ''?url='' @
                          str ''x''))])")
  moreover have "facebook_mediaUrl (facebook_video h) = Inr h"
    using assms
    by (simp add: facebook_mediaUrl_def facebook_video_def get_prop_array_0)
  moreover have "get_path (facebook_video h) [''urls''] = Inr (JArr [JObj [(str ''hd'', h)]])"
    by (simp add: facebook_video_def)
  ultimately show ?thesis
    using assms relay_calls_relay [of "api_only (facebook_video h)" visitor_msg h
        "JStr video_caption" "JStr (str ''video'')" _ q tr']
    by (cases q)
       (simp_all add: downloadFacebook_def urls_given visitor_processing
          api_only_fetchDownload [OF encode_x] video_caption_built no_urls_def get_prop_length
          bindIO_def liftE_def returnIO_def throwIO_def catchIO_def relay_calls_def)
qed

lemma twitter_undelivered:
  "relay_calls (snd (downloadTwitter (api_only (tweet ''video'')) visitor_msg [str ''x''] [])) =
     [CallDownloadAndSendMedia visitor_msg (JStr (str ''b'')) (JStr tweet_caption)
        (JStr (str ''video''))]"
proof -
  let ?vs = "[JObj [(str ''url'', JStr (str ''a''))], JObj [(str ''url'', JStr (str ''b''))]]"
  have a: "str ''x'' \<noteq> []" by simp
  have b: "processing (api_only (tweet ''video'')) visitor_msg ''Twitter'' [] = (Inr (), [])"
    by (rule visitor_processing)
  have c: "fetchDownload (api_only (tweet ''video'')) (str ''twitterv2'') (str ''x'') [] =
          (Inr (tweet ''video''),
           [] @ [CallFetchDownload (str ''twitterv2'') (str ''x''),
                 Fetch (JStr (apiBaseUrl @ str ''/'' @ str ''twitterv2'' @ str ''?url='' @
                              str ''x''))])"
    by (rule api_only_fetchDownload [OF encode_x])
  have d: "get_path (tweet ''video'') [''data''] = Inr (tweet_data ''video'')"
    by (simp add: tweet_def)
  have e: "get_path (tweet_data ''video'') [''media''] =
             Inr (JArr (tweet_media ''video'' # []))"
    by (simp add: tweet_data_def)
  have g: "get_path (tweet_media ''video'') [''type''] = Inr (JStr (str ''video''))"
    by (simp add: tweet_media_def)
  have h: "''video'' = ''video'' \<or> ''video'' = ''gif''" by simp
  have i: "get_path (tweet_media ''video'') [''videos''] = Inr (JArr ?vs)"
    by (simp add: tweet_media_def)
  have j: "?vs \<noteq> []" and k: "length ?vs < 2 ^ 32" by simp_all
  have l: "get_path (if ''video'' = ''video'' then last ?vs else hd ?vs) [''url''] =
           Inr (JStr (str ''b''))"
    by simp
  show ?thesis
    using twitter_run [OF a b c d e g h i j k, of "[]"] tweet_caption_built [of "''video''"] l
    by (auto simp add: relay_calls_def)
qed

text \<open>The four handlers in runs in which delivery fails: each reaches the relay, the
  relay ends with the fallback text, and the handler returns the empty string. With a
  media reference \<open>{"toString": 1}\<close> the relay throws: SoundCloud throws that error on,
  Facebook returns its failure text.\<close>

theorem relay_result_discarded_witness:
  "fst (downloadTikTok (api_only scenario_result) visitor_msg [scenario_url] []) = Inr [] \<and>
   fst (downloadSoundCloud (api_only (soundcloud_track (JStr (str ''http://m/s.mp3''))))
          visitor_msg [str ''x''] []) = Inr [] \<and>
   fst (downloadFacebook (api_only (facebook_video (JStr (str ''h''))))
          visitor_msg [str ''x''] []) = Inr [] \<and>
   fst (downloadTwitter (api_only (tweet ''video'')) visitor_msg [str ''x''] []) = Inr [] \<and>
   fst (downloadSoundCloud (api_only (soundcloud_track (JObj [(str ''toString'', JNum (Fin 1))])))
          visitor_msg [str ''x''] []) = Inl not_primitive \<and>
   fst (downloadFacebook (api_only (facebook_video (JObj [(str ''toString'', JNum (Fin 1))])))
          visitor_msg [str ''x''] []) = Inr (facebook_failed not_primitive)"
proof -
  let ?o = "JObj [(str ''toString'', JNum (Fin 1))]"
  let ?T = "downloadTikTok (api_only scenario_result) visitor_msg [scenario_url] []"
  let ?S = "downloadSoundCloud (api_only (soundcloud_track (JStr (str ''http://m/s.mp3''))))
              visitor_msg [str ''x''] []"
  let ?F = "downloadFacebook (api_only (facebook_video (JStr (str ''h''))))
              visitor_msg [str ''x''] []"
  let ?W = "downloadTwitter (api_only (tweet ''video'')) visitor_msg [str ''x''] []"
  let ?S' = "downloadSoundCloud (api_only (soundcloud_track ?o)) visitor_msg [str ''x''] []"
  let ?F' = "downloadFacebook (api_only (facebook_video ?o)) visitor_msg [str ''x''] []"
  have n: "fallback (JStr c) ?o = Inl not_primitive" for c
    by (simp add: fallback_def subst_Inr)
  have t: "relay_calls (snd ?T) \<noteq> relay_calls []"
    by (simp add: tiktok_undelivered) (simp add: relay_calls_def)
  have "fst ?T = Inr []"
    using relay_result_discarded [OF t, where env = "api_only scenario_result"
        and msg = visitor_msg and params = "[scenario_url]" and r = "fst ?T"]
    by (auto simp add: tiktok_undelivered api_only_relay media_not_api)
  moreover have s: "relay_calls (snd ?S) \<noteq> relay_calls []"
    by (simp add: soundcloud_undelivered) (simp add: relay_calls_def)
  have "fst ?S = Inr []"
    using relay_result_discarded [OF s, where msg = visitor_msg and params = "[str ''x'']"
        and env = "api_only (soundcloud_track (JStr (str ''http://m/s.mp3'')))"
        and r = "fst ?S"]
    by (auto simp add: soundcloud_undelivered api_only_relay media_not_api)
  moreover have f: "relay_calls (snd ?F) \<noteq> relay_calls []"
    by (simp add: facebook_undelivered) (simp add: relay_calls_def)
  have "fst ?F = Inr []"
    using relay_result_discarded [OF f, where msg = visitor_msg and params = "[str ''x'']"
        and env = "api_only (facebook_video (JStr (str ''h'')))" and r = "fst ?F"]
    by (auto simp add: facebook_undelivered api_only_relay media_not_api)
  moreover have w: "relay_calls (snd ?W) \<noteq> relay_calls []"
    by (simp add: twitter_undelivered) (simp add: relay_calls_def)
  have "fst ?W = Inr []"
    using relay_result_discarded [OF w, where msg = visitor_msg and params = "[str ''x'']"
        and env = "api_only (tweet ''video'')" and r = "fst ?W"]
    by (auto simp add: twitter_undelivered api_only_relay media_not_api)
  moreover have s': "relay_calls (snd ?S') \<noteq> relay_calls []"
    by (simp add: soundcloud_undelivered) (simp add: relay_calls_def)
  have "fst ?S' = Inl not_primitive"
    using relay_result_discarded [OF s', where msg = visitor_msg and params = "[str ''x'']"
        and env = "api_only (soundcloud_track ?o)" and r = "fst ?S'"]
    by (auto simp add: soundcloud_undelivered api_only_relay_object n)
  moreover have f': "relay_calls (snd ?F') \<noteq> relay_calls []"
    by (simp add: facebook_undelivered) (simp add: relay_calls_def)
  have "fst ?F' = Inr (facebook_failed not_primitive)"
    using relay_result_discarded [OF f', where msg = visitor_msg and params = "[str ''x'']"
        and env = "api_only (facebook_video ?o)" and r = "fst ?F'"]
    by (auto simp add: facebook_undelivered api_only_relay_object n)
  ultimately show ?thesis by (intro conjI)
qed

text \<open>The claim as the specification has it, the empty string unconditionally after
  the relay call, fails: SoundCloud hands the \<open>download\<close> field of the response to
  the relay as it comes, and for the JSON object \<open>{"toString": 1}\<close> there and a failed
  delivery the relay was called and the handler throws.\<close>

theorem relay_result_discarded_counterexample:
  "relay_calls (snd (downloadSoundCloud
      (api_only (soundcloud_track (JObj [(str ''toString'', JNum (Fin 1))])))
      visitor_msg [str ''x''] [])) =
     [CallDownloadAndSendMedia visitor_msg (JObj [(str ''toString'', JNum (Fin 1))])
        (JStr track_caption) (JStr (str ''audio''))] \<and>
   fst (downloadSoundCloud
      (api_only (soundcloud_track (JObj [(str ''toString'', JNum (Fin 1))])))
      visitor_msg [str ''x''] []) =
     Inl (TypeError (str ''Cannot convert object to primitive value''))"
proof -
  have "downloadSoundCloud
      (api_only (soundcloud_track (JObj [(str ''toString'', JNum (Fin 1))])))
      visitor_msg [str ''x''] [] =
     (Inl not_primitive,
      [CallFetchDownload (str ''soundcloud'') (str ''x''),
       Fetch (JStr (apiBaseUrl @ str ''/'' @ str ''soundcloud'' @ str ''?url='' @ str ''x'')),
       CallDownloadAndSendMedia visitor_msg (JObj [(str ''toString'', JNum (Fin 1))])
         (JStr track_caption) (JStr (str ''audio'')),
       Fetch (JObj [(str ''toString'', JNum (Fin 1))]),
       ConsoleError (str ''Error sending '' @ str ''audio'' @ str '':'')
         (TypeError (str ''fetch failed''))])"
    by (simp add: downloadSoundCloud_def urls_given visitor_processing
        api_only_fetchDownload [OF encode_x] soundcloud_track_def track_caption_built
        api_only_relay_object fallback_def subst_Inr bindIO_def liftE_def returnIO_def)
  then show ?thesis
    by (simp add: relay_calls_def not_primitive_def)
qed

subsection \<open>Rounding to binary64\<close>

lemma ilog2_bounds:
  assumes "0 < q"
  shows "2 powi (ilog 2 q) \<le> q \<and> q < 2 powi (ilog 2 q + 1)"
proof -
  obtain n d where nd: "quotient_of q = (n, d)"
    by (cases "quotient_of q")
  have d: "0 < d" using nd by (rule quotient_of_denom_pos)
  have q: "q = of_int n / of_int d" using nd by (rule quotient_of_div)
  have n: "0 < n" using assms d by (simp add: q zero_less_divide_iff)
  define fn where "fn = floorlog 2 (nat n)"
  define fd where "fd = floorlog 2 (nat d)"
  have bn: "2 ^ (fn - 1) \<le> nat n \<and> nat n < 2 ^ fn"
    unfolding fn_def using n by (intro floorlog_bounds) simp_all
  have bd: "2 ^ (fd - 1) \<le> nat d \<and> nat d < 2 ^ fd"
    unfolding fd_def using d by (intro floorlog_bounds) simp_all
  have "fn \<noteq> 0" using n by (simp add: fn_def floorlog_eq_zero_iff)
  then have fn: "0 < fn" by simp
  have "fd \<noteq> 0" using d by (simp add: fd_def floorlog_eq_zero_iff)
  then have fd: "0 < fd" by simp
  have rn: "(2 :: rat) ^ (fn - 1) \<le> of_int n" "(of_int n :: rat) < 2 ^ fn"
  proof -
    have "(of_nat (2 ^ (fn - 1)) :: rat) \<le> of_nat (nat n)"
      using bn by (simp only: of_nat_le_iff)
    then show "(2 :: rat) ^ (fn - 1) \<le> of_int n" using n by simp
    have "(of_nat (nat n) :: rat) < of_nat (2 ^ fn)"
      using bn by (simp only: of_nat_less_iff)
    then show "(of_int n :: rat) < 2 ^ fn" using n by simp
  qed
  have rd: "(2 :: rat) ^ (fd - 1) \<le> of_int d" "(of_int d :: rat) < 2 ^ fd"
  proof -
    have "(of_nat (2 ^ (fd - 1)) :: rat) \<le> of_nat (nat d)"
      using bd by (simp only: of_nat_le_iff)
    then show "(2 :: rat) ^ (fd - 1) \<le> of_int d" using d by simp
    have "(of_nat (nat d) :: rat) < of_nat (2 ^ fd)"
      using bd by (simp only: of_nat_less_iff)
    then show "(of_int d :: rat) < 2 ^ fd" using d by simp
  qed
  define k where "k = int fn - int fd"
  have lower: "2 powi (k - 1) \<le> q"
  proof -
    have "k - 1 = int (fn - 1) - int fd" using fn by (simp add: k_def)
    then have "(2 :: rat) powi (k - 1) = 2 ^ (fn - 1) / 2 ^ fd"
      by (simp add: power_int_diff)
    also have "\<dots> \<le> of_int n / of_int d"
      using rn(1) rd(2) d n by (intro frac_le) simp_all
    finally show ?thesis by (simp add: q)
  qed
  have upper: "q < 2 powi (k + 1)"
  proof -
    have "of_int n / of_int d < (2 :: rat) ^ fn / 2 ^ (fd - 1)"
      using rn(2) rd(1) n by (intro frac_less) simp_all
    moreover have "k + 1 = int fn - int (fd - 1)" using fd by (simp add: k_def)
    then have "(2 :: rat) powi (k + 1) = 2 ^ fn / 2 ^ (fd - 1)"
      by (simp add: power_int_diff)
    ultimately show ?thesis by (simp add: q)
  qed
  have i: "ilog 2 q = (if 2 powi k \<le> q then k else k - 1)"
    by (simp add: ilog_def nd fn_def fd_def k_def Let_def)
  show ?thesis
  proof (cases "2 powi k \<le> q")
    case True
    with i upper show ?thesis by simp
  next
    case False
    with i lower show ?thesis by simp
  qed
qed

lemma rne_error: "\<bar>of_int (rne r) - r\<bar> \<le> 1 / 2"
proof -
  define f where "f = \<lfloor>r\<rfloor>"
  have b: "of_int f \<le> r" "r < of_int f + 1"
    unfolding f_def by linarith+
  consider "r - of_int f < 1 / 2" | "1 / 2 < r - of_int f" | "r - of_int f = 1 / 2"
    by linarith
  then show ?thesis
  proof cases
    case 1
    then have "rne r = f" by (simp add: rne_def f_def)
    with 1 b show ?thesis by simp
  next
    case 2
    then have "rne r = f + 1" by (simp add: rne_def f_def)
    with 2 b show ?thesis by simp
  next
    case 3
    then have "rne r = f \<or> rne r = f + 1" by (simp add: rne_def f_def Let_def)
    with 3 b show ?thesis by auto
  qed
qed
lemma fl_normal:
  assumes "1 \<le> a" and "a < 2 ^ 1023"
  shows "\<exists>x. fl a = Fin x \<and> \<bar>x - a\<bar> \<le> a / 2 ^ 53"
proof -
  define t where "t = ilog 2 a"
  have a: "0 < a" using assms(1) by simp
  have b: "2 powi t \<le> a" "a < 2 powi (t + 1)"
    using ilog2_bounds [OF a] by (simp_all add: t_def)
  have t: "0 \<le> t"
  proof (rule ccontr)
    assume "\<not> 0 \<le> t"
    then have "t + 1 \<le> 0" by simp
    then have "(2 :: rat) powi (t + 1) \<le> 2 powi 0"
      by (intro power_int_increasing) simp_all
    with b(2) assms(1) show False by simp
  qed
  define e where "e = t - 52"
  have e: "max (ilog 2 a - 52) (- 1074) = e"
    using t by (simp add: e_def t_def)
  define p where "p = (2 :: rat) powi e"
  have p: "0 < p" by (simp add: p_def)
  have "p = 2 powi t / 2 powi 52"
    unfolding p_def e_def by (rule power_int_diff) simp
  then have pa: "p \<le> a / 2 ^ 52"
    using b(1) by (simp add: divide_right_mono)
  define x where "x = of_int (rne (a / p)) * p"
  have "x - a = (of_int (rne (a / p)) - a / p) * p"
    using p by (simp add: x_def algebra_simps)
  then have "\<bar>x - a\<bar> = \<bar>of_int (rne (a / p)) - a / p\<bar> * p"
    using p by (simp add: abs_mult)
  also have "\<dots> \<le> 1 / 2 * p"
    using rne_error [of "a / p"] p by (intro mult_right_mono) simp_all
  also have "\<dots> \<le> 1 / 2 * (a / 2 ^ 52)"
    using pa by simp
  also have "\<dots> = a / 2 ^ 53" by simp
  finally have err: "\<bar>x - a\<bar> \<le> a / 2 ^ 53" .
  have "a / 2 ^ 53 \<le> a" using a by (simp add: divide_le_eq)
  with err have "x \<le> 2 * a" by linarith
  also have "\<dots> < 2 * 2 ^ 1023" using assms(2) by simp
  finally have o: "\<not> overflow_bound \<le> x" by (simp add: overflow_bound_def)
  have "fl a = Fin x"
    using a o by (simp add: fl_def Let_def e p_def [symmetric] x_def [symmetric])
  with err show ?thesis by blast
qed

subsection \<open>The number formatter\<close>

lemma dec_not_Nil: "dec n \<noteq> []"
  by (subst dec.simps) simp

lemma dec_digit: "n < 10 \<Longrightarrow> dec n = [digit n]"
  by (subst dec.simps) simp

lemma toFixed_one_decimal:
  assumes "0 \<le> x" and "x < 10 ^ 21"
  shows "toFixed (Fin x) 1 = one_decimal x"
proof -
  define n where "n = nat \<lfloor>x * 10 + 1 / 2\<rfloor>"
  have m: "n mod 10 < 10" by simp
  show ?thesis
  proof (cases "n < 10")
    case True
    with assms show ?thesis
      by (simp add: toFixed_def one_decimal_def n_def [symmetric] Let_def dec_digit)
  next
    case False
    then have d: "dec n = dec (n div 10) @ [digit (n mod 10)]"
      by (subst dec.simps) simp
    have "length (dec (n div 10)) \<noteq> 0" using dec_not_Nil by simp
    with assms show ?thesis
      by (simp add: toFixed_def one_decimal_def n_def [symmetric] Let_def d dec_digit [OF m])
  qed
qed

lemma formatted_thousands:
  assumes "1000 \<le> q" and "q < 1000000"
  shows "\<exists>x. fl (q / 1000) = Fin x \<and> \<bar>x - q / 1000\<bar> \<le> q / 1000 / 2 ^ 53 \<and>
             toFixed (num_div (Fin q) 1000) 1 = one_decimal x"
proof -
  have "1 \<le> q / 1000" using assms(1) by simp
  moreover have "q / 1000 < 2 ^ 1023" using assms(2) by simp
  ultimately obtain x where x: "fl (q / 1000) = Fin x" "\<bar>x - q / 1000\<bar> \<le> q / 1000 / 2 ^ 53"
    using fl_normal by blast
  define c where "c = q / 1000 / 2 ^ 53"
  have c: "0 \<le> c" "c \<le> q / 1000"
    using assms(1) by (simp_all add: c_def)
  have "\<bar>x - q / 1000\<bar> \<le> c" using x(2) by (simp only: c_def)
  then have "x - q / 1000 \<le> c" "q / 1000 - x \<le> c"
    by (simp_all only: abs_le_iff minus_diff_eq)
  with c assms have "0 \<le> x" "x < 2000" by linarith+
  then have "0 \<le> x" "x < 10 ^ 21" by simp_all
  then have "toFixed (Fin x) 1 = one_decimal x" by (rule toFixed_one_decimal)
  with x show ?thesis by simp
qed

lemma formatted_millions:
  assumes "1000000 \<le> q" and "q < 5 * 10 ^ 26"
  shows "\<exists>x. fl (q / 1000000) = Fin x \<and> \<bar>x - q / 1000000\<bar> \<le> q / 1000000 / 2 ^ 53 \<and>
             toFixed (num_div (Fin q) 1000000) 1 = one_decimal x"
proof -
  have "1 \<le> q / 1000000" using assms(1) by simp
  moreover have "q / 1000000 < 2 ^ 1023" using assms(2) by simp
  ultimately obtain x where x: "fl (q / 1000000) = Fin x"
      "\<bar>x - q / 1000000\<bar> \<le> q / 1000000 / 2 ^ 53"
    using fl_normal by blast
  define c where "c = q / 1000000 / 2 ^ 53"
  have c: "0 \<le> c" "c \<le> q / 1000000"
    using assms(1) by (simp_all add: c_def)
  have "\<bar>x - q / 1000000\<bar> \<le> c" using x(2) by (simp only: c_def)
  then have "x - q / 1000000 \<le> c" "q / 1000000 - x \<le> c"
    by (simp_all only: abs_le_iff minus_diff_eq)
  moreover have "q < 500000000000000000000000000" using assms(2) by simp
  ultimately have "0 \<le> x" "x < 1000000000000000000000" using c assms(1) by linarith+
  then have "0 \<le> x" "x < 10 ^ 21" by simp_all
  then have "toFixed (Fin x) 1 = one_decimal x" by (rule toFixed_one_decimal)
  with x show ?thesis by simp
qed

lemma exact_tenths_thousands:
  assumes "\<bar>(x :: rat) - of_nat n / 1000\<bar> \<le> of_nat n / 1000 / 2 ^ 53" and "n < 2 ^ 53"
  shows "\<bar>of_nat (nat \<lfloor>x * 10 + 1 / 2\<rfloor>) / 10 - of_nat n / 1000\<bar> \<le> (1 / 20 :: rat)"
proof -
  define T where "T = \<lfloor>x * 10 + 1 / 2\<rfloor>"
  define N where "N = int n"
  have N: "0 \<le> N" "(of_int N :: rat) < 2 ^ 53"
    using assms(2) by (simp_all add: N_def)
  define c where "c = (of_int N :: rat) / 1000 / 2 ^ 53"
  have c: "0 \<le> c" "c * 1000 < 1" "c \<le> of_int N / 1000"
    using N by (simp_all add: c_def)
  have NN: "(0 :: rat) \<le> of_int N" using N by simp
  have "\<bar>x - of_int N / 1000\<bar> \<le> c"
    using assms(1) by (simp only: c_def N_def of_int_of_nat_eq)
  then have x: "x - of_int N / 1000 \<le> c" "of_int N / 1000 - x \<le> c"
    by (simp_all only: abs_le_iff minus_diff_eq)
  have T: "of_int T \<le> x * 10 + 1 / 2" "x * 10 + 1 / 2 < of_int T + 1"
    unfolding T_def by linarith+
  have "0 \<le> x" using x c NN by linarith
  then have T0: "0 \<le> T" by (simp add: T_def)
  have "(of_int (100 * T - N) :: rat) < 51" "- 51 < (of_int (100 * T - N) :: rat)"
    using x T c by (simp_all only: of_int_diff of_int_mult of_int_numeral)
  then have "(of_int (100 * T - N) :: rat) < of_int 51" "of_int (- 51) < (of_int (100 * T - N) :: rat)"
    by simp_all
  then have "100 * T - N < 51" "- 51 < 100 * T - N"
    by (simp_all only: of_int_less_iff)
  then have "- 50 \<le> 100 * T - N" "100 * T - N \<le> 50" by simp_all
  then have "(of_int (- 50) :: rat) \<le> of_int (100 * T - N)" "(of_int (100 * T - N) :: rat) \<le> of_int 50"
    by (simp_all only: of_int_le_iff)
  then have "- 50 \<le> 100 * (of_int T :: rat) - of_int N" "100 * (of_int T :: rat) - of_int N \<le> 50"
    by simp_all
  then have "\<bar>(of_int T :: rat) / 10 - of_int N / 1000\<bar> \<le> 1 / 20"
    by (simp only: abs_le_iff minus_diff_eq) linarith
  with T0 show ?thesis by (simp add: T_def N_def)
qed

lemma exact_tenths_millions:
  assumes "\<bar>(x :: rat) - of_nat n / 1000000\<bar> \<le> of_nat n / 1000000 / 2 ^ 53" and "n < 2 ^ 53"
  shows "\<bar>of_nat (nat \<lfloor>x * 10 + 1 / 2\<rfloor>) / 10 - of_nat n / 1000000\<bar> \<le> (1 / 20 :: rat)"
proof -
  define T where "T = \<lfloor>x * 10 + 1 / 2\<rfloor>"
  define N where "N = int n"
  have N: "0 \<le> N" "(of_int N :: rat) < 2 ^ 53"
    using assms(2) by (simp_all add: N_def)
  define c where "c = (of_int N :: rat) / 1000000 / 2 ^ 53"
  have c: "0 \<le> c" "c * 1000000 < 1" "c \<le> of_int N / 1000000"
    using N by (simp_all add: c_def)
  have NN: "(0 :: rat) \<le> of_int N" using N by simp
  have "\<bar>x - of_int N / 1000000\<bar> \<le> c"
    using assms(1) by (simp only: c_def N_def of_int_of_nat_eq)
  then have x: "x - of_int N / 1000000 \<le> c" "of_int N / 1000000 - x \<le> c"
    by (simp_all only: abs_le_iff minus_diff_eq)
  have T: "of_int T \<le> x * 10 + 1 / 2" "x * 10 + 1 / 2 < of_int T + 1"
    unfolding T_def by linarith+
  have "0 \<le> x" using x c NN by linarith
  then have T0: "0 \<le> T" by (simp add: T_def)
  have "(of_int (100000 * T - N) :: rat) < 50001" "- 50001 < (of_int (100000 * T - N) :: rat)"
    using x T c by (simp_all only: of_int_diff of_int_mult of_int_numeral)
  then have "(of_int (100000 * T - N) :: rat) < of_int 50001" "of_int (- 50001) < (of_int (100000 * T - N) :: rat)"
    by simp_all
  then have "100000 * T - N < 50001" "- 50001 < 100000 * T - N"
    by (simp_all only: of_int_less_iff)
  then have "- 50000 \<le> 100000 * T - N" "100000 * T - N \<le> 50000" by simp_all
  then have "(of_int (- 50000) :: rat) \<le> of_int (100000 * T - N)" "(of_int (100000 * T - N) :: rat) \<le> of_int 50000"
    by (simp_all only: of_int_le_iff)
  then have "- 50000 \<le> 100000 * (of_int T :: rat) - of_int N" "100000 * (of_int T :: rat) - of_int N \<le> 50000"
    by simp_all
  then have "\<bar>(of_int T :: rat) / 10 - of_int N / 1000000\<bar> \<le> 1 / 20"
    by (simp only: abs_le_iff minus_diff_eq) linarith
  with T0 show ?thesis by (simp add: T_def N_def)
qed

subsection \<open>A number beyond the range of \<open>toFixed\<close>\<close>

lemma ilog2_unique:
  assumes "0 < q" and "2 powi t \<le> q" and "q < 2 powi (t + 1)"
  shows "ilog 2 q = t"
proof -
  have b: "2 powi (ilog 2 q) \<le> q" "q < 2 powi (ilog 2 q + 1)"
    using ilog2_bounds [OF assms(1)] by simp_all
  have l: "(2 :: rat) powi (ilog 2 q) < 2 powi (t + 1)"
    using b(1) assms(3) by simp
  have "ilog 2 q < t + 1"
  proof (rule ccontr)
    assume "\<not> ilog 2 q < t + 1"
    then have "(2 :: rat) powi (t + 1) \<le> 2 powi (ilog 2 q)"
      by (intro power_int_increasing) simp_all
    with l show False by simp
  qed
  moreover have u: "(2 :: rat) powi t < 2 powi (ilog 2 q + 1)"
    using assms(2) b(2) by simp
  have "t < ilog 2 q + 1"
  proof (rule ccontr)
    assume "\<not> t < ilog 2 q + 1"
    then have "(2 :: rat) powi (ilog 2 q + 1) \<le> 2 powi t"
      by (intro power_int_increasing) simp_all
    with u show False by simp
  qed
  ultimately show ?thesis by simp
qed

lemma fl_eval:
  assumes "0 < q" and "2 powi t \<le> q" and "q < 2 powi (t + 1)" and "- 1022 \<le> t"
    and "v = of_int (rne (q / 2 powi (t - 52))) * 2 powi (t - 52)"
    and "v < overflow_bound"
  shows "fl q = Fin v"
proof -
  have "ilog 2 q = t" using assms(1-3) by (rule ilog2_unique)
  moreover have "max (t - 52) (- 1074) = t - 52" using assms(4) by simp
  ultimately show ?thesis
    using assms(1,5,6) by (simp add: fl_def Let_def)
qed

lemma rne_numeral [simp]: "rne (numeral k) = numeral k"
  using rne_of_int [of "numeral k"] by simp

lemma floor_rat_numerals [simp]: "\<lfloor>(numeral a :: rat) / numeral b\<rfloor> = numeral a div numeral b"
  by (metis floor_divide_of_int_eq of_int_numeral)

lemma fl_sextillion: "fl 1000000000000000000000 = Fin 1000000000000000000000"
  by (rule fl_eval [where t = 69]) (simp_all add: overflow_bound_def)

lemma fl_two_sextillion: "fl 2000000000000000000000 = Fin 2000000000000000000000"
  by (rule fl_eval [where t = 70]) (simp_all add: overflow_bound_def)

lemma fl_octillion_quotient:
  "fl (1000000000000000013287555072 / 1000000) = Fin 1000000000000000000000"
  by (rule fl_eval [where t = 69]) (simp_all add: overflow_bound_def rne_def Let_def)

lemma ilog10_sextillion: "ilog 10 1000000000000000000000 = 21"
proof -
  have "floorlog 10 (1 * 10 ^ 21) = floorlog 10 1 + 21"
    by (rule floorlog_power) simp_all
  moreover have "floorlog 10 1 = 1" by (simp add: compute_floorlog)
  ultimately have "floorlog 10 1000000000000000000000 = 22" by simp
  moreover have "floorlog 10 (Suc 0) = 1" by (simp add: compute_floorlog)
  ultimately show ?thesis by (simp add: ilog_def)
qed

lemma digits_sextillion: "shortest_digits 1000000000000000000000 = (22, 1, 1)"
proof -
  have "digits_at 1000000000000000000000 21 1 = Some (22, 1)"
    by (simp add: digits_at_def fl_sextillion fl_two_sextillion)
  moreover have "(17 :: nat) = Suc 16" by simp
  ultimately show ?thesis
    by (simp only: shortest_digits_def ilog10_sextillion shortest_from.simps option.case
        prod.case)
qed

lemma toFixed_sextillion: "toFixed (Fin 1000000000000000000000) 1 = str ''1e+21''"
proof -
  have "dec 1 = str ''1''" by (rule dec_1)
  moreover have "dec 21 = str ''21''"
    by (simp add: dec.simps digit_def str_def)
  ultimately have "format_digits (22, 1, 1) = str ''1e+21''"
    by (simp add: format_digits_def str_def)
  then show ?thesis
    by (simp add: toFixed_def pos_toString_def digits_sextillion)
qed

subsection \<open>The cases of the formatter\<close>




end
